theory Spec2Isabelle
  imports Complex_Main "HOL-Library.Char_ord" "HOL-Library.List_Lexorder"
begin

section \<open>Values, rows and the store\<close>

text \<open>
  The handlers of \<^verbatim>\<open>src/app/api/public/v1/contacts/route.ts\<close> and
  \<^verbatim>\<open>src/app/api/public/v1/contacts/[contactId]/route.ts\<close> move JSON values between a
  request body and rows of two tables. A JSON value is a \<open>jsonv\<close>; \<open>JOther\<close> stands
  for a nested array or object, which none of the schemas accepts. A JavaScript object
  (a row, an update payload, a response's \<open>data\<close>) is a map from keys to values: a key
  that is not in the map is \<^verbatim>\<open>undefined\<close>, a key mapped to \<open>JNull\<close> is \<^verbatim>\<open>null\<close>.
\<close>

datatype jsonv = JNull | JBool bool | JNum rat | JStr string | JOther

type_synonym obj = "string \<rightharpoonup> jsonv"

text \<open>The body after \<^verbatim>\<open>request.json().catch(() => null)\<close>: \<open>None\<close> when the body is
  not JSON or not a JSON object, otherwise the object's members.\<close>

type_synonym body = "(string \<times> jsonv) list option"

record store =
  contacts :: "obj list"
  companies :: "obj list"

text \<open>The calls the handlers make on the Record Store Adapter, in the order of the source.\<close>

datatype store_op =
  CompanySelect | CompanyInsert | ContactLookup | ContactUpdate | ContactInsert
  | ContactList | ContactGet | ContactPatch

text \<open>
  Everything a handler reads that is not under \<^verbatim>\<open>src/\<close>: the helpers of
  \<^verbatim>\<open>@/lib/public-api/sanitize\<close>, \<^verbatim>\<open>@/lib/public-api/cursor\<close> and
  \<^verbatim>\<open>@/lib/supabase/utils\<close>, the check behind zod's \<^verbatim>\<open>.uuid()\<close>, JavaScript's
  \<^verbatim>\<open>Date\<close> and \<^verbatim>\<open>Number\<close>, the clock, and the behaviour of the store for this
  request. They are parameters: the theorems hold for every choice of them.
  A helper's argument and result are \<open>string option\<close>, \<open>None\<close> for \<^verbatim>\<open>null\<close> or
  \<^verbatim>\<open>undefined\<close>.
  A character stands for one code unit of a JavaScript string; the strings of the model
  are those whose code units are below 256.
  \<^item> \<open>white_space c\<close> tells whether \<^verbatim>\<open>String.prototype.trim\<close> strips the character;
  \<^item> \<open>jsDate s\<close> is \<^verbatim>\<open>new Date(s).toISOString()\<close>, \<open>None\<close> when the time value is NaN;
  \<^item> \<open>fold_case c\<close> is the character as the database compares it in \<^verbatim>\<open>ILIKE\<close>, where
    letter case does not count;
  \<^item> \<open>fault op\<close> is the message of the failure the adapter reports at the call \<open>op\<close>,
    \<open>None\<close> when it reports none;
  \<^item> \<open>or_filter f r\<close> tells whether the adapter selects the row \<open>r\<close> for the filter
    string \<open>f\<close> given to \<^verbatim>\<open>.or(...)\<close>;
  \<^item> \<open>new_company_id\<close> and \<open>new_contact_id\<close> are the ids the database gives to an
    inserted row; \<open>now_company\<close> and \<open>now\<close> are the two readings of the clock.
\<close>

record env =
  normalizeText :: "string option \<Rightarrow> string option"
  normalizeEmail :: "string option \<Rightarrow> string option"
  normalizePhone :: "string option \<Rightarrow> string option"
  sanitizeUUID :: "string option \<Rightarrow> string option"
  isValidUUID :: "string \<Rightarrow> bool"
  zod_uuid :: "string \<Rightarrow> bool"
  white_space :: "char \<Rightarrow> bool"
  jsDate :: "string \<Rightarrow> string option"
  strToNumber :: "string \<Rightarrow> jsonv"
  parseLimit :: "string option \<Rightarrow> nat"
  decodeOffsetCursor :: "string option \<Rightarrow> nat"
  encodeOffsetCursor :: "nat \<Rightarrow> string"
  fault :: "store_op \<Rightarrow> string option"
  or_filter :: "string \<Rightarrow> obj \<Rightarrow> bool"
  fold_case :: "char \<Rightarrow> char"
  new_company_id :: string
  new_contact_id :: string
  now_company :: string
  now :: string

section \<open>JavaScript's strings and truthiness\<close>

text \<open>\<^verbatim>\<open>!x\<close> for a string or null: null, undefined and the empty string are falsy.\<close>

definition truthy :: "string option \<Rightarrow> bool" where
  "truthy x = (case x of None \<Rightarrow> False | Some s \<Rightarrow> s \<noteq> [])"

text \<open>Truthiness of a value the adapter returned (\<^verbatim>\<open>existing.data?.id\<close>).\<close>

fun js_truthy :: "jsonv \<Rightarrow> bool" where
  "js_truthy JNull = False"
| "js_truthy (JBool b) = b"
| "js_truthy (JNum n) = (n \<noteq> 0)"
| "js_truthy (JStr s) = (s \<noteq> [])"
| "js_truthy JOther = True"

definition ostr :: "string option \<Rightarrow> jsonv" where
  "ostr x = (case x of None \<Rightarrow> JNull | Some s \<Rightarrow> JStr s)"

text \<open>\<^verbatim>\<open>String.prototype.trim\<close>: the string without the white space at its two ends.\<close>

definition trim_by :: "(char \<Rightarrow> bool) \<Rightarrow> string \<Rightarrow> string" where
  "trim_by sp s = rev (dropWhile sp (rev (dropWhile sp s)))"

definition trim :: "env \<Rightarrow> string \<Rightarrow> string" where
  "trim e s = trim_by (white_space e) s"

definition is_digit :: "char \<Rightarrow> bool" where
  "is_digit c = (c \<in> set ''0123456789'')"

text \<open>The regular expression \<^verbatim>\<open>/^\d{4}-\d{2}-\d{2}$/\<close>.\<close>

fun date_shape :: "string \<Rightarrow> bool" where
  "date_shape [y1, y2, y3, y4, d1, m1, m2, d2, a1, a2] =
     (is_digit y1 \<and> is_digit y2 \<and> is_digit y3 \<and> is_digit y4 \<and> d1 = CHR ''-'' \<and>
      is_digit m1 \<and> is_digit m2 \<and> d2 = CHR ''-'' \<and> is_digit a1 \<and> is_digit a2)"
| "date_shape _ = False"

definition INVALID :: string where
  "INVALID = ''__INVALID__''"

text \<open>\<^verbatim>\<open>toIsoDateString\<close> and \<^verbatim>\<open>toIsoTimestamp\<close>, the same in both route files. The result
  is a string or null, and the string \<^verbatim>\<open>'__INVALID__'\<close> is the sentinel, as in the source.\<close>

definition toIsoDateString :: "env \<Rightarrow> string option \<Rightarrow> string option" where
  "toIsoDateString e v =
     (let s = trim e (case v of None \<Rightarrow> [] | Some x \<Rightarrow> x) in
      if s = [] then None
      else if date_shape s then Some s
      else (case jsDate e s of None \<Rightarrow> Some INVALID | Some d \<Rightarrow> Some (take 10 d)))"

definition toIsoTimestamp :: "env \<Rightarrow> string option \<Rightarrow> string option" where
  "toIsoTimestamp e v =
     (let s = trim e (case v of None \<Rightarrow> [] | Some x \<Rightarrow> x) in
      if s = [] then None
      else (case jsDate e s of None \<Rightarrow> Some INVALID | Some d \<Rightarrow> Some d))"

section \<open>The Record Store Adapter\<close>

text \<open>
  The adapter is the Supabase client: every call names a table, filters, and a way to
  read the result. It is not part of the repository; this is its behaviour as the
  handlers use it. A column a row does not carry reads as null.
\<close>

definition col :: "obj \<Rightarrow> string \<Rightarrow> jsonv" where
  "col r k = (case r k of None \<Rightarrow> JNull | Some v \<Rightarrow> v)"

text \<open>\<^verbatim>\<open>.eq('organization_id', org).is('deleted_at', null)\<close>\<close>

definition live :: "string \<Rightarrow> obj \<Rightarrow> bool" where
  "live org r = (col r ''organization_id'' = JStr org \<and> col r ''deleted_at'' = JNull)"

text \<open>\<^verbatim>\<open>.select('a,b,...')\<close>: the row restricted to the selected columns.\<close>

definition project :: "string list \<Rightarrow> obj \<Rightarrow> obj" where
  "project cols r = (\<lambda>k. if k \<in> set cols then Some (col r k) else None)"

definition contact_columns :: "string list" where
  "contact_columns =
     [''id'', ''name'', ''email'', ''phone'', ''role'', ''company_name'', ''client_company_id'',
      ''avatar'', ''notes'', ''status'', ''stage'', ''source'', ''birth_date'',
      ''last_interaction'', ''last_purchase_date'', ''total_value'', ''created_at'',
      ''updated_at'']"

definition multiple_rows :: string where
  "multiple_rows = ''JSON object requested, multiple (or no) rows returned''"

text \<open>
  \<^verbatim>\<open>.maybeSingle()\<close>: the failure the adapter reports if any; otherwise null for no
  row, the row when there is one, and an error of its own when there are several.
  \<^verbatim>\<open>.single()\<close> is the same, with an error for no row too. An update read in one of
  these two ways that finds several rows is refused as a whole: no row changes.
\<close>

definition maybeSingle :: "string option \<Rightarrow> obj list \<Rightarrow> string + obj option" where
  "maybeSingle flt rows =
     (case flt of
        Some m \<Rightarrow> Inl m
      | None \<Rightarrow>
          (case rows of
             [] \<Rightarrow> Inr None
           | [r] \<Rightarrow> Inr (Some r)
           | _ # _ # _ \<Rightarrow> Inl multiple_rows))"

text \<open>\<^verbatim>\<open>x.data?.id\<close>\<close>

definition data_id :: "obj option \<Rightarrow> jsonv" where
  "data_id d = (case d of None \<Rightarrow> JNull | Some r \<Rightarrow> col r ''id'')"

text \<open>
  \<^verbatim>\<open>.ilike(column, pattern)\<close> is PostgreSQL's \<^verbatim>\<open>ILIKE\<close>: in the pattern \<^verbatim>\<open>%\<close>
  matches any run of characters, \<^verbatim>\<open>_\<close> any one character, a backslash takes the next
  character literally, and PostgREST reads \<^verbatim>\<open>*\<close> as \<^verbatim>\<open>%\<close>. Two characters match when
  the database folds them to the same one. The matching is the one of PostgreSQL's
  \<^verbatim>\<open>MatchText\<close>, pattern first here: \<open>after_percent\<close> is its treatment of what follows a
  \<^verbatim>\<open>%\<close> and \<open>scan_text\<close> its search for a place where the rest matches. \<open>LIKE_ABORT\<close>
  is a failed match that ends the search; \<open>LIKE_ERROR\<close> is the error PostgreSQL raises
  when it reads a backslash that ends the pattern, and a row whose matching raises it
  makes the whole query fail.
\<close>

datatype like_result = LIKE_TRUE | LIKE_FALSE | LIKE_ABORT | LIKE_ERROR

fun like_match :: "(char \<Rightarrow> char) \<Rightarrow> string \<Rightarrow> string \<Rightarrow> like_result"
  and after_percent :: "(char \<Rightarrow> char) \<Rightarrow> string \<Rightarrow> string \<Rightarrow> like_result"
  and scan_text :: "(char \<Rightarrow> char) \<Rightarrow> char \<Rightarrow> string \<Rightarrow> string \<Rightarrow> like_result" where
  "like_match f [] [] = LIKE_TRUE"
| "like_match f [] (c # cs) = LIKE_FALSE"
| "like_match f (p # ps) [] =
     (if list_all (\<lambda>x. x = CHR ''%'') (p # ps) then LIKE_TRUE else LIKE_ABORT)"
| "like_match f (p # ps) (c # cs) =
     (if p = CHR 0x5C then
        (case ps of
           [] \<Rightarrow> LIKE_ERROR
         | q # qs \<Rightarrow> if f q \<noteq> f c then LIKE_FALSE else like_match f qs cs)
      else if p = CHR ''%'' then after_percent f ps (c # cs)
      else if p = CHR ''_'' then like_match f ps cs
      else if f p \<noteq> f c then LIKE_FALSE
      else like_match f ps cs)"
| "after_percent f [] t = LIKE_TRUE"
| "after_percent f (p # ps) t =
     (if p = CHR ''%'' then after_percent f ps t
      else if p = CHR ''_'' then
        (case t of [] \<Rightarrow> LIKE_ABORT | c # cs \<Rightarrow> after_percent f ps cs)
      else if p = CHR 0x5C then
        (case ps of
           [] \<Rightarrow> LIKE_ERROR
         | q # qs \<Rightarrow> scan_text f (f q) (p # ps) t)
      else scan_text f (f p) (p # ps) t)"
| "scan_text f firstpat ps [] = LIKE_ABORT"
| "scan_text f firstpat ps (c # cs) =
     (if f c = firstpat then
        (case like_match f ps (c # cs) of
           LIKE_FALSE \<Rightarrow> scan_text f firstpat ps cs
         | matched \<Rightarrow> matched)
      else scan_text f firstpat ps cs)"

definition ilike_by :: "(char \<Rightarrow> char) \<Rightarrow> string \<Rightarrow> string \<Rightarrow> like_result" where
  "ilike_by f pattern t =
     like_match f (map (\<lambda>c. if c = CHR ''*'' then CHR ''%'' else c) pattern) t"

text \<open>The condition on a column; a value that is no string (a null) never matches.\<close>

definition ilike_col_by :: "(char \<Rightarrow> char) \<Rightarrow> string \<Rightarrow> string \<Rightarrow> obj \<Rightarrow> like_result" where
  "ilike_col_by f k pattern r =
     (case col r k of JStr t \<Rightarrow> ilike_by f pattern t | _ \<Rightarrow> LIKE_FALSE)"

definition ilike_col :: "env \<Rightarrow> string \<Rightarrow> string \<Rightarrow> obj \<Rightarrow> like_result" where
  "ilike_col e k pattern r = ilike_col_by (fold_case e) k pattern r"

definition dangling_escape :: string where
  "dangling_escape = ''LIKE pattern must not end with escape character''"

section \<open>Responses\<close>

datatype auth_result = AuthFail nat jsonv | AuthOk string

datatype resp_body =
  AuthBody jsonv
  | ErrorBody string string
  | DataBody obj
  | UpsertBody obj string
  | ListBody "obj list" "string option"

datatype response = Response nat resp_body

definition VALIDATION_ERROR :: string where
  "VALIDATION_ERROR = ''VALIDATION_ERROR''"

definition NOT_FOUND :: string where
  "NOT_FOUND = ''NOT_FOUND''"

definition DB_ERROR :: string where
  "DB_ERROR = ''DB_ERROR''"

definition err :: "nat \<Rightarrow> string \<Rightarrow> string \<Rightarrow> response" where
  "err s m c = Response s (ErrorBody m c)"

text \<open>A handler returns its response, the store as it leaves it, and the calls it made
  on the adapter, in order.\<close>

type_synonym outcome = "response \<times> store \<times> store_op list"

section \<open>The Company Resolver\<close>

text \<open>
  \<^verbatim>\<open>resolveCompanyIdFromName\<close> (route.ts, lines 47 to 70). \<open>Inl m\<close> is the thrown error
  with message \<open>m\<close>; \<open>Inr v\<close> is the returned id, \<open>JNull\<close> for null.
\<close>

definition company_row :: "env \<Rightarrow> string \<Rightarrow> string \<Rightarrow> obj" where
  "company_row e org name =
     map_of [(''id'', JStr (new_company_id e)), (''deleted_at'', JNull),
             (''organization_id'', JStr org), (''name'', JStr name),
             (''created_at'', JStr (now_company e)), (''updated_at'', JStr (now_company e))]"

text \<open>The select of lines 52 to 58: its rows, and the error the adapter reports for it,
  if any. The conditions on the tenant and on \<^verbatim>\<open>deleted_at\<close> are taken first, so the
  pattern is matched against the names of the tenant's live companies only.\<close>

definition company_matches :: "env \<Rightarrow> store \<Rightarrow> string \<Rightarrow> string \<Rightarrow> obj list" where
  "company_matches e st org name =
     filter (\<lambda>r. live org r \<and> ilike_col e ''name'' name r = LIKE_TRUE) (companies st)"

definition company_select_error :: "env \<Rightarrow> store \<Rightarrow> string \<Rightarrow> string \<Rightarrow> string option" where
  "company_select_error e st org name =
     (case fault e CompanySelect of
        Some m \<Rightarrow> Some m
      | None \<Rightarrow>
          if list_ex (\<lambda>r. live org r \<and> ilike_col e ''name'' name r = LIKE_ERROR) (companies st)
          then Some dangling_escape else None)"

definition resolveCompanyIdFromName ::
  "env \<Rightarrow> store \<Rightarrow> string \<Rightarrow> string \<Rightarrow> (string + jsonv) \<times> store \<times> store_op list" where
  "resolveCompanyIdFromName e st org companyName =
     (case normalizeText e (Some companyName) of
        None \<Rightarrow> (Inr JNull, st, [])
      | Some name \<Rightarrow>
          if name = [] then (Inr JNull, st, [])
          else
            (case maybeSingle (company_select_error e st org name)
                    (map (project [''id'']) (company_matches e st org name)) of
               Inl m \<Rightarrow> (Inl m, st, [CompanySelect])
             | Inr existing \<Rightarrow>
                 if js_truthy (data_id existing)
                 then (Inr (data_id existing), st, [CompanySelect])
                 else
                   (case fault e CompanyInsert of
                      Some m \<Rightarrow> (Inl m, st, [CompanySelect, CompanyInsert])
                    | None \<Rightarrow>
                        (Inr (JStr (new_company_id e)),
                         st\<lparr>companies := companies st @ [company_row e org name]\<rparr>,
                         [CompanySelect, CompanyInsert]))))"

section \<open>POST /contacts\<close>

text \<open>
  \<^verbatim>\<open>ContactUpsertSchema\<close> (route.ts, lines 11 to 27): a strict object, every member
  optional, strings but for \<^verbatim>\<open>client_company_id\<close> (a string zod takes for a UUID) and
  \<^verbatim>\<open>total_value\<close> (a number). The parsed data is the object itself.
\<close>

definition upsert_text_keys :: "string list" where
  "upsert_text_keys =
     [''name'', ''email'', ''phone'', ''role'', ''company_name'', ''avatar'', ''status'',
      ''stage'', ''birth_date'', ''last_interaction'', ''last_purchase_date'', ''source'',
      ''notes'']"

fun is_str :: "jsonv \<Rightarrow> bool" where
  "is_str (JStr s) = True"
| "is_str _ = False"

fun is_num :: "jsonv \<Rightarrow> bool" where
  "is_num (JNum n) = True"
| "is_num _ = False"

fun is_uuid_str :: "env \<Rightarrow> jsonv \<Rightarrow> bool" where
  "is_uuid_str e (JStr s) = zod_uuid e s"
| "is_uuid_str e _ = False"

definition upsert_member_ok :: "env \<Rightarrow> string \<times> jsonv \<Rightarrow> bool" where
  "upsert_member_ok e kv =
     (if fst kv \<in> set upsert_text_keys then is_str (snd kv)
      else if fst kv = ''client_company_id'' then is_uuid_str e (snd kv)
      else if fst kv = ''total_value'' then is_num (snd kv)
      else False)"

definition ContactUpsertSchema :: "env \<Rightarrow> body \<Rightarrow> obj option" where
  "ContactUpsertSchema e b =
     (case b of
        None \<Rightarrow> None
      | Some kvs \<Rightarrow> if list_all (upsert_member_ok e) kvs then Some (map_of kvs) else None)"

text \<open>\<^verbatim>\<open>parsed.data.k\<close> for a string member: the string, or undefined.\<close>

definition dstr :: "obj \<Rightarrow> string \<Rightarrow> string option" where
  "dstr d k = (case d k of Some (JStr s) \<Rightarrow> Some s | _ \<Rightarrow> None)"

definition sval :: "string option \<Rightarrow> string" where
  "sval x = (case x of None \<Rightarrow> [] | Some s \<Rightarrow> s)"

text \<open>The dedup lookup's filter (lines 176 to 178); the template string goes to the
  adapter as it is.\<close>

definition lookup_filter :: "env \<Rightarrow> string option \<Rightarrow> string option \<Rightarrow> obj \<Rightarrow> bool" where
  "lookup_filter e email phone r =
     (if truthy email \<and> truthy phone
      then or_filter e (''email.eq.'' @ sval email @ '',phone.eq.'' @ sval phone) r
      else if truthy email then col r ''email'' = JStr (sval email)
      else if truthy phone then col r ''phone'' = JStr (sval phone)
      else True)"

definition lookup_matches :: "env \<Rightarrow> store \<Rightarrow> string \<Rightarrow> string option \<Rightarrow> string option \<Rightarrow> obj list" where
  "lookup_matches e st org email phone =
     filter (\<lambda>r. live org r \<and> lookup_filter e email phone r) (contacts st)"

text \<open>
  The payload of lines 184 to 201. A member whose value is \<^verbatim>\<open>undefined\<close>
  (\<^verbatim>\<open>total_value\<close> when the body has none) is not sent to the adapter, so it is not in
  the map.
\<close>

definition upsert_payload ::
  "env \<Rightarrow> string \<Rightarrow> obj \<Rightarrow> string option \<Rightarrow> string option \<Rightarrow> string option \<Rightarrow> jsonv \<Rightarrow>
   string option \<Rightarrow> string option \<Rightarrow> string option \<Rightarrow> obj" where
  "upsert_payload e org d email phone companyName clientCompanyId birthDate lastInteraction
     lastPurchaseDate =
     map_of
       ([(''organization_id'', JStr org),
         (''email'', ostr email),
         (''phone'', ostr phone),
         (''role'', ostr (normalizeText e (dstr d ''role''))),
         (''company_name'', ostr companyName),
         (''client_company_id'', clientCompanyId),
         (''avatar'', ostr (normalizeText e (dstr d ''avatar''))),
         (''status'', ostr (normalizeText e (dstr d ''status''))),
         (''stage'', ostr (normalizeText e (dstr d ''stage''))),
         (''source'', ostr (normalizeText e (dstr d ''source''))),
         (''notes'', ostr (normalizeText e (dstr d ''notes''))),
         (''birth_date'', ostr birthDate),
         (''last_interaction'', ostr lastInteraction),
         (''last_purchase_date'', ostr lastPurchaseDate)]
        @ (case d ''total_value'' of None \<Rightarrow> [] | Some v \<Rightarrow> [(''total_value'', v)])
        @ [(''updated_at'', JStr (now e))])"

text \<open>Lines 161 to 168: the company id, given or resolved from the name.\<close>

definition company_step ::
  "env \<Rightarrow> store \<Rightarrow> string \<Rightarrow> obj \<Rightarrow> string option \<Rightarrow> (string + jsonv) \<times> store \<times> store_op list" where
  "company_step e st org d companyName =
     (let given = sanitizeUUID e (dstr d ''client_company_id'');
          clientCompanyId = (if truthy given then ostr given else JNull)
      in if \<not> js_truthy clientCompanyId \<and> truthy companyName
         then resolveCompanyIdFromName e st org (sval companyName)
         else (Inr clientCompanyId, st, []))"

text \<open>Lines 203 to 213: the update of the contact the lookup found.\<close>

definition update_path :: "env \<Rightarrow> store \<Rightarrow> store_op list \<Rightarrow> jsonv \<Rightarrow> obj \<Rightarrow> outcome" where
  "update_path e st tr i payload =
     (case fault e ContactUpdate of
        Some m \<Rightarrow> (err 500 m DB_ERROR, st, tr @ [ContactUpdate])
      | None \<Rightarrow>
          (case filter (\<lambda>r. col r ''id'' = i) (contacts st) of
             [r] \<Rightarrow>
               (Response 200 (UpsertBody (project contact_columns (r ++ payload)) ''updated''),
                st\<lparr>contacts := map (\<lambda>r. if col r ''id'' = i then r ++ payload else r) (contacts st)\<rparr>,
                tr @ [ContactUpdate])
           | _ \<Rightarrow> (err 500 multiple_rows DB_ERROR, st, tr @ [ContactUpdate])))"

text \<open>Lines 215 to 233: the creation of a contact.\<close>

definition contact_row :: "env \<Rightarrow> obj \<Rightarrow> obj" where
  "contact_row e insertPayload =
     map_of [(''id'', JStr (new_contact_id e)), (''deleted_at'', JNull)] ++ insertPayload"

definition create_path :: "env \<Rightarrow> store \<Rightarrow> store_op list \<Rightarrow> string option \<Rightarrow> obj \<Rightarrow> outcome" where
  "create_path e st tr name payload =
     (if \<not> truthy name
      then (err 422 ''Name is required to create a new contact'' VALIDATION_ERROR, st, tr)
      else
        (let insertPayload =
               payload(''name'' \<mapsto> ostr name, ''created_at'' \<mapsto> JStr (now e),
                       ''status'' \<mapsto> JStr ''ACTIVE'', ''stage'' \<mapsto> JStr ''LEAD'')
         in case fault e ContactInsert of
              Some m \<Rightarrow> (err 500 m DB_ERROR, st, tr @ [ContactInsert])
            | None \<Rightarrow>
                (Response 201
                   (UpsertBody (project contact_columns (contact_row e insertPayload)) ''created''),
                 st\<lparr>contacts := contacts st @ [contact_row e insertPayload]\<rparr>,
                 tr @ [ContactInsert])))"

text \<open>Lines 161 to 234: everything after the checks of the body.\<close>

definition upsert ::
  "env \<Rightarrow> store \<Rightarrow> string \<Rightarrow> obj \<Rightarrow> string option \<Rightarrow> string option \<Rightarrow> string option \<Rightarrow>
   string option \<Rightarrow> string option \<Rightarrow> string option \<Rightarrow> string option \<Rightarrow> outcome" where
  "upsert e st org d email phone name companyName birthDate lastPurchaseDate lastInteraction =
     (case company_step e st org d companyName of
        (Inl m, st1, tr1) \<Rightarrow>
          (err 422 (if m \<noteq> [] then m else ''Invalid company'') VALIDATION_ERROR, st1, tr1)
      | (Inr clientCompanyId, st1, tr1) \<Rightarrow>
          (case maybeSingle (fault e ContactLookup)
                  (map (project [''id'']) (lookup_matches e st1 org email phone)) of
             Inl m \<Rightarrow> (err 500 m DB_ERROR, st1, tr1 @ [ContactLookup])
           | Inr existing \<Rightarrow>
               (let payload = upsert_payload e org d email phone companyName clientCompanyId
                                birthDate lastInteraction lastPurchaseDate
                in if js_truthy (data_id existing)
                   then update_path e st1 (tr1 @ [ContactLookup]) (data_id existing)
                          (if truthy name then payload(''name'' \<mapsto> ostr name) else payload)
                   else create_path e st1 (tr1 @ [ContactLookup]) name payload)))"

text \<open>\<^verbatim>\<open>POST\<close> (route.ts, lines 133 to 234).\<close>

definition POST :: "env \<Rightarrow> store \<Rightarrow> auth_result \<Rightarrow> body \<Rightarrow> outcome" where
  "POST e st a b =
     (case a of
        AuthFail s bd \<Rightarrow> (Response s (AuthBody bd), st, [])
      | AuthOk org \<Rightarrow>
          (case ContactUpsertSchema e b of
             None \<Rightarrow> (err 422 ''Invalid payload'' VALIDATION_ERROR, st, [])
           | Some d \<Rightarrow>
               (let email = normalizeEmail e (dstr d ''email'');
                    phone = normalizePhone e (dstr d ''phone'');
                    name = normalizeText e (dstr d ''name'');
                    companyName = normalizeText e (dstr d ''company_name'')
                in if \<not> truthy email \<and> \<not> truthy phone
                   then (err 422 ''Provide email or phone'' VALIDATION_ERROR, st, [])
                   else
                     (let birthDate = toIsoDateString e (dstr d ''birth_date'') in
                      if birthDate = Some INVALID
                      then (err 422 ''Invalid birth_date'' VALIDATION_ERROR, st, [])
                      else
                        (let lastPurchaseDate = toIsoDateString e (dstr d ''last_purchase_date'') in
                         if lastPurchaseDate = Some INVALID
                         then (err 422 ''Invalid last_purchase_date'' VALIDATION_ERROR, st, [])
                         else
                           (let lastInteraction = toIsoTimestamp e (dstr d ''last_interaction'') in
                            if lastInteraction = Some INVALID
                            then (err 422 ''Invalid last_interaction'' VALIDATION_ERROR, st, [])
                            else upsert e st org d email phone name companyName birthDate
                                   lastPurchaseDate lastInteraction))))))"

section \<open>GET /contacts\<close>

text \<open>\<^verbatim>\<open>.range(from, to)\<close>: the rows whose position, counted from 0, lies between
  \<open>from\<close> and \<open>to\<close>, both included.\<close>

definition range_rows :: "int \<Rightarrow> int \<Rightarrow> 'a list \<Rightarrow> 'a list" where
  "range_rows lo hi rows =
     map snd (filter (\<lambda>ir. lo \<le> int (fst ir) \<and> int (fst ir) \<le> hi) (enumerate 0 rows))"

text \<open>\<^verbatim>\<open>.order('created_at', { ascending: false })\<close>\<close>

definition created_key :: "obj \<Rightarrow> string" where
  "created_key r = (case col r ''created_at'' of JStr t \<Rightarrow> t | _ \<Rightarrow> [])"

definition order_created_desc :: "obj list \<Rightarrow> obj list" where
  "order_created_desc rows = rev (sort_key created_key rows)"

text \<open>\<^verbatim>\<open>Number(v)\<close>; the handlers apply it to the numeric column \<^verbatim>\<open>total_value\<close>
  only. The conversion of a string is a parameter, that of a nested value is left open.\<close>

definition Number_js :: "env \<Rightarrow> jsonv \<Rightarrow> jsonv" where
  "Number_js e v =
     (case v of
        JNum n \<Rightarrow> JNum n
      | JStr t \<Rightarrow> strToNumber e t
      | JBool b \<Rightarrow> JNum (if b then 1 else 0)
      | JNull \<Rightarrow> JNum 0
      | JOther \<Rightarrow> JOther)"

text \<open>The object built for each row (lines 109 to 128).\<close>

definition list_item :: "env \<Rightarrow> obj \<Rightarrow> obj" where
  "list_item e c =
     (\<lambda>k. if k = ''total_value''
               then Some (if col c ''total_value'' \<noteq> JNull
                          then Number_js e (col c ''total_value'') else JNull)
          else if k \<in> set contact_columns then Some (col c k)
          else None)"

definition query_get :: "(string \<times> string) list \<Rightarrow> string \<Rightarrow> string option" where
  "query_get params k = map_of params k"

text \<open>The rows of the query of lines 85 to 97, in its order.\<close>

definition list_query :: "env \<Rightarrow> store \<Rightarrow> string \<Rightarrow> (string \<times> string) list \<Rightarrow> obj list" where
  "list_query e st org params =
     (let q = trim e (sval (query_get params ''q''));
          email = normalizeEmail e (query_get params ''email'');
          phone = normalizePhone e (query_get params ''phone'');
          clientCompanyId = sanitizeUUID e (query_get params ''client_company_id'')
      in order_created_desc
           (filter
              (\<lambda>r. live org r
                 \<and> (truthy clientCompanyId \<longrightarrow> col r ''client_company_id'' = JStr (sval clientCompanyId))
                 \<and> (truthy email \<longrightarrow> col r ''email'' = JStr (sval email))
                 \<and> (truthy phone \<longrightarrow> col r ''phone'' = JStr (sval phone))
                 \<and> (q \<noteq> [] \<longrightarrow>
                      or_filter e
                        (''name.ilike.%'' @ q @ ''%,email.ilike.%'' @ q @ ''%,phone.ilike.%'' @ q @ ''%'')
                        r))
              (contacts st)))"

text \<open>\<^verbatim>\<open>GET\<close> (route.ts, lines 72 to 131).\<close>

definition GET_list :: "env \<Rightarrow> store \<Rightarrow> auth_result \<Rightarrow> (string \<times> string) list \<Rightarrow> outcome" where
  "GET_list e st a params =
     (case a of
        AuthFail s bd \<Rightarrow> (Response s (AuthBody bd), st, [])
      | AuthOk org \<Rightarrow>
          (let limit = parseLimit e (query_get params ''limit'');
               offset = decodeOffsetCursor e (query_get params ''cursor'');
               lo = int offset;
               hi = int offset + int limit - 1
           in case fault e ContactList of
                Some m \<Rightarrow> (err 500 m DB_ERROR, st, [ContactList])
              | None \<Rightarrow>
                  (let rows = list_query e st org params;
                       total = int (length rows);
                       nextOffset = hi + 1;
                       nextCursor = (if nextOffset < total
                                     then Some (encodeOffsetCursor e (nat nextOffset)) else None)
                   in (Response 200 (ListBody (map (list_item e) (range_rows lo hi rows)) nextCursor),
                       st, [ContactList]))))"

section \<open>GET and PATCH /contacts/{id}\<close>

text \<open>\<^verbatim>\<open>GET\<close> ([contactId]/route.ts, lines 46 to 68).\<close>

definition GET_by_id :: "env \<Rightarrow> store \<Rightarrow> auth_result \<Rightarrow> string \<Rightarrow> outcome" where
  "GET_by_id e st a contactId =
     (case a of
        AuthFail s bd \<Rightarrow> (Response s (AuthBody bd), st, [])
      | AuthOk org \<Rightarrow>
          if \<not> isValidUUID e contactId
          then (err 422 ''Invalid contact id'' VALIDATION_ERROR, st, [])
          else
            (case maybeSingle (fault e ContactGet)
                    (map (project contact_columns)
                       (filter (\<lambda>r. live org r \<and> col r ''id'' = JStr contactId) (contacts st))) of
               Inl m \<Rightarrow> (err 500 m DB_ERROR, st, [ContactGet])
             | Inr None \<Rightarrow> (err 404 ''Contact not found'' NOT_FOUND, st, [ContactGet])
             | Inr (Some d) \<Rightarrow> (Response 200 (DataBody d), st, [ContactGet])))"

text \<open>
  \<^verbatim>\<open>ContactPatchSchema\<close> ([contactId]/route.ts, lines 11 to 27): as the upsert's, with
  null allowed for \<^verbatim>\<open>client_company_id\<close>, the three dates and \<^verbatim>\<open>total_value\<close>.
\<close>

definition patch_text_keys :: "string list" where
  "patch_text_keys =
     [''name'', ''email'', ''phone'', ''role'', ''company_name'', ''avatar'', ''status'',
      ''stage'', ''source'', ''notes'']"

definition patch_date_keys :: "string list" where
  "patch_date_keys = [''birth_date'', ''last_interaction'', ''last_purchase_date'']"

definition patch_member_ok :: "env \<Rightarrow> string \<times> jsonv \<Rightarrow> bool" where
  "patch_member_ok e kv =
     (if fst kv \<in> set patch_text_keys then is_str (snd kv)
      else if fst kv \<in> set patch_date_keys then snd kv = JNull \<or> is_str (snd kv)
      else if fst kv = ''client_company_id'' then snd kv = JNull \<or> is_uuid_str e (snd kv)
      else if fst kv = ''total_value'' then snd kv = JNull \<or> is_num (snd kv)
      else False)"

definition ContactPatchSchema :: "env \<Rightarrow> body \<Rightarrow> obj option" where
  "ContactPatchSchema e b =
     (case b of
        None \<Rightarrow> None
      | Some kvs \<Rightarrow> if list_all (patch_member_ok e) kvs then Some (map_of kvs) else None)"

text \<open>A member's string, for the helpers: undefined for anything that is no string.\<close>

fun str :: "jsonv \<Rightarrow> string option" where
  "str (JStr s) = Some s"
| "str _ = None"

text \<open>\<^verbatim>\<open>if (parsed.data.k !== undefined) updates.k = f(parsed.data.k)\<close>\<close>

definition set_if_present :: "obj \<Rightarrow> string \<Rightarrow> (jsonv \<Rightarrow> jsonv) \<Rightarrow> (string \<times> jsonv) list" where
  "set_if_present d k f = (case d k of None \<Rightarrow> [] | Some v \<Rightarrow> [(k, f v)])"

definition patch_text :: "env \<Rightarrow> jsonv \<Rightarrow> jsonv" where
  "patch_text e v = ostr (normalizeText e (str v))"

definition patch_company_id :: "env \<Rightarrow> jsonv \<Rightarrow> jsonv" where
  "patch_company_id e v =
     (if v = JNull then JNull
      else (let u = sanitizeUUID e (str v) in if truthy u then ostr u else JNull))"

definition patch_date :: "env \<Rightarrow> jsonv \<Rightarrow> jsonv" where
  "patch_date e v = (if v = JNull then JNull else ostr (toIsoDateString e (str v)))"

definition patch_timestamp :: "env \<Rightarrow> jsonv \<Rightarrow> jsonv" where
  "patch_timestamp e v = (if v = JNull then JNull else ostr (toIsoTimestamp e (str v)))"

definition patch_number :: "env \<Rightarrow> jsonv \<Rightarrow> jsonv" where
  "patch_number e v = (if v = JNull then JNull else Number_js e v)"

text \<open>The \<^verbatim>\<open>updates\<close> object of lines 85 to 120, once no date has stopped the handler.\<close>

definition patch_updates :: "env \<Rightarrow> obj \<Rightarrow> obj" where
  "patch_updates e d =
     map_of
       (set_if_present d ''name'' (patch_text e)
        @ set_if_present d ''email'' (\<lambda>v. ostr (normalizeEmail e (str v)))
        @ set_if_present d ''phone'' (\<lambda>v. ostr (normalizePhone e (str v)))
        @ set_if_present d ''role'' (patch_text e)
        @ set_if_present d ''company_name'' (patch_text e)
        @ set_if_present d ''avatar'' (patch_text e)
        @ set_if_present d ''status'' (patch_text e)
        @ set_if_present d ''stage'' (patch_text e)
        @ set_if_present d ''source'' (patch_text e)
        @ set_if_present d ''notes'' (patch_text e)
        @ set_if_present d ''client_company_id'' (patch_company_id e)
        @ set_if_present d ''birth_date'' (patch_date e)
        @ set_if_present d ''last_purchase_date'' (patch_date e)
        @ set_if_present d ''last_interaction'' (patch_timestamp e)
        @ set_if_present d ''total_value'' (patch_number e)
        @ [(''updated_at'', JStr (now e))])"

text \<open>The three checks of lines 99 to 116, in the order of the source: the message of
  the first date that is the sentinel.\<close>

definition is_sentinel :: "obj \<Rightarrow> string \<Rightarrow> (jsonv \<Rightarrow> jsonv) \<Rightarrow> bool" where
  "is_sentinel d k f = (case d k of None \<Rightarrow> False | Some v \<Rightarrow> f v = JStr INVALID)"

definition patch_invalid_date :: "env \<Rightarrow> obj \<Rightarrow> string option" where
  "patch_invalid_date e d =
     (if is_sentinel d ''birth_date'' (patch_date e) then Some ''Invalid birth_date''
      else if is_sentinel d ''last_purchase_date'' (patch_date e)
      then Some ''Invalid last_purchase_date''
      else if is_sentinel d ''last_interaction'' (patch_timestamp e)
      then Some ''Invalid last_interaction''
      else None)"

text \<open>\<^verbatim>\<open>PATCH\<close> ([contactId]/route.ts, lines 70 to 135). The update is filtered by
  tenant and id only.\<close>

definition patch_target :: "string \<Rightarrow> string \<Rightarrow> obj \<Rightarrow> bool" where
  "patch_target org contactId r =
     (col r ''organization_id'' = JStr org \<and> col r ''id'' = JStr contactId)"

definition PATCH :: "env \<Rightarrow> store \<Rightarrow> auth_result \<Rightarrow> string \<Rightarrow> body \<Rightarrow> outcome" where
  "PATCH e st a contactId b =
     (case a of
        AuthFail s bd \<Rightarrow> (Response s (AuthBody bd), st, [])
      | AuthOk org \<Rightarrow>
          if \<not> isValidUUID e contactId
          then (err 422 ''Invalid contact id'' VALIDATION_ERROR, st, [])
          else
            (case ContactPatchSchema e b of
               None \<Rightarrow> (err 422 ''Invalid payload'' VALIDATION_ERROR, st, [])
             | Some d \<Rightarrow>
                 (case patch_invalid_date e d of
                    Some m \<Rightarrow> (err 422 m VALIDATION_ERROR, st, [])
                  | None \<Rightarrow>
                      (let updates = patch_updates e d in
                       case fault e ContactPatch of
                         Some m \<Rightarrow> (err 500 m DB_ERROR, st, [ContactPatch])
                       | None \<Rightarrow>
                           (case filter (patch_target org contactId) (contacts st) of
                              [] \<Rightarrow> (err 404 ''Contact not found'' NOT_FOUND, st, [ContactPatch])
                            | [r] \<Rightarrow>
                                (Response 200 (DataBody (project contact_columns (r ++ updates))),
                                 st\<lparr>contacts :=
                                      map (\<lambda>r. if patch_target org contactId r then r ++ updates else r)
                                        (contacts st)\<rparr>,
                                 [ContactPatch])
                            | _ # _ # _ \<Rightarrow> (err 500 multiple_rows DB_ERROR, st, [ContactPatch]))))))"

section \<open>The four handlers\<close>

text \<open>The routes of the two files: the framework calls the handler of the request's
  method and path.\<close>

datatype call =
  PostContacts body
  | ListContacts "(string \<times> string) list"
  | GetContact string
  | PatchContact string body

fun handle :: "env \<Rightarrow> store \<Rightarrow> auth_result \<Rightarrow> call \<Rightarrow> outcome" where
  "handle e st a (PostContacts b) = POST e st a b"
| "handle e st a (ListContacts params) = GET_list e st a params"
| "handle e st a (GetContact contactId) = GET_by_id e st a contactId"
| "handle e st a (PatchContact contactId b) = PATCH e st a contactId b"

section \<open>Notions the statements use\<close>

text \<open>The checks of the body that POST makes before its first call on the store (lines
  138 to 159): the schema, email or phone, and the three dates.\<close>

definition body_check_fails :: "env \<Rightarrow> body \<Rightarrow> bool" where
  "body_check_fails e b =
     (case ContactUpsertSchema e b of
        None \<Rightarrow> True
      | Some d \<Rightarrow>
          (\<not> truthy (normalizeEmail e (dstr d ''email''))
             \<and> \<not> truthy (normalizePhone e (dstr d ''phone'')))
          \<or> toIsoDateString e (dstr d ''birth_date'') = Some INVALID
          \<or> toIsoDateString e (dstr d ''last_purchase_date'') = Some INVALID
          \<or> toIsoTimestamp e (dstr d ''last_interaction'') = Some INVALID)"

text \<open>
  The contacts the lookup of an upsert is about: the non-deleted contacts of the tenant
  that have the email or the phone of the request. When the request has both, the adapter
  decides, reading the filter the handler builds from the two.
\<close>

definition matches :: "env \<Rightarrow> string \<Rightarrow> string option \<Rightarrow> string option \<Rightarrow> obj \<Rightarrow> bool" where
  "matches e org em ph r =
     (col r ''organization_id'' = JStr org \<and> col r ''deleted_at'' = JNull \<and>
      (if truthy em \<and> truthy ph
       then or_filter e (''email.eq.'' @ sval em @ '',phone.eq.'' @ sval ph) r
       else (truthy em \<and> col r ''email'' = JStr (sval em))
            \<or> (truthy ph \<and> col r ''phone'' = JStr (sval ph))))"

text \<open>The primary key of a table: the ids are distinct and none is null or empty.\<close>

definition keyed :: "obj list \<Rightarrow> bool" where
  "keyed rows =
     (distinct (map (\<lambda>r. col r ''id'') rows) \<and> list_all (\<lambda>r. js_truthy (col r ''id'')) rows)"

text \<open>How a failure of the adapter at the last call of a handler shows in the response:
  the catch around the company step (lines 163 to 167) answers 422, every other call 500.\<close>

definition surfaced :: "env \<Rightarrow> response \<Rightarrow> store_op list \<Rightarrow> bool" where
  "surfaced e resp tr =
     (distinct tr \<and> list_all (\<lambda>opr. fault e opr = None) (butlast tr) \<and>
      (tr = [] \<or>
       (case fault e (last tr) of
          None \<Rightarrow> True
        | Some m \<Rightarrow>
            resp = (if last tr \<in> set [CompanySelect, CompanyInsert]
                    then err 422 (if m \<noteq> [] then m else ''Invalid company'') VALIDATION_ERROR
                    else err 500 m DB_ERROR))))"

definition known_code :: "response \<Rightarrow> bool" where
  "known_code resp =
     (case resp of
        Response s (ErrorBody m c) \<Rightarrow> c \<in> set [VALIDATION_ERROR, NOT_FOUND, DB_ERROR]
      | _ \<Rightarrow> True)"

text \<open>A name without the characters a pattern reads specially.\<close>

definition pattern_chars :: "char list" where
  "pattern_chars = [CHR ''%'', CHR ''_'', CHR 0x5C, CHR ''*'']"

definition plain :: "string \<Rightarrow> bool" where
  "plain s = list_all (\<lambda>c. c \<notin> set pattern_chars) s"

text \<open>The company \<open>r\<close> has the name \<open>n\<close>, letter case apart.\<close>

definition same_name :: "env \<Rightarrow> string \<Rightarrow> obj \<Rightarrow> bool" where
  "same_name e n r =
     (case col r ''name'' of
        JStr t \<Rightarrow> map (fold_case e) t = map (fold_case e) n
      | _ \<Rightarrow> False)"

definition named_companies :: "env \<Rightarrow> store \<Rightarrow> string \<Rightarrow> string \<Rightarrow> obj list" where
  "named_companies e st org n = filter (\<lambda>r. live org r \<and> same_name e n r) (companies st)"

text \<open>
  A string that reaches \<^verbatim>\<open>new Date\<close> and does not parse: it is not blank, and for a
  date-only field it does not have the shape the handler takes as it is.
\<close>

definition bad_date :: "env \<Rightarrow> string \<Rightarrow> bool" where
  "bad_date e v = (trim e v \<noteq> [] \<and> \<not> date_shape (trim e v) \<and> jsDate e (trim e v) = None)"

definition bad_timestamp :: "env \<Rightarrow> string \<Rightarrow> bool" where
  "bad_timestamp e v = (trim e v \<noteq> [] \<and> jsDate e (trim e v) = None)"

definition unparsable_date :: "env \<Rightarrow> obj \<Rightarrow> string \<Rightarrow> bool" where
  "unparsable_date e d k = (case d k of Some (JStr v) \<Rightarrow> bad_date e v | _ \<Rightarrow> False)"

definition unparsable_timestamp :: "env \<Rightarrow> obj \<Rightarrow> string \<Rightarrow> bool" where
  "unparsable_timestamp e d k = (case d k of Some (JStr v) \<Rightarrow> bad_timestamp e v | _ \<Rightarrow> False)"

fun status_of :: "response \<Rightarrow> nat" where
  "status_of (Response s b) = s"

text \<open>The column \<open>k\<close> of the contacts, row by row, and the names of the companies.\<close>

definition stored :: "store \<Rightarrow> string \<Rightarrow> jsonv list" where
  "stored st k = map (\<lambda>r. col r k) (contacts st)"

definition stored_names :: "store \<Rightarrow> jsonv list" where
  "stored_names st = map (\<lambda>r. col r ''name'') (companies st)"

text \<open>
  What is stored for a date-only member and for a timestamp member, given the string of
  the body if there is one: null for no string and for a blank one; a string of the shape
  \<^verbatim>\<open>dddd-dd-dd\<close> as it is, for a date-only member; otherwise the date as JavaScript
  prints it, cut to its first ten characters for a date-only member. (For a string that
  does not parse this is the sentinel, which no handler stores.)
\<close>

definition date_value :: "env \<Rightarrow> string option \<Rightarrow> jsonv" where
  "date_value e x =
     (case x of
        None \<Rightarrow> JNull
      | Some s \<Rightarrow>
          if trim e s = [] then JNull
          else if date_shape (trim e s) then JStr (trim e s)
          else (case jsDate e (trim e s) of None \<Rightarrow> JStr INVALID | Some t \<Rightarrow> JStr (take 10 t)))"

definition timestamp_value :: "env \<Rightarrow> string option \<Rightarrow> jsonv" where
  "timestamp_value e x =
     (case x of
        None \<Rightarrow> JNull
      | Some s \<Rightarrow>
          if trim e s = [] then JNull
          else (case jsDate e (trim e s) of None \<Rightarrow> JStr INVALID | Some t \<Rightarrow> JStr t))"

text \<open>The members of the patch schema, and those that may be null.\<close>

definition patch_keys :: "string list" where
  "patch_keys =
     [''name'', ''email'', ''phone'', ''role'', ''company_name'', ''avatar'', ''status'',
      ''stage'', ''source'', ''notes'', ''client_company_id'', ''birth_date'',
      ''last_purchase_date'', ''last_interaction'', ''total_value'']"

definition patch_nullable :: "string list" where
  "patch_nullable =
     [''client_company_id'', ''birth_date'', ''last_purchase_date'', ''last_interaction'',
      ''total_value'']"

text \<open>
  What a partial update writes for the member \<open>k\<close> of its body, whose value is \<open>v\<close>: a
  string normalised as its member asks, a number as it is, and null for null. Then the
  record \<open>r\<close> after the partial update whose parsed body is \<open>d\<close>: the members of the body
  as written, the time of the update, and every other column as it was.
\<close>

definition written :: "env \<Rightarrow> string \<Rightarrow> jsonv \<Rightarrow> jsonv" where
  "written e k v =
     (case v of
        JStr s \<Rightarrow>
          if k = ''email'' then ostr (normalizeEmail e (Some s))
          else if k = ''phone'' then ostr (normalizePhone e (Some s))
          else if k = ''client_company_id''
            then (if truthy (sanitizeUUID e (Some s)) then ostr (sanitizeUUID e (Some s)) else JNull)
          else if k = ''birth_date'' \<or> k = ''last_purchase_date'' then date_value e (Some s)
          else if k = ''last_interaction'' then timestamp_value e (Some s)
          else ostr (normalizeText e (Some s))
      | JNum n \<Rightarrow> JNum n
      | _ \<Rightarrow> JNull)"

definition patched :: "env \<Rightarrow> obj \<Rightarrow> obj \<Rightarrow> obj" where
  "patched e d r =
     (\<lambda>k. if k = ''updated_at'' then Some (JStr (now e))
          else (case d k of None \<Rightarrow> r k | Some v \<Rightarrow> Some (written e k v)))"

text \<open>
  The record \<open>r\<close> after the update of an upsert whose parsed body is \<open>d\<close> and whose
  company id is \<open>cid\<close>: every member of the payload is written, null when the body has
  none; the name and the total value are written only when the body has them; the other
  columns stay.
\<close>

definition overwritten :: "env \<Rightarrow> string \<Rightarrow> obj \<Rightarrow> jsonv \<Rightarrow> obj \<Rightarrow> obj" where
  "overwritten e org d cid r =
     (\<lambda>k. if k = ''organization_id'' then Some (JStr org)
          else if k = ''email'' then Some (ostr (normalizeEmail e (dstr d ''email'')))
          else if k = ''phone'' then Some (ostr (normalizePhone e (dstr d ''phone'')))
          else if k \<in> set [''role'', ''company_name'', ''avatar'', ''status'', ''stage'',
                            ''source'', ''notes'']
            then Some (ostr (normalizeText e (dstr d k)))
          else if k = ''client_company_id'' then Some cid
          else if k = ''birth_date'' \<or> k = ''last_purchase_date''
            then Some (date_value e (dstr d k))
          else if k = ''last_interaction'' then Some (timestamp_value e (dstr d k))
          else if k = ''updated_at'' then Some (JStr (now e))
          else if k = ''total_value'' then (case d k of None \<Rightarrow> r k | Some v \<Rightarrow> Some v)
          else if k = ''name''
            then (if truthy (normalizeText e (dstr d k))
                  then Some (ostr (normalizeText e (dstr d k))) else r k)
          else r k)"

text \<open>
  The row a creation inserts: what the update would write on a record without columns,
  with the id the database gives, no mark of deletion, the name, the time of creation and
  the two defaults.
\<close>

definition inserted :: "env \<Rightarrow> string \<Rightarrow> obj \<Rightarrow> jsonv \<Rightarrow> obj" where
  "inserted e org d cid =
     (overwritten e org d cid Map.empty)
       (''id'' \<mapsto> JStr (new_contact_id e), ''deleted_at'' \<mapsto> JNull,
        ''name'' \<mapsto> ostr (normalizeText e (dstr d ''name'')),
        ''created_at'' \<mapsto> JStr (now e),
        ''status'' \<mapsto> JStr ''ACTIVE'', ''stage'' \<mapsto> JStr ''LEAD'')"

text \<open>
  The object the upsert gives to \<^verbatim>\<open>.update\<close> (the payload, with the name when there is
  one, lines 203 to 204) and the row it inserts (lines 219 to 225).
\<close>

definition update_payload ::
  "env \<Rightarrow> string \<Rightarrow> obj \<Rightarrow> string option \<Rightarrow> string option \<Rightarrow> string option \<Rightarrow> string option \<Rightarrow>
   jsonv \<Rightarrow> string option \<Rightarrow> string option \<Rightarrow> string option \<Rightarrow> obj" where
  "update_payload e org d em ph nm cn cid bd li lp =
     (if truthy nm then (upsert_payload e org d em ph cn cid bd li lp)(''name'' \<mapsto> ostr nm)
      else upsert_payload e org d em ph cn cid bd li lp)"

definition insert_row ::
  "env \<Rightarrow> string \<Rightarrow> obj \<Rightarrow> string option \<Rightarrow> string option \<Rightarrow> string option \<Rightarrow> string option \<Rightarrow>
   jsonv \<Rightarrow> string option \<Rightarrow> string option \<Rightarrow> string option \<Rightarrow> obj" where
  "insert_row e org d em ph nm cn cid bd li lp =
     contact_row e
       ((upsert_payload e org d em ph cn cid bd li lp)
          (''name'' \<mapsto> ostr nm, ''created_at'' \<mapsto> JStr (now e),
           ''status'' \<mapsto> JStr ''ACTIVE'', ''stage'' \<mapsto> JStr ''LEAD''))"

text \<open>The members of the upsert's body that the payload always carries, null when the
  body has none.\<close>

definition upsert_nullable :: "string list" where
  "upsert_nullable =
     [''email'', ''phone'', ''role'', ''company_name'', ''avatar'', ''status'', ''stage'',
      ''source'', ''notes'', ''birth_date'', ''last_interaction'', ''last_purchase_date'']"

section \<open>The cursor codec\<close>

text \<open>
  Modelled from the spec: \<^verbatim>\<open>@/lib/public-api/cursor\<close> is not among the sources. The
  spec gives the contract \<^verbatim>\<open>encode(offset: non-negative integer) -> token\<close>,
  \<^verbatim>\<open>decode(token) -> offset\<close> "defaulting to 0 on absent/malformed token", for a token
  that is "here a plain offset". The token is the offset in decimal digits; a token that
  is not the encoding of an offset is malformed.
\<close>

definition digit_char :: "nat \<Rightarrow> char" where
  "digit_char d = ''0123456789'' ! d"

definition digit_val :: "char \<Rightarrow> nat" where
  "digit_val c =
     (case map_of (zip ''0123456789'' [0, 1, 2, 3, 4, 5, 6, 7, 8, 9]) c of
        None \<Rightarrow> 0 | Some d \<Rightarrow> d)"

function digits_of :: "nat \<Rightarrow> string" where
  "digits_of n = (if n < 10 then [digit_char n] else digits_of (n div 10) @ [digit_char (n mod 10)])"
  by pat_completeness auto
termination
  by (relation "measure (\<lambda>n. n)") auto

declare digits_of.simps [simp del]

definition number_of :: "string \<Rightarrow> nat" where
  "number_of s = foldl (\<lambda>a c. 10 * a + digit_val c) 0 s"

definition spec_encodeOffsetCursor :: "nat \<Rightarrow> string" where
  "spec_encodeOffsetCursor k = digits_of k"

definition spec_decodeOffsetCursor :: "string option \<Rightarrow> nat" where
  "spec_decodeOffsetCursor t =
     (case t of
        None \<Rightarrow> 0
      | Some s \<Rightarrow> (let k = number_of s in if spec_encodeOffsetCursor k = s then k else 0))"

section \<open>An instance of the parameters\<close>

text \<open>The characters \<^verbatim>\<open>String.prototype.trim\<close> strips, among the code units below 256:
  tab, line feed, vertical tab, form feed, carriage return, space and no-break space.\<close>

definition js_space :: "char \<Rightarrow> bool" where
  "js_space c = (c \<in> set [CHR 0x09, CHR 0x0A, CHR 0x0B, CHR 0x0C, CHR 0x0D, CHR 0x20, CHR 0xA0])"

text \<open>Lower case, for the 26 letters of ASCII.\<close>

definition to_lower :: "char \<Rightarrow> char" where
  "to_lower c =
     (case map_of (zip ''ABCDEFGHIJKLMNOPQRSTUVWXYZ'' ''abcdefghijklmnopqrstuvwxyz'') c of
        None \<Rightarrow> c
      | Some l \<Rightarrow> l)"

text \<open>
  Modelled from the spec: \<^verbatim>\<open>@/lib/public-api/sanitize\<close> and \<^verbatim>\<open>@/lib/supabase/utils\<close>
  are not among the sources. Section 4.1 of the spec has text trimmed and the empty string
  turned into absence, email trimmed and lower-cased, phone brought to one canonical form
  (here: its digits and plus signs), and a UUID checked for its format, null when the
  format is wrong. \<^verbatim>\<open>parseLimit\<close> clamps to a fixed range (here 1 to 100, 50 when absent).
  These are used to run the handlers on examples; no general theorem depends on them.
\<close>

definition spec_normalizeText :: "string option \<Rightarrow> string option" where
  "spec_normalizeText v =
     (case v of
        None \<Rightarrow> None
      | Some s \<Rightarrow> if trim_by js_space s = [] then None else Some (trim_by js_space s))"

definition spec_normalizeEmail :: "string option \<Rightarrow> string option" where
  "spec_normalizeEmail v =
     (case v of
        None \<Rightarrow> None
      | Some s \<Rightarrow>
          if trim_by js_space s = [] then None else Some (map to_lower (trim_by js_space s)))"

definition spec_normalizePhone :: "string option \<Rightarrow> string option" where
  "spec_normalizePhone v =
     (case v of
        None \<Rightarrow> None
      | Some s \<Rightarrow>
          (let p = filter (\<lambda>c. is_digit c \<or> c = CHR ''+'') s in if p = [] then None else Some p))"

definition is_hex :: "char \<Rightarrow> bool" where
  "is_hex c = (c \<in> set ''0123456789abcdefABCDEF'')"

definition uuid_shape :: "string \<Rightarrow> bool" where
  "uuid_shape s =
     (length s = 36 \<and>
      list_all (\<lambda>ic. if fst ic \<in> set [8, 13, 18, 23] then snd ic = CHR ''-'' else is_hex (snd ic))
        (enumerate (0::nat) s))"

definition spec_sanitizeUUID :: "string option \<Rightarrow> string option" where
  "spec_sanitizeUUID v =
     (case v of None \<Rightarrow> None | Some s \<Rightarrow> if uuid_shape s then Some s else None)"

definition spec_parseLimit :: "string option \<Rightarrow> nat" where
  "spec_parseLimit v = (case v of None \<Rightarrow> 50 | Some s \<Rightarrow> max 1 (min 100 (number_of s)))"

text \<open>A fragment of JavaScript's \<^verbatim>\<open>Date\<close> for the examples: a full ISO timestamp at
  midnight UTC parses to itself, and no other string parses.\<close>

definition demo_jsDate :: "string \<Rightarrow> string option" where
  "demo_jsDate s =
     (if date_shape (take 10 s) \<and> drop 10 s = ''T00:00:00.000Z'' then Some s else None)"

text \<open>A fragment of PostgREST's reading of an \<^verbatim>\<open>or\<close> filter for the examples: conditions
  \<^verbatim>\<open>column.eq.value\<close> and \<^verbatim>\<open>column.ilike.pattern\<close>, separated by commas.\<close>

fun split_on :: "char \<Rightarrow> string \<Rightarrow> string list" where
  "split_on c [] = [[]]"
| "split_on c (x # xs) =
     (if x = c then [] # split_on c xs
      else (case split_on c xs of [] \<Rightarrow> [[x]] | w # ws \<Rightarrow> (x # w) # ws))"

fun join_with :: "char \<Rightarrow> string list \<Rightarrow> string" where
  "join_with c [] = []"
| "join_with c [w] = w"
| "join_with c (w # v # ws) = w @ c # join_with c (v # ws)"

definition condition_holds :: "string \<Rightarrow> obj \<Rightarrow> bool" where
  "condition_holds cnd r =
     (case split_on CHR ''.'' cnd of
        k # opr # v # vs \<Rightarrow>
          if opr = ''eq'' then col r k = JStr (join_with CHR ''.'' (v # vs))
          else if opr = ''ilike''
            then ilike_col_by to_lower k (join_with CHR ''.'' (v # vs)) r = LIKE_TRUE
          else False
      | _ \<Rightarrow> False)"

definition demo_or_filter :: "string \<Rightarrow> obj \<Rightarrow> bool" where
  "demo_or_filter f r = list_ex (\<lambda>cnd. condition_holds cnd r) (split_on CHR '','' f)"

definition demo_env :: env where
  "demo_env =
     \<lparr> normalizeText = spec_normalizeText,
       normalizeEmail = spec_normalizeEmail,
       normalizePhone = spec_normalizePhone,
       sanitizeUUID = spec_sanitizeUUID,
       isValidUUID = uuid_shape,
       zod_uuid = uuid_shape,
       white_space = js_space,
       jsDate = demo_jsDate,
       strToNumber = (\<lambda>s. JOther),
       parseLimit = spec_parseLimit,
       decodeOffsetCursor = spec_decodeOffsetCursor,
       encodeOffsetCursor = spec_encodeOffsetCursor,
       fault = (\<lambda>opr. None),
       or_filter = demo_or_filter,
       fold_case = to_lower,
       new_company_id = ''company-new'',
       new_contact_id = ''contact-new'',
       now_company = ''2026-01-01T00:00:00.000Z'',
       now = ''2026-01-01T00:00:01.000Z'' \<rparr>"

definition empty_store :: store where
  "empty_store = \<lparr> contacts = [], companies = [] \<rparr>"

text \<open>Two contacts of one tenant, for the examples.\<close>

definition contact_ana :: obj where
  "contact_ana =
     map_of [(''id'', JStr ''c1''), (''organization_id'', JStr ''org1''), (''deleted_at'', JNull),
             (''name'', JStr ''Ana''), (''email'', JStr ''ana@ex.com''), (''phone'', JNull),
             (''role'', JStr ''CTO''), (''status'', JStr ''ACTIVE''), (''stage'', JStr ''LEAD''),
             (''birth_date'', JStr ''1990-05-17''), (''total_value'', JNum 10),
             (''created_at'', JStr ''2025-01-01T00:00:00.000Z''),
             (''updated_at'', JStr ''2025-01-01T00:00:00.000Z'')]"

definition contact_bia :: obj where
  "contact_bia =
     map_of [(''id'', JStr ''c2''), (''organization_id'', JStr ''org1''), (''deleted_at'', JNull),
             (''name'', JStr ''Bia''), (''email'', JNull), (''phone'', JStr ''+5511999''),
             (''status'', JStr ''ACTIVE''), (''stage'', JStr ''LEAD''),
             (''created_at'', JStr ''2025-02-01T00:00:00.000Z''),
             (''updated_at'', JStr ''2025-02-01T00:00:00.000Z'')]"

definition store_two :: store where
  "store_two = \<lparr> contacts = [contact_ana, contact_bia], companies = [] \<rparr>"

text \<open>The instance with a failure of the adapter at one call.\<close>

definition env_failing :: "store_op \<Rightarrow> string \<Rightarrow> env" where
  "env_failing opr m = demo_env\<lparr>fault := (\<lambda>x. if x = opr then Some m else None)\<rparr>"

text \<open>A store with one company, for the examples.\<close>

definition company_axb :: obj where
  "company_axb =
     map_of [(''id'', JStr ''k1''), (''organization_id'', JStr ''org1''), (''deleted_at'', JNull),
             (''name'', JStr ''axb''), (''created_at'', JStr ''2025-01-01T00:00:00.000Z''),
             (''updated_at'', JStr ''2025-01-01T00:00:00.000Z'')]"

definition store_axb :: store where
  "store_axb = \<lparr> contacts = [], companies = [company_axb] \<rparr>"

text \<open>A contact whose id is a UUID, for the examples.\<close>

definition contact_eva :: obj where
  "contact_eva =
     map_of [(''id'', JStr ''123e4567-e89b-12d3-a456-426614174000''),
             (''organization_id'', JStr ''org1''), (''deleted_at'', JNull),
             (''name'', JStr ''Eva''), (''email'', JStr ''eva@ex.com''), (''phone'', JNull),
             (''role'', JStr ''CTO''), (''birth_date'', JStr ''1990-05-17''),
             (''created_at'', JStr ''2025-03-01T00:00:00.000Z''),
             (''updated_at'', JStr ''2025-03-01T00:00:00.000Z'')]"

definition store_eva :: store where
  "store_eva = \<lparr> contacts = [contact_eva], companies = [] \<rparr>"

text \<open>A store with one contact and one company, for the examples.\<close>

definition store_ana_axb :: store where
  "store_ana_axb = \<lparr> contacts = [contact_ana], companies = [company_axb] \<rparr>"

section \<open>Properties of the cursor codec\<close>

lemma digit_val_digit_char: "d < 10 \<Longrightarrow> digit_val (digit_char d) = d"
proof -
  assume "d < 10"
  then have "d \<in> {0, 1, 2, 3, 4, 5, 6, 7, 8, 9}" by auto
  then show ?thesis
    by (elim insertE emptyE; simp add: digit_val_def digit_char_def)
qed

lemma number_of_snoc: "number_of (s @ [c]) = 10 * number_of s + digit_val c"
  by (simp add: number_of_def)

lemma number_of_digits_of: "number_of (digits_of n) = n"
proof (induction n rule: digits_of.induct)
  case (1 n)
  show ?case
  proof (cases "n < 10")
    case True
    then show ?thesis
      by (subst digits_of.simps) (simp add: number_of_def digit_val_digit_char)
  next
    case False
    then have "number_of (digits_of n) = 10 * number_of (digits_of (n div 10)) + digit_val (digit_char (n mod 10))"
      by (subst digits_of.simps) (simp add: number_of_snoc)
    with False "1.IH" show ?thesis
      by (simp add: digit_val_digit_char)
  qed
qed

text \<open>
  C8. Decoding the token of an offset gives the offset back, for every natural number;
  an absent token decodes to 0, and so does every token that is not the encoding of an
  offset.
\<close>

theorem cursor_roundtrip:
  "spec_decodeOffsetCursor (Some (spec_encodeOffsetCursor k)) = k
   \<and> spec_decodeOffsetCursor None = 0
   \<and> (s \<notin> range spec_encodeOffsetCursor \<longrightarrow> spec_decodeOffsetCursor (Some s) = 0)"
proof (intro conjI impI)
  show "spec_decodeOffsetCursor (Some (spec_encodeOffsetCursor k)) = k"
    by (simp add: spec_decodeOffsetCursor_def spec_encodeOffsetCursor_def number_of_digits_of)
  show "spec_decodeOffsetCursor None = 0"
    by (simp add: spec_decodeOffsetCursor_def)
  assume "s \<notin> range spec_encodeOffsetCursor"
  then have "spec_encodeOffsetCursor (number_of s) \<noteq> s"
    by (metis rangeI)
  then show "spec_decodeOffsetCursor (Some s) = 0"
    by (simp add: spec_decodeOffsetCursor_def)
qed

theorem cursor_roundtrip_witness:
  "spec_decodeOffsetCursor (Some (spec_encodeOffsetCursor 42)) = 42
   \<and> spec_decodeOffsetCursor None = 0
   \<and> ''x7'' \<notin> range spec_encodeOffsetCursor
   \<and> spec_decodeOffsetCursor (Some ''x7'') = 0"
proof -
  have "spec_encodeOffsetCursor k \<noteq> ''x7''" for k
  proof
    assume eq: "spec_encodeOffsetCursor k = ''x7''"
    then have "number_of ''x7'' = k"
      using number_of_digits_of [of k] by (simp add: spec_encodeOffsetCursor_def)
    then have "k = 7"
      by (simp add: number_of_def digit_val_def)
    with eq show False
      by (simp add: spec_encodeOffsetCursor_def digits_of.simps digit_char_def)
  qed
  then have "''x7'' \<notin> range spec_encodeOffsetCursor"
    by (metis rangeE)
  with cursor_roundtrip [of 42 "''x7''"] show ?thesis
    by simp
qed

section \<open>The instance, unfolded\<close>

lemma demo_env_sel:
  "normalizeText demo_env = spec_normalizeText"
  "normalizeEmail demo_env = spec_normalizeEmail"
  "normalizePhone demo_env = spec_normalizePhone"
  "sanitizeUUID demo_env = spec_sanitizeUUID"
  "isValidUUID demo_env = uuid_shape"
  "zod_uuid demo_env = uuid_shape"
  "white_space demo_env = js_space"
  "jsDate demo_env = demo_jsDate"
  "parseLimit demo_env = spec_parseLimit"
  "decodeOffsetCursor demo_env = spec_decodeOffsetCursor"
  "encodeOffsetCursor demo_env = spec_encodeOffsetCursor"
  "fault demo_env = (\<lambda>opr. None)"
  "or_filter demo_env = demo_or_filter"
  "fold_case demo_env = to_lower"
  "new_company_id demo_env = ''company-new''"
  "new_contact_id demo_env = ''contact-new''"
  "now_company demo_env = ''2026-01-01T00:00:00.000Z''"
  "now demo_env = ''2026-01-01T00:00:01.000Z''"
  by (simp_all add: demo_env_def)

lemmas helper_defs =
  spec_normalizeText_def spec_normalizeEmail_def spec_normalizePhone_def spec_sanitizeUUID_def
  trim_def trim_by_def js_space_def truthy_def to_lower_def is_digit_def sval_def dstr_def
  ostr_def toIsoDateString_def toIsoTimestamp_def INVALID_def

lemmas post_defs =
  POST_def upsert_def company_step_def resolveCompanyIdFromName_def company_matches_def
  company_select_error_def maybeSingle_def data_id_def lookup_matches_def lookup_filter_def
  create_path_def update_path_def ContactUpsertSchema_def upsert_member_ok_def
  upsert_text_keys_def Let_def

section \<open>POST: validation errors and the store\<close>

lemma codes_differ [simp]:
  "DB_ERROR \<noteq> VALIDATION_ERROR" "VALIDATION_ERROR \<noteq> DB_ERROR"
  "NOT_FOUND \<noteq> VALIDATION_ERROR" "VALIDATION_ERROR \<noteq> NOT_FOUND"
  "NOT_FOUND \<noteq> DB_ERROR" "DB_ERROR \<noteq> NOT_FOUND"
  by (simp_all add: DB_ERROR_def VALIDATION_ERROR_def NOT_FOUND_def)

lemma resolve_frame:
  assumes "resolveCompanyIdFromName e st org cn = (res, st1, tr1)"
  shows "contacts st1 = contacts st \<and> tr1 \<in> {[], [CompanySelect], [CompanySelect, CompanyInsert]}"
  using assms
  by (auto simp: resolveCompanyIdFromName_def split: option.splits if_splits sum.splits)

lemma company_step_frame:
  assumes "company_step e st org d cn = (res, st1, tr1)"
  shows "contacts st1 = contacts st \<and> tr1 \<in> {[], [CompanySelect], [CompanySelect, CompanyInsert]}"
  using assms resolve_frame [of e st org "sval cn" res st1 tr1]
  by (auto simp: company_step_def Let_def split: if_splits)

lemma POST_rejected:
  "body_check_fails e b \<Longrightarrow> \<exists>m. POST e st (AuthOk org) b = (err 422 m VALIDATION_ERROR, st, [])"
  by (auto simp: POST_def body_check_fails_def Let_def split: option.splits)

lemma POST_checked:
  "ContactUpsertSchema e b = Some d \<Longrightarrow> \<not> body_check_fails e b \<Longrightarrow>
   POST e st (AuthOk org) b =
     upsert e st org d (normalizeEmail e (dstr d ''email'')) (normalizePhone e (dstr d ''phone''))
       (normalizeText e (dstr d ''name'')) (normalizeText e (dstr d ''company_name''))
       (toIsoDateString e (dstr d ''birth_date'')) (toIsoDateString e (dstr d ''last_purchase_date''))
       (toIsoTimestamp e (dstr d ''last_interaction''))"
  by (auto simp: POST_def body_check_fails_def Let_def)

lemma update_path_no_validation_error:
  "update_path e st tr i p \<noteq> (Response s (ErrorBody m VALIDATION_ERROR), st', tr')"
  by (auto simp: update_path_def err_def split: option.splits list.splits)

lemma create_path_validation_error:
  "create_path e st tr name p = (Response s (ErrorBody m VALIDATION_ERROR), st', tr') \<Longrightarrow>
   st' = st \<and> tr' = tr"
  by (auto simp: create_path_def err_def Let_def split: option.splits if_splits)

lemma upsert_validation_error:
  assumes "upsert e st org d email phone name cn bd lp li =
             (Response s (ErrorBody m VALIDATION_ERROR), st', tr)"
  shows "contacts st' = contacts st \<and> ContactUpdate \<notin> set tr \<and> ContactInsert \<notin> set tr"
proof -
  obtain res st1 tr1 where cs: "company_step e st org d cn = (res, st1, tr1)"
    by (cases "company_step e st org d cn") auto
  from company_step_frame [OF cs]
  have fr: "contacts st1 = contacts st" "ContactUpdate \<notin> set tr1" "ContactInsert \<notin> set tr1"
    by auto
  show ?thesis
  proof (cases res)
    case (Inl msg)
    with assms cs fr show ?thesis
      by (auto simp: upsert_def err_def)
  next
    case (Inr cid)
    with assms cs fr show ?thesis
      by (auto simp: upsert_def err_def Let_def update_path_no_validation_error
               split: sum.splits if_splits dest!: create_path_validation_error)
  qed
qed

lemma validation_error_keeps_contacts:
  assumes p: "POST e st (AuthOk org) b = (Response s (ErrorBody m VALIDATION_ERROR), st', tr)"
  shows "contacts st' = contacts st \<and> ContactUpdate \<notin> set tr \<and> ContactInsert \<notin> set tr"
proof (cases "body_check_fails e b")
  case True
  from POST_rejected [OF True, of st org] p show ?thesis
    by (auto simp: err_def)
next
  case False
  then obtain d where d: "ContactUpsertSchema e b = Some d"
    by (auto simp: body_check_fails_def split: option.splits)
  from p POST_checked [OF d False, of st org] show ?thesis
    by (auto dest: upsert_validation_error)
qed

lemma lookup_matches_eq:
  "truthy em \<or> truthy ph \<Longrightarrow>
   lookup_matches e st org em ph = filter (matches e org em ph) (contacts st)"
  unfolding lookup_matches_def
  by (rule filter_cong [OF refl]) (auto simp: matches_def lookup_filter_def live_def)

lemma checked_has_contact:
  "ContactUpsertSchema e b = Some d \<Longrightarrow> \<not> body_check_fails e b \<Longrightarrow>
   truthy (normalizeEmail e (dstr d ''email'')) \<or> truthy (normalizePhone e (dstr d ''phone''))"
  by (auto simp: body_check_fails_def)

lemma POST_name_required:
  assumes d: "ContactUpsertSchema e b = Some d" and ok: "\<not> body_check_fails e b"
    and cs: "company_step e st org d (normalizeText e (dstr d ''company_name'')) = (Inr cid, st1, tr1)"
    and nf: "fault e ContactLookup = None"
    and m: "filter (matches e org (normalizeEmail e (dstr d ''email''))
                      (normalizePhone e (dstr d ''phone''))) (contacts st) = []"
    and nm: "\<not> truthy (normalizeText e (dstr d ''name''))"
  shows "POST e st (AuthOk org) b =
           (err 422 ''Name is required to create a new contact'' VALIDATION_ERROR, st1,
            tr1 @ [ContactLookup])
         \<and> contacts st1 = contacts st"
proof -
  from company_step_frame [OF cs] have c1: "contacts st1 = contacts st" by simp
  have l: "lookup_matches e st1 org (normalizeEmail e (dstr d ''email''))
             (normalizePhone e (dstr d ''phone'')) = []"
    using m c1 lookup_matches_eq [OF checked_has_contact [OF d ok], of e st1 org]
    by simp
  show ?thesis
    unfolding POST_checked [OF d ok]
    using cs nf l nm c1
    by (simp add: upsert_def maybeSingle_def data_id_def create_path_def)
qed

text \<open>
  C1, as the code has it. A request whose body fails the schema, has neither email nor
  phone, or has a date that does not parse is answered 422 with the code
  VALIDATION_ERROR, the store is the one it found and no call was made on it. Every
  request that ends in a validation error leaves the contacts as they were and has made
  no write of a contact. A request past these checks that has no name, when no
  non-deleted contact of the tenant matches its email or phone, is answered 422 with the code VALIDATION_ERROR and the message that a name
  is required, after the company step and the lookup: the contacts are as they were, the
  companies are as the company step left them.
\<close>

theorem POST_validation_error:
  "(body_check_fails e b \<longrightarrow> (\<exists>m. POST e st (AuthOk org) b = (err 422 m VALIDATION_ERROR, st, [])))
   \<and> (POST e st (AuthOk org) b = (Response s (ErrorBody m VALIDATION_ERROR), st', tr) \<longrightarrow>
        contacts st' = contacts st \<and> ContactUpdate \<notin> set tr \<and> ContactInsert \<notin> set tr)
   \<and> (ContactUpsertSchema e b = Some d \<and> \<not> body_check_fails e b
        \<and> company_step e st org d (normalizeText e (dstr d ''company_name'')) = (Inr cid, st1, tr1)
        \<and> fault e ContactLookup = None
        \<and> filter (matches e org (normalizeEmail e (dstr d ''email''))
                     (normalizePhone e (dstr d ''phone''))) (contacts st) = []
        \<and> \<not> truthy (normalizeText e (dstr d ''name'')) \<longrightarrow>
        POST e st (AuthOk org) b =
          (err 422 ''Name is required to create a new contact'' VALIDATION_ERROR, st1,
           tr1 @ [ContactLookup])
        \<and> contacts st1 = contacts st)"
proof (intro conjI impI)
  assume "body_check_fails e b"
  then show "\<exists>m. POST e st (AuthOk org) b = (err 422 m VALIDATION_ERROR, st, [])"
    by (rule POST_rejected)
next
  assume p: "POST e st (AuthOk org) b = (Response s (ErrorBody m VALIDATION_ERROR), st', tr)"
  from validation_error_keeps_contacts [OF p]
  show "contacts st' = contacts st" "ContactUpdate \<notin> set tr" "ContactInsert \<notin> set tr"
    by simp_all
next
  assume h: "ContactUpsertSchema e b = Some d \<and> \<not> body_check_fails e b
        \<and> company_step e st org d (normalizeText e (dstr d ''company_name'')) = (Inr cid, st1, tr1)
        \<and> fault e ContactLookup = None
        \<and> filter (matches e org (normalizeEmail e (dstr d ''email''))
                     (normalizePhone e (dstr d ''phone''))) (contacts st) = []
        \<and> \<not> truthy (normalizeText e (dstr d ''name''))"
  then have h': "ContactUpsertSchema e b = Some d" "\<not> body_check_fails e b"
    "company_step e st org d (normalizeText e (dstr d ''company_name'')) = (Inr cid, st1, tr1)"
    "fault e ContactLookup = None"
    "filter (matches e org (normalizeEmail e (dstr d ''email''))
               (normalizePhone e (dstr d ''phone''))) (contacts st) = []"
    "\<not> truthy (normalizeText e (dstr d ''name''))"
    by simp_all
  note r = POST_name_required [OF h']
  from r show "POST e st (AuthOk org) b =
          (err 422 ''Name is required to create a new contact'' VALIDATION_ERROR, st1,
           tr1 @ [ContactLookup])" ..
  from r show "contacts st1 = contacts st" ..
qed

text \<open>
  The claim C1 as it is written fails: a body with an email and a company name but no
  name, sent to an empty store, is refused with a validation error after the company
  has been created.
\<close>

theorem POST_missing_name_creates_company:
  "fst (POST demo_env empty_store (AuthOk ''org1'')
          (Some [(''email'', JStr ''a@b.c''), (''company_name'', JStr ''Acme'')]))
     = err 422 ''Name is required to create a new contact'' VALIDATION_ERROR
   \<and> companies (fst (snd (POST demo_env empty_store (AuthOk ''org1'')
          (Some [(''email'', JStr ''a@b.c''), (''company_name'', JStr ''Acme'')]))))
     = [company_row demo_env ''org1'' ''Acme'']
   \<and> companies empty_store = []"
  by (simp add: post_defs demo_env_sel empty_store_def helper_defs)

theorem POST_validation_error_witness:
  "body_check_fails demo_env (Some [(''name'', JStr ''Ana'')])
   \<and> (\<exists>m. POST demo_env empty_store (AuthOk ''org1'') (Some [(''name'', JStr ''Ana'')])
            = (err 422 m VALIDATION_ERROR, empty_store, []))
   \<and> ContactUpsertSchema demo_env (Some [(''email'', JStr ''a@b.c'')])
       = Some (map_of [(''email'', JStr ''a@b.c'')])
   \<and> \<not> body_check_fails demo_env (Some [(''email'', JStr ''a@b.c'')])
   \<and> company_step demo_env empty_store ''org1'' (map_of [(''email'', JStr ''a@b.c'')])
        (normalizeText demo_env (dstr (map_of [(''email'', JStr ''a@b.c'')]) ''company_name''))
       = (Inr JNull, empty_store, [])
   \<and> fault demo_env ContactLookup = None
   \<and> filter (matches demo_env ''org1''
                (normalizeEmail demo_env (dstr (map_of [(''email'', JStr ''a@b.c'')]) ''email''))
                (normalizePhone demo_env (dstr (map_of [(''email'', JStr ''a@b.c'')]) ''phone'')))
        (contacts empty_store) = []
   \<and> \<not> truthy (normalizeText demo_env (dstr (map_of [(''email'', JStr ''a@b.c'')]) ''name''))
   \<and> POST demo_env empty_store (AuthOk ''org1'') (Some [(''email'', JStr ''a@b.c'')])
       = (err 422 ''Name is required to create a new contact'' VALIDATION_ERROR,
          empty_store, [ContactLookup])
   \<and> contacts empty_store = contacts empty_store
   \<and> ContactUpdate \<notin> set [ContactLookup] \<and> ContactInsert \<notin> set [ContactLookup]"
proof -
  let ?kvs = "[(''email'', JStr ''a@b.c'')]"
  have a: "body_check_fails demo_env (Some [(''name'', JStr ''Ana'')])"
    by (simp add: body_check_fails_def post_defs demo_env_sel helper_defs)
  have h1: "ContactUpsertSchema demo_env (Some ?kvs) = Some (map_of ?kvs)"
    by (simp add: ContactUpsertSchema_def upsert_member_ok_def upsert_text_keys_def)
  have h2: "\<not> body_check_fails demo_env (Some ?kvs)"
    by (simp add: body_check_fails_def h1 demo_env_sel helper_defs)
  have h3: "company_step demo_env empty_store ''org1'' (map_of ?kvs)
              (normalizeText demo_env (dstr (map_of ?kvs) ''company_name''))
            = (Inr JNull, empty_store, [])"
    by (simp add: company_step_def demo_env_sel helper_defs)
  have h4: "fault demo_env ContactLookup = None"
    by (simp add: demo_env_sel)
  have h5: "filter (matches demo_env ''org1''
                (normalizeEmail demo_env (dstr (map_of ?kvs) ''email''))
                (normalizePhone demo_env (dstr (map_of ?kvs) ''phone'')))
        (contacts empty_store) = []"
    by (simp add: empty_store_def)
  have h6: "\<not> truthy (normalizeText demo_env (dstr (map_of ?kvs) ''name''))"
    by (simp add: demo_env_sel helper_defs)
  note T1 = POST_validation_error [of demo_env "Some [(''name'', JStr ''Ana'')]" empty_store "''org1''"]
  note T2 = POST_validation_error [of demo_env "Some ?kvs" empty_store "''org1''"
      422 "''Name is required to create a new contact''" empty_store "[ContactLookup]"
      "map_of ?kvs" JNull empty_store "[]"]
  have b: "\<exists>m. POST demo_env empty_store (AuthOk ''org1'') (Some [(''name'', JStr ''Ana'')])
            = (err 422 m VALIDATION_ERROR, empty_store, [])"
    using T1 [THEN conjunct1] a by (simp only: simp_thms)
  have c: "POST demo_env empty_store (AuthOk ''org1'') (Some ?kvs)
       = (err 422 ''Name is required to create a new contact'' VALIDATION_ERROR,
          empty_store, [] @ [ContactLookup])
       \<and> contacts empty_store = contacts empty_store"
    using T2 [THEN conjunct2, THEN conjunct2] h1 h2 h3 h4 h5 h6 by (simp only: simp_thms)
  then have c': "POST demo_env empty_store (AuthOk ''org1'') (Some ?kvs)
       = (err 422 ''Name is required to create a new contact'' VALIDATION_ERROR,
          empty_store, [ContactLookup])"
    by simp
  have e: "contacts empty_store = contacts empty_store \<and> ContactUpdate \<notin> set [ContactLookup]
           \<and> ContactInsert \<notin> set [ContactLookup]"
    using T2 [THEN conjunct2, THEN conjunct1] c' by (simp only: err_def simp_thms)
  from a b h1 h2 h3 h4 h5 h6 c' e show ?thesis
    by (intro conjI) simp_all
qed

section \<open>POST: one create or one update\<close>

lemma filter_key_unique:
  "distinct (map f xs) \<Longrightarrow> r \<in> set xs \<Longrightarrow> filter (\<lambda>x. f x = f r) xs = [r]"
proof (induction xs)
  case Nil
  then show ?case by simp
next
  case (Cons a xs)
  show ?case
  proof (cases "a = r")
    case True
    with Cons.prems have "f r \<notin> f ` set xs" by simp
    then have "\<forall>x \<in> set xs. f x \<noteq> f r" by (metis imageI)
    then have "filter (\<lambda>x. f x = f r) xs = []" by (simp add: filter_empty_conv)
    with True show ?thesis by simp
  next
    case False
    with Cons.prems have "r \<in> set xs" "f a \<noteq> f r" by auto
    with Cons show ?thesis by simp
  qed
qed

lemma single_target:
  assumes "filter P xs = [r]"
  shows "map (\<lambda>x. if P x then f x else x) xs = map (\<lambda>x. if x = r then f r else x) xs"
    and "r \<in> set xs" and "P r"
proof -
  have s: "set (filter P xs) = {r}" by (simp add: assms)
  then show "r \<in> set xs" "P r" by auto
  from s have "\<And>x. x \<in> set xs \<Longrightarrow> P x \<longleftrightarrow> x = r" by auto
  then show "map (\<lambda>x. if P x then f x else x) xs = map (\<lambda>x. if x = r then f r else x) xs"
    by (intro map_cong) auto
qed

lemma lookup_matches_contacts:
  "contacts st1 = contacts st \<Longrightarrow> lookup_matches e st1 org em ph = lookup_matches e st org em ph"
  by (simp add: lookup_matches_def)

lemma upsert_payload_keeps:
  "upsert_payload e org d em ph cn cid bd li lp ''id'' = None"
  "upsert_payload e org d em ph cn cid bd li lp ''created_at'' = None"
  "upsert_payload e org d em ph cn cid bd li lp ''name'' = None"
  by (simp_all add: upsert_payload_def split: option.splits)

lemma update_payload_keeps:
  "update_payload e org d em ph nm cn cid bd li lp ''id'' = None"
  "update_payload e org d em ph nm cn cid bd li lp ''created_at'' = None"
  by (simp_all add: update_payload_def upsert_payload_keeps)

lemma col_map_add:
  "col (r ++ p) k = (case p k of None \<Rightarrow> col r k | Some v \<Rightarrow> v)"
  by (simp add: col_def map_add_def split: option.splits)

lemma col_Some: "r k = Some v \<Longrightarrow> col r k = v"
  by (simp add: col_def)

lemma col_project:
  "k \<in> set cols \<Longrightarrow> col (project cols r) k = col r k"
  by (simp add: project_def col_def)

text \<open>The two writes, as the handler makes them and as the notions above describe them.\<close>

lemma date_value_eq: "ostr (toIsoDateString e x) = date_value e x"
  by (cases x)
     (simp_all add: toIsoDateString_def date_value_def ostr_def trim_def trim_by_def Let_def
        split: option.splits)

lemma timestamp_value_eq: "ostr (toIsoTimestamp e x) = timestamp_value e x"
  by (cases x)
     (simp_all add: toIsoTimestamp_def timestamp_value_def ostr_def trim_def trim_by_def Let_def
        split: option.splits)

lemma overwrite_row:
  "r ++ update_payload e org d (normalizeEmail e (dstr d ''email''))
          (normalizePhone e (dstr d ''phone'')) (normalizeText e (dstr d ''name''))
          (normalizeText e (dstr d ''company_name'')) cid
          (toIsoDateString e (dstr d ''birth_date''))
          (toIsoTimestamp e (dstr d ''last_interaction''))
          (toIsoDateString e (dstr d ''last_purchase_date''))
   = overwritten e org d cid r"
  by (rule ext)
     (simp add: map_add_def update_payload_def upsert_payload_def overwritten_def
        date_value_eq timestamp_value_eq split: option.splits)

lemma insert_row_inserted:
  "insert_row e org d (normalizeEmail e (dstr d ''email''))
          (normalizePhone e (dstr d ''phone'')) (normalizeText e (dstr d ''name''))
          (normalizeText e (dstr d ''company_name'')) cid
          (toIsoDateString e (dstr d ''birth_date''))
          (toIsoTimestamp e (dstr d ''last_interaction''))
          (toIsoDateString e (dstr d ''last_purchase_date''))
   = inserted e org d cid"
  by (rule ext)
     (simp add: map_add_def insert_row_def contact_row_def upsert_payload_def overwritten_def
        inserted_def date_value_eq timestamp_value_eq split: option.splits)

lemma inserted_at:
  "col (inserted e org d cid) ''id'' = JStr (new_contact_id e)"
  "live org (inserted e org d cid)"
  "col (inserted e org d cid) ''email'' = ostr (normalizeEmail e (dstr d ''email''))"
  by (simp_all add: inserted_def overwritten_def col_def live_def)

lemma truthy_ostr: "truthy x \<Longrightarrow> ostr x = JStr (sval x)"
  by (cases x) (simp_all add: truthy_def ostr_def sval_def)

lemma update_path_success:
  assumes "update_path e st tr i p = (Response s (UpsertBody data act), st', tr')"
  shows "s = 200 \<and> act = ''updated'' \<and> tr' = tr @ [ContactUpdate]
         \<and> (\<exists>r \<in> set (contacts st). col r ''id'' = i \<and> data = project contact_columns (r ++ p)
              \<and> contacts st' = map (\<lambda>x. if x = r then r ++ p else x) (contacts st)
              \<and> contacts st' = map (\<lambda>x. if col x ''id'' = i then x ++ p else x) (contacts st))"
proof (cases "fault e ContactUpdate")
  case (Some m)
  with assms show ?thesis by (simp add: update_path_def err_def)
next
  case None
  show ?thesis
  proof (cases "filter (\<lambda>r. col r ''id'' = i) (contacts st)")
    case Nil
    with assms None show ?thesis by (simp add: update_path_def err_def)
  next
    case (Cons r rs)
    show ?thesis
    proof (cases rs)
      case Nil
      with Cons have f: "filter (\<lambda>r. col r ''id'' = i) (contacts st) = [r]" by simp
      note t = single_target(1) [OF f, of "\<lambda>x. x ++ p"] single_target(2,3) [OF f]
      from assms None f t show ?thesis
        by (auto simp: update_path_def)
    next
      case (Cons y ys)
      with assms None \<open>filter (\<lambda>r. col r ''id'' = i) (contacts st) = r # rs\<close> show ?thesis
        by (simp add: update_path_def err_def)
    qed
  qed
qed

lemma update_path_outcome:
  assumes u: "update_path e st tr i p = (resp, st', tr')" and p: "p ''id'' = None"
  shows "tr' = tr @ [ContactUpdate] \<and> length (contacts st') = length (contacts st)
         \<and> (\<forall>s data act. resp = Response s (UpsertBody data act) \<longrightarrow>
               s = 200 \<and> act = ''updated'' \<and> col data ''id'' = i)"
proof (intro conjI allI impI)
  from u show "tr' = tr @ [ContactUpdate]"
    by (auto simp: update_path_def split: option.splits list.splits)
  from u show "length (contacts st') = length (contacts st)"
    by (auto simp: update_path_def split: option.splits list.splits)
next
  fix s data act
  assume "resp = Response s (UpsertBody data act)"
  with u have "update_path e st tr i p = (Response s (UpsertBody data act), st', tr')"
    by simp
  from update_path_success [OF this] p
  have "s = 200 \<and> act = ''updated'' \<and> col data ''id'' = i"
    by (auto simp: col_project contact_columns_def col_map_add)
  then show "s = 200" "act = ''updated''" "col data ''id'' = i"
    by simp_all
qed

lemma upsert_updates:
  assumes cs: "company_step e st org d cn = (Inr cid, st1, tr1)"
    and nf: "fault e ContactLookup = None" "fault e ContactUpdate = None"
    and m: "lookup_matches e st org em ph = [r]"
    and k: "keyed (contacts st)"
  shows "upsert e st org d em ph nm cn bd lp li =
           (Response 200
              (UpsertBody
                 (project contact_columns (r ++ update_payload e org d em ph nm cn cid bd li lp))
                 ''updated''),
            st1\<lparr>contacts :=
                  map (\<lambda>x. if x = r then r ++ update_payload e org d em ph nm cn cid bd li lp else x)
                    (contacts st)\<rparr>,
            tr1 @ [ContactLookup, ContactUpdate])"
proof -
  from company_step_frame [OF cs] have c1: "contacts st1 = contacts st" by simp
  have "r \<in> set (lookup_matches e st org em ph)"
    by (simp add: m)
  then have rin: "r \<in> set (contacts st)"
    by (simp add: lookup_matches_def)
  from k rin have tr: "js_truthy (col r ''id'')"
    by (auto simp: keyed_def list_all_iff)
  from k have dist: "distinct (map (\<lambda>r. col r ''id'') (contacts st))"
    by (simp add: keyed_def)
  have pid: "col (project [''id''] r) ''id'' = col r ''id''"
    by (simp add: project_def col_def)
  let ?p = "update_payload e org d em ph nm cn cid bd li lp"
  note f = filter_key_unique [OF dist rin]
  have E: "map (\<lambda>x. if col x ''id'' = col r ''id'' then x ++ ?p else x) (contacts st)
             = map (\<lambda>x. if x = r then r ++ ?p else x) (contacts st)"
    by (rule single_target(1) [OF f])
  have "upsert e st org d em ph nm cn bd lp li =
           (Response 200 (UpsertBody (project contact_columns (r ++ ?p)) ''updated''),
            st1\<lparr>contacts := map (\<lambda>x. if col x ''id'' = col r ''id'' then x ++ ?p else x) (contacts st)\<rparr>,
            tr1 @ [ContactLookup, ContactUpdate])"
    using cs nf m tr pid f
    by (cases "truthy nm")
       (simp_all add: upsert_def lookup_matches_contacts [OF c1] maybeSingle_def data_id_def
          update_path_def c1 update_payload_def Let_def)
  then show ?thesis
    by (simp only: E)
qed

lemma upsert_creates:
  assumes cs: "company_step e st org d cn = (Inr cid, st1, tr1)"
    and nf: "fault e ContactLookup = None" "fault e ContactInsert = None"
    and m: "lookup_matches e st org em ph = []"
    and nm: "truthy nm"
  shows "upsert e st org d em ph nm cn bd lp li =
           (Response 201
              (UpsertBody (project contact_columns (insert_row e org d em ph nm cn cid bd li lp))
                 ''created''),
            st1\<lparr>contacts := contacts st @ [insert_row e org d em ph nm cn cid bd li lp]\<rparr>,
            tr1 @ [ContactLookup, ContactInsert])"
proof -
  from company_step_frame [OF cs] have c1: "contacts st1 = contacts st" by simp
  show ?thesis
    using cs nf m nm
    by (simp add: upsert_def lookup_matches_contacts [OF c1] maybeSingle_def data_id_def
          create_path_def c1 Let_def insert_row_def)
qed

lemma upsert_ambiguous:
  assumes cs: "company_step e st org d cn = (Inr cid, st1, tr1)"
    and nf: "fault e ContactLookup = None"
    and m: "2 \<le> length (lookup_matches e st org em ph)"
  shows "upsert e st org d em ph nm cn bd lp li =
           (err 500 multiple_rows DB_ERROR, st1, tr1 @ [ContactLookup])
         \<and> contacts st1 = contacts st"
proof -
  from company_step_frame [OF cs] have c1: "contacts st1 = contacts st" by simp
  from m obtain x y zs where "lookup_matches e st org em ph = x # y # zs"
    by (auto simp: numeral_2_eq_2 Suc_le_length_iff)
  with cs nf c1 show ?thesis
    by (simp add: upsert_def lookup_matches_contacts [OF c1] maybeSingle_def)
qed

text \<open>An upsert whose lookup selects a contact with an id never inserts.\<close>

lemma upsert_with_match:
  assumes x: "x \<in> set (lookup_matches e st org em ph)" and t: "js_truthy (col x ''id'')"
    and u: "upsert e st org d em ph nm cn bd lp li = (resp, st', tr)"
  shows "ContactInsert \<notin> set tr \<and> length (contacts st') = length (contacts st)
         \<and> (\<forall>s data act. resp = Response s (UpsertBody data act) \<longrightarrow>
               s = 200 \<and> act = ''updated'' \<and> col data ''id'' = col x ''id'')"
proof -
  obtain res st1 tr1 where cs: "company_step e st org d cn = (res, st1, tr1)"
    by (cases "company_step e st org d cn") auto
  from company_step_frame [OF cs]
  have c1: "contacts st1 = contacts st" and t1: "ContactInsert \<notin> set tr1"
    by auto
  show ?thesis
  proof (cases res)
    case (Inl m)
    with u cs c1 t1 show ?thesis
      by (auto simp: upsert_def err_def)
  next
    case (Inr cid)
    let ?L = "lookup_matches e st org em ph"
    show ?thesis
    proof (cases "maybeSingle (fault e ContactLookup) (map (project [''id'']) ?L)")
      case (Inl m)
      with u cs Inr c1 t1 show ?thesis
        by (auto simp: upsert_def err_def lookup_matches_contacts [OF c1])
    next
      case ex: (Inr existing)
      have one: "?L = [x]"
      proof (cases ?L)
        case Nil
        with x show ?thesis by simp
      next
        case (Cons y ys)
        with ex have "ys = []"
          by (cases ys) (auto simp: maybeSingle_def split: option.splits)
        with Cons x show ?thesis by simp
      qed
      with ex have "data_id existing = col x ''id''"
        by (auto simp: maybeSingle_def data_id_def col_project split: option.splits)
      with u cs Inr ex t obtain p where
        up: "update_path e st1 (tr1 @ [ContactLookup]) (col x ''id'') p = (resp, st', tr)"
        and p: "p ''id'' = None"
        by (cases "truthy nm")
           (auto simp: upsert_def lookup_matches_contacts [OF c1] upsert_payload_keeps)
      from update_path_outcome [OF up p] c1 t1 show ?thesis
        by auto
    qed
  qed
qed

lemma lookup_after_insert:
  assumes m: "lookup_matches e st org em ph = []"
    and em: "truthy em" and ph: "\<not> truthy ph" "\<not> truthy ph2"
    and row: "live org row" "col row ''email'' = ostr em"
  shows "lookup_matches e2 (st1\<lparr>contacts := contacts st @ [row]\<rparr>) org em ph2 = [row]"
proof -
  from em obtain a where a: "em = Some a" "a \<noteq> []"
    by (auto simp: truthy_def split: option.splits)
  from m ph em have "filter (\<lambda>r. live org r \<and> col r ''email'' = JStr (sval em)) (contacts st) = []"
    by (simp add: lookup_matches_def lookup_filter_def)
  with ph em row a show ?thesis
    by (simp add: lookup_matches_def lookup_filter_def ostr_def sval_def)
qed

text \<open>A second upsert with the email of a contact that an upsert created.\<close>

lemma second_upsert_no_insert:
  assumes d2: "ContactUpsertSchema e2 b2 = Some d2"
    and same: "normalizeEmail e2 (dstr d2 ''email'') = em" "truthy em"
    and sel: "truthy (normalizePhone e2 (dstr d2 ''phone'')) \<longrightarrow>
        (\<forall>x. col x ''email'' = JStr (sval em) \<longrightarrow>
           or_filter e2
             (''email.eq.'' @ sval em @ '',phone.eq.'' @ sval (normalizePhone e2 (dstr d2 ''phone'')))
             x)"
    and row: "js_truthy (col row ''id'')" "live org row" "col row ''email'' = JStr (sval em)"
    and out: "POST e2 (st1\<lparr>contacts := rows @ [row]\<rparr>) (AuthOk org) b2 = (resp2, st2, tr2)"
  shows "ContactInsert \<notin> set tr2 \<and> length (contacts st2) = length rows + 1
         \<and> (\<forall>s data act. resp2 = Response s (UpsertBody data act) \<longrightarrow>
               s = 200 \<and> act = ''updated'' \<and> col data ''id'' = col row ''id'')"
proof (cases "body_check_fails e2 b2")
  case True
  from POST_rejected [OF True, of "st1\<lparr>contacts := rows @ [row]\<rparr>" org] out show ?thesis
    by (auto simp: err_def)
next
  case False
  let ?st = "st1\<lparr>contacts := rows @ [row]\<rparr>"
  let ?ph2 = "normalizePhone e2 (dstr d2 ''phone'')"
  have "lookup_filter e2 em ?ph2 row"
    using same(2) sel row(3) by (simp add: lookup_filter_def)
  with row(2) have x: "row \<in> set (lookup_matches e2 ?st org em ?ph2)"
    by (simp add: lookup_matches_def)
  from out POST_checked [OF d2 False, of ?st org] same(1)
  have "upsert e2 ?st org d2 em ?ph2 (normalizeText e2 (dstr d2 ''name''))
          (normalizeText e2 (dstr d2 ''company_name''))
          (toIsoDateString e2 (dstr d2 ''birth_date''))
          (toIsoDateString e2 (dstr d2 ''last_purchase_date''))
          (toIsoTimestamp e2 (dstr d2 ''last_interaction'')) = (resp2, st2, tr2)"
    by simp
  from upsert_with_match [OF x row(1) this] show ?thesis
    by simp
qed

lemma second_upsert_updates:
  assumes m: "lookup_matches e st org em ph = []" and k: "keyed (contacts st)"
    and em: "truthy em" and nph: "\<not> truthy ph"
    and row: "col row ''id'' = JStr i" "live org row" "col row ''email'' = ostr em"
    and fresh: "i \<noteq> []" "JStr i \<notin> set (stored st ''id'')"
    and d2: "ContactUpsertSchema e2 b2 = Some d2" and ok2: "\<not> body_check_fails e2 b2"
    and same: "normalizeEmail e2 (dstr d2 ''email'') = em"
    and nph2: "\<not> truthy (normalizePhone e2 (dstr d2 ''phone''))"
    and quiet2: "fault e2 = (\<lambda>opr. None)"
    and cs2: "company_step e2 (st1\<lparr>contacts := contacts st @ [row]\<rparr>) org d2
                (normalizeText e2 (dstr d2 ''company_name'')) = (Inr cid2, st3, tr3)"
  shows "POST e2 (st1\<lparr>contacts := contacts st @ [row]\<rparr>) (AuthOk org) b2 =
           (Response 200
              (UpsertBody (project contact_columns (overwritten e2 org d2 cid2 row)) ''updated''),
            st3\<lparr>contacts := contacts st @ [overwritten e2 org d2 cid2 row]\<rparr>,
            tr3 @ [ContactLookup, ContactUpdate])"
proof -
  let ?st = "st1\<lparr>contacts := contacts st @ [row]\<rparr>"
  have ids: "map (\<lambda>r. col r ''id'') (contacts st) = stored st ''id''"
    by (simp add: stored_def)
  have k2: "keyed (contacts ?st)"
    using k row(1) fresh by (simp add: keyed_def ids)
  have l: "lookup_matches e2 ?st org em (normalizePhone e2 (dstr d2 ''phone'')) = [row]"
    by (rule lookup_after_insert [OF m em nph nph2 row(2) row(3)])
  have f: "fault e2 ContactLookup = None" "fault e2 ContactUpdate = None"
    by (simp_all add: quiet2)
  have new: "row \<notin> set (contacts st)"
  proof
    assume "row \<in> set (contacts st)"
    then have "col row ''id'' \<in> set (stored st ''id'')"
      by (auto simp: stored_def)
    with row(1) fresh(2) show False by simp
  qed
  then have "map (\<lambda>x. if x = row then r' else x) (contacts st) = contacts st" for r'
    by (intro map_idI) auto
  then have E: "map (\<lambda>x. if x = row then r' else x) (contacts ?st) = contacts st @ [r']" for r'
    by simp
  show ?thesis
    unfolding POST_checked [OF d2 ok2] same
    by (simp only: upsert_updates [OF cs2 f l k2] E overwrite_row [of row e2 org d2 cid2, unfolded same])
qed

text \<open>
  C2, as the code has it. Take a request that passed the checks of its body, an adapter
  that reports no failure, a company step that returned the company id \<open>cid\<close>, and a
  contacts table with a primary key.

  If exactly one non-deleted contact \<open>r\<close> of the tenant matches the email or the phone
  of the request, the answer is
  200 with the action \<open>updated\<close>, the only write is one update, and \<open>r\<close> becomes
  \<open>overwritten e org d cid r\<close> in its place, with the id and the creation time it had.

  If none matches and there is a name, the answer is 201 with the action \<open>created\<close>, the
  only write is one insert, and the row \<open>inserted e org d cid\<close> is appended. After that, a
  second upsert with the same email (what it normalises to), whatever else it carries
  and whatever the adapter does, makes no insert and leaves the table with this one row
  more, given a database that gave the row a non-empty id and an adapter whose \<^verbatim>\<open>or\<close>
  filter selects the rows that have the email; when it answers with a record, the action
  is \<open>updated\<close> and the id is the one of the created row. And when both requests have no
  phone, the id of the created row is new in the table and the adapter reports no failure
  to the second request, the second request updates the created row in its place.

  If several contacts match, the lookup fails: the answer is 500 with the code DB_ERROR
  and no contact is written.

  The company id \<open>cid\<close> is the one the body gives, when it gives one that
  \<^verbatim>\<open>sanitizeUUID\<close> takes, and then the company step makes no call; otherwise it is null
  when the body has no company name (none after normalisation), again without a call; and
  otherwise it is what the Company Resolver returns for the normalised company name.
\<close>

theorem POST_create_or_update:
  assumes d: "ContactUpsertSchema e b = Some d" and ok: "\<not> body_check_fails e b"
    and em: "em = normalizeEmail e (dstr d ''email'')"
    and ph: "ph = normalizePhone e (dstr d ''phone'')"
    and nm: "nm = normalizeText e (dstr d ''name'')"
    and quiet: "fault e = (\<lambda>opr. None)"
    and cs: "company_step e st org d (normalizeText e (dstr d ''company_name'')) = (Inr cid, st1, tr1)"
    and k: "keyed (contacts st)"
  shows
    "(\<forall>r. filter (matches e org em ph) (contacts st) = [r] \<longrightarrow>
        POST e st (AuthOk org) b =
          (Response 200
             (UpsertBody (project contact_columns (overwritten e org d cid r)) ''updated''),
           st1\<lparr>contacts := map (\<lambda>x. if x = r then overwritten e org d cid r else x) (contacts st)\<rparr>,
           tr1 @ [ContactLookup, ContactUpdate])
        \<and> overwritten e org d cid r ''id'' = r ''id''
        \<and> overwritten e org d cid r ''created_at'' = r ''created_at'')
     \<and> (filter (matches e org em ph) (contacts st) = [] \<and> truthy nm \<longrightarrow>
        POST e st (AuthOk org) b =
          (Response 201 (UpsertBody (project contact_columns (inserted e org d cid)) ''created''),
           st1\<lparr>contacts := contacts st @ [inserted e org d cid]\<rparr>,
           tr1 @ [ContactLookup, ContactInsert])
        \<and> (\<forall>e2 b2 d2 resp2 st2 tr2.
              ContactUpsertSchema e2 b2 = Some d2
              \<and> normalizeEmail e2 (dstr d2 ''email'') = em \<and> truthy em
              \<and> new_contact_id e \<noteq> []
              \<and> (truthy (normalizePhone e2 (dstr d2 ''phone'')) \<longrightarrow>
                   (\<forall>x. col x ''email'' = JStr (sval em) \<longrightarrow>
                      or_filter e2
                        (''email.eq.'' @ sval em @ '',phone.eq.''
                           @ sval (normalizePhone e2 (dstr d2 ''phone'')))
                        x))
              \<and> POST e2 (st1\<lparr>contacts := contacts st @ [inserted e org d cid]\<rparr>) (AuthOk org) b2
                   = (resp2, st2, tr2) \<longrightarrow>
              ContactInsert \<notin> set tr2
              \<and> length (contacts st2) = length (contacts st) + 1
              \<and> (\<forall>s data act. resp2 = Response s (UpsertBody data act) \<longrightarrow>
                    s = 200 \<and> act = ''updated'' \<and> col data ''id'' = JStr (new_contact_id e)))
        \<and> (\<forall>e2 b2 d2 cid2 st3 tr3.
              ContactUpsertSchema e2 b2 = Some d2 \<and> \<not> body_check_fails e2 b2
              \<and> normalizeEmail e2 (dstr d2 ''email'') = em \<and> truthy em
              \<and> \<not> truthy ph \<and> \<not> truthy (normalizePhone e2 (dstr d2 ''phone''))
              \<and> new_contact_id e \<noteq> [] \<and> JStr (new_contact_id e) \<notin> set (stored st ''id'')
              \<and> fault e2 = (\<lambda>opr. None)
              \<and> company_step e2 (st1\<lparr>contacts := contacts st @ [inserted e org d cid]\<rparr>) org d2
                   (normalizeText e2 (dstr d2 ''company_name'')) = (Inr cid2, st3, tr3) \<longrightarrow>
              POST e2 (st1\<lparr>contacts := contacts st @ [inserted e org d cid]\<rparr>) (AuthOk org) b2 =
                (Response 200
                   (UpsertBody
                      (project contact_columns (overwritten e2 org d2 cid2 (inserted e org d cid)))
                      ''updated''),
                 st3\<lparr>contacts := contacts st @ [overwritten e2 org d2 cid2 (inserted e org d cid)]\<rparr>,
                 tr3 @ [ContactLookup, ContactUpdate])))
     \<and> (2 \<le> length (filter (matches e org em ph) (contacts st)) \<longrightarrow>
          POST e st (AuthOk org) b = (err 500 multiple_rows DB_ERROR, st1, tr1 @ [ContactLookup])
          \<and> contacts st1 = contacts st)
     \<and> (truthy (sanitizeUUID e (dstr d ''client_company_id'')) \<longrightarrow>
          cid = ostr (sanitizeUUID e (dstr d ''client_company_id'')) \<and> st1 = st \<and> tr1 = [])
     \<and> (\<not> truthy (sanitizeUUID e (dstr d ''client_company_id''))
          \<and> \<not> truthy (normalizeText e (dstr d ''company_name'')) \<longrightarrow>
          cid = JNull \<and> st1 = st \<and> tr1 = [])
     \<and> (\<not> truthy (sanitizeUUID e (dstr d ''client_company_id''))
          \<and> truthy (normalizeText e (dstr d ''company_name'')) \<longrightarrow>
          resolveCompanyIdFromName e st org (sval (normalizeText e (dstr d ''company_name'')))
            = (Inr cid, st1, tr1))"
proof -
  let ?row = "inserted e org d cid"
  let ?st = "st1\<lparr>contacts := contacts st @ [?row]\<rparr>"
  note P = POST_checked [OF d ok, of st org, folded em ph nm]
  have f: "fault e ContactLookup = None" "fault e ContactUpdate = None" "fault e ContactInsert = None"
    by (simp_all add: quiet)
  have L: "filter (matches e org em ph) (contacts st) = lookup_matches e st org em ph"
    using lookup_matches_eq [OF checked_has_contact [OF d ok], of e st org] by (simp add: em ph)
  have G: "truthy x \<Longrightarrow> js_truthy (ostr x)" for x
    by (cases x) (simp_all add: truthy_def ostr_def)
  have K1: "cid = ostr (sanitizeUUID e (dstr d ''client_company_id'')) \<and> st1 = st \<and> tr1 = []"
    if "truthy (sanitizeUUID e (dstr d ''client_company_id''))"
    using cs that G [OF that] by (simp add: company_step_def Let_def)
  have K2: "cid = JNull \<and> st1 = st \<and> tr1 = []"
    if "\<not> truthy (sanitizeUUID e (dstr d ''client_company_id''))
        \<and> \<not> truthy (normalizeText e (dstr d ''company_name''))"
    using cs that by (simp add: company_step_def Let_def)
  have K3: "resolveCompanyIdFromName e st org (sval (normalizeText e (dstr d ''company_name'')))
              = (Inr cid, st1, tr1)"
    if "\<not> truthy (sanitizeUUID e (dstr d ''client_company_id''))
        \<and> truthy (normalizeText e (dstr d ''company_name''))"
    using cs that by (simp add: company_step_def Let_def)
  have A: "POST e st (AuthOk org) b =
          (Response 200
             (UpsertBody (project contact_columns (overwritten e org d cid r)) ''updated''),
           st1\<lparr>contacts := map (\<lambda>x. if x = r then overwritten e org d cid r else x) (contacts st)\<rparr>,
           tr1 @ [ContactLookup, ContactUpdate])
        \<and> overwritten e org d cid r ''id'' = r ''id''
        \<and> overwritten e org d cid r ''created_at'' = r ''created_at''"
    if "lookup_matches e st org em ph = [r]" for r
  proof (intro conjI)
    show "POST e st (AuthOk org) b =
          (Response 200
             (UpsertBody (project contact_columns (overwritten e org d cid r)) ''updated''),
           st1\<lparr>contacts := map (\<lambda>x. if x = r then overwritten e org d cid r else x) (contacts st)\<rparr>,
           tr1 @ [ContactLookup, ContactUpdate])"
      unfolding P upsert_updates [OF cs f(1) f(2) that k]
      by (simp only: em ph nm overwrite_row)
    show "overwritten e org d cid r ''id'' = r ''id''"
      "overwritten e org d cid r ''created_at'' = r ''created_at''"
      by (simp_all add: overwritten_def)
  qed
  have B1: "POST e st (AuthOk org) b =
          (Response 201 (UpsertBody (project contact_columns ?row) ''created''), ?st,
           tr1 @ [ContactLookup, ContactInsert])"
    if "lookup_matches e st org em ph = []" "truthy nm"
    unfolding P upsert_creates [OF cs f(1) f(3) that]
    by (simp only: em ph nm insert_row_inserted)
  have B2: "ContactInsert \<notin> set tr2
              \<and> length (contacts st2) = length (contacts st) + 1
              \<and> (\<forall>s data act. resp2 = Response s (UpsertBody data act) \<longrightarrow>
                    s = 200 \<and> act = ''updated'' \<and> col data ''id'' = JStr (new_contact_id e))"
    if h: "ContactUpsertSchema e2 b2 = Some d2
              \<and> normalizeEmail e2 (dstr d2 ''email'') = em \<and> truthy em
              \<and> new_contact_id e \<noteq> []
              \<and> (truthy (normalizePhone e2 (dstr d2 ''phone'')) \<longrightarrow>
                   (\<forall>x. col x ''email'' = JStr (sval em) \<longrightarrow>
                      or_filter e2
                        (''email.eq.'' @ sval em @ '',phone.eq.''
                           @ sval (normalizePhone e2 (dstr d2 ''phone'')))
                        x))
              \<and> POST e2 ?st (AuthOk org) b2 = (resp2, st2, tr2)"
    for e2 b2 d2 resp2 st2 tr2
  proof -
    from h have t: "truthy em" by simp
    have r1: "js_truthy (col ?row ''id'')"
      using h by (simp add: inserted_at)
    have r3: "col ?row ''email'' = JStr (sval em)"
      using truthy_ostr [OF t] by (simp add: inserted_at em)
    from h have h1: "ContactUpsertSchema e2 b2 = Some d2"
      and h2: "normalizeEmail e2 (dstr d2 ''email'') = em"
      and h3: "truthy (normalizePhone e2 (dstr d2 ''phone'')) \<longrightarrow>
                   (\<forall>x. col x ''email'' = JStr (sval em) \<longrightarrow>
                      or_filter e2
                        (''email.eq.'' @ sval em @ '',phone.eq.''
                           @ sval (normalizePhone e2 (dstr d2 ''phone'')))
                        x)"
      and h4: "POST e2 ?st (AuthOk org) b2 = (resp2, st2, tr2)"
      by simp_all
    from second_upsert_no_insert [OF h1 h2 t h3 r1 inserted_at(2) r3 h4]
    show ?thesis
      by (simp add: inserted_at)
  qed
  have B3: "POST e2 ?st (AuthOk org) b2 =
                (Response 200
                   (UpsertBody (project contact_columns (overwritten e2 org d2 cid2 ?row)) ''updated''),
                 st3\<lparr>contacts := contacts st @ [overwritten e2 org d2 cid2 ?row]\<rparr>,
                 tr3 @ [ContactLookup, ContactUpdate])"
    if m: "lookup_matches e st org em ph = []"
      and h: "ContactUpsertSchema e2 b2 = Some d2 \<and> \<not> body_check_fails e2 b2
              \<and> normalizeEmail e2 (dstr d2 ''email'') = em \<and> truthy em
              \<and> \<not> truthy ph \<and> \<not> truthy (normalizePhone e2 (dstr d2 ''phone''))
              \<and> new_contact_id e \<noteq> [] \<and> JStr (new_contact_id e) \<notin> set (stored st ''id'')
              \<and> fault e2 = (\<lambda>opr. None)
              \<and> company_step e2 ?st org d2 (normalizeText e2 (dstr d2 ''company_name''))
                   = (Inr cid2, st3, tr3)"
    for e2 b2 d2 cid2 st3 tr3
  proof -
    from h have h': "truthy em" "\<not> truthy ph"
      "new_contact_id e \<noteq> []" "JStr (new_contact_id e) \<notin> set (stored st ''id'')"
      "ContactUpsertSchema e2 b2 = Some d2" "\<not> body_check_fails e2 b2"
      "normalizeEmail e2 (dstr d2 ''email'') = em"
      "\<not> truthy (normalizePhone e2 (dstr d2 ''phone''))"
      "fault e2 = (\<lambda>opr. None)"
      "company_step e2 ?st org d2 (normalizeText e2 (dstr d2 ''company_name''))
         = (Inr cid2, st3, tr3)"
      by simp_all
    have r3: "col ?row ''email'' = ostr em"
      by (simp add: inserted_at em)
    show ?thesis
      by (rule second_upsert_updates [OF m k h'(1) h'(2) inserted_at(1) inserted_at(2) r3 h'(3-10)])
  qed
  have C: "POST e st (AuthOk org) b = (err 500 multiple_rows DB_ERROR, st1, tr1 @ [ContactLookup])
          \<and> contacts st1 = contacts st"
    if "2 \<le> length (lookup_matches e st org em ph)"
    unfolding P using upsert_ambiguous [OF cs f(1) that] by blast
  show ?thesis
  proof (intro conjI allI impI)
    fix r
    assume "filter (matches e org em ph) (contacts st) = [r]"
    then have "lookup_matches e st org em ph = [r]" by (simp only: L)
    from A [OF this]
    show "POST e st (AuthOk org) b =
          (Response 200
             (UpsertBody (project contact_columns (overwritten e org d cid r)) ''updated''),
           st1\<lparr>contacts := map (\<lambda>x. if x = r then overwritten e org d cid r else x) (contacts st)\<rparr>,
           tr1 @ [ContactLookup, ContactUpdate])"
      "overwritten e org d cid r ''id'' = r ''id''"
      "overwritten e org d cid r ''created_at'' = r ''created_at''"
      by simp_all
  next
    assume "filter (matches e org em ph) (contacts st) = [] \<and> truthy nm"
    then show "POST e st (AuthOk org) b =
          (Response 201 (UpsertBody (project contact_columns ?row) ''created''), ?st,
           tr1 @ [ContactLookup, ContactInsert])"
      using B1 by (simp add: L)
  next
    fix e2 b2 d2 resp2 st2 tr2
    assume h: "ContactUpsertSchema e2 b2 = Some d2
              \<and> normalizeEmail e2 (dstr d2 ''email'') = em \<and> truthy em
              \<and> new_contact_id e \<noteq> []
              \<and> (truthy (normalizePhone e2 (dstr d2 ''phone'')) \<longrightarrow>
                   (\<forall>x. col x ''email'' = JStr (sval em) \<longrightarrow>
                      or_filter e2
                        (''email.eq.'' @ sval em @ '',phone.eq.''
                           @ sval (normalizePhone e2 (dstr d2 ''phone'')))
                        x))
              \<and> POST e2 ?st (AuthOk org) b2 = (resp2, st2, tr2)"
    note r = B2 [OF h]
    from r show "ContactInsert \<notin> set tr2" by simp
    from r show "length (contacts st2) = length (contacts st) + 1" by simp
    fix s data act
    assume "resp2 = Response s (UpsertBody data act)"
    with r show "s = 200" "act = ''updated''" "col data ''id'' = JStr (new_contact_id e)"
      by simp_all
  next
    fix e2 b2 d2 cid2 st3 tr3
    assume m: "filter (matches e org em ph) (contacts st) = [] \<and> truthy nm"
      and h: "ContactUpsertSchema e2 b2 = Some d2 \<and> \<not> body_check_fails e2 b2
              \<and> normalizeEmail e2 (dstr d2 ''email'') = em \<and> truthy em
              \<and> \<not> truthy ph \<and> \<not> truthy (normalizePhone e2 (dstr d2 ''phone''))
              \<and> new_contact_id e \<noteq> [] \<and> JStr (new_contact_id e) \<notin> set (stored st ''id'')
              \<and> fault e2 = (\<lambda>opr. None)
              \<and> company_step e2 ?st org d2 (normalizeText e2 (dstr d2 ''company_name''))
                   = (Inr cid2, st3, tr3)"
    from m have "lookup_matches e st org em ph = []" by (simp add: L)
    from B3 [OF this h]
    show "POST e2 ?st (AuthOk org) b2 =
                (Response 200
                   (UpsertBody (project contact_columns (overwritten e2 org d2 cid2 ?row)) ''updated''),
                 st3\<lparr>contacts := contacts st @ [overwritten e2 org d2 cid2 ?row]\<rparr>,
                 tr3 @ [ContactLookup, ContactUpdate])" .
  next
    assume "2 \<le> length (filter (matches e org em ph) (contacts st))"
    then have "2 \<le> length (lookup_matches e st org em ph)" by (simp only: L)
    from C [OF this]
    show "POST e st (AuthOk org) b = (err 500 multiple_rows DB_ERROR, st1, tr1 @ [ContactLookup])"
      "contacts st1 = contacts st"
      by simp_all
  next
    assume "truthy (sanitizeUUID e (dstr d ''client_company_id''))"
    from K1 [OF this]
    show "cid = ostr (sanitizeUUID e (dstr d ''client_company_id''))" "st1 = st" "tr1 = []"
      by simp_all
  next
    assume "\<not> truthy (sanitizeUUID e (dstr d ''client_company_id''))
        \<and> \<not> truthy (normalizeText e (dstr d ''company_name''))"
    from K2 [OF this] show "cid = JNull" "st1 = st" "tr1 = []"
      by simp_all
  next
    assume "\<not> truthy (sanitizeUUID e (dstr d ''client_company_id''))
        \<and> truthy (normalizeText e (dstr d ''company_name''))"
    from K3 [OF this]
    show "resolveCompanyIdFromName e st org (sval (normalizeText e (dstr d ''company_name'')))
            = (Inr cid, st1, tr1)" .
  qed
qed

lemmas row_defs = contact_ana_def contact_bia_def store_two_def col_def live_def project_def

text \<open>
  The claim C2 as it is written fails: with one contact matching the email and another
  the phone, the request is past every check and neither creates nor updates.
\<close>

theorem POST_two_matches:
  "POST demo_env store_two (AuthOk ''org1'')
     (Some [(''name'', JStr ''Ana''), (''email'', JStr ''ana@ex.com''), (''phone'', JStr ''+55 11 999'')])
   = (err 500 multiple_rows DB_ERROR, store_two, [ContactLookup])"
  by (simp add: post_defs demo_env_sel helper_defs row_defs demo_or_filter_def condition_holds_def)

theorem POST_create_or_update_witness:
  "ContactUpsertSchema demo_env (Some [(''name'', JStr ''Ana Silva''), (''email'', JStr ''ANA@EX.com'')])
     = Some (map_of [(''name'', JStr ''Ana Silva''), (''email'', JStr ''ANA@EX.com'')])
   \<and> \<not> body_check_fails demo_env (Some [(''name'', JStr ''Ana Silva''), (''email'', JStr ''ANA@EX.com'')])
   \<and> fault demo_env = (\<lambda>opr. None)
   \<and> keyed (contacts store_two)
   \<and> filter (matches demo_env ''org1'' (Some ''ana@ex.com'') None) (contacts store_two)
       = [contact_ana]
   \<and> POST demo_env store_two (AuthOk ''org1'')
        (Some [(''name'', JStr ''Ana Silva''), (''email'', JStr ''ANA@EX.com'')]) =
        (Response 200
           (UpsertBody
              (project contact_columns
                 (overwritten demo_env ''org1''
                    (map_of [(''name'', JStr ''Ana Silva''), (''email'', JStr ''ANA@EX.com'')])
                    JNull contact_ana))
              ''updated''),
         store_two\<lparr>contacts :=
           map (\<lambda>x. if x = contact_ana
                     then overwritten demo_env ''org1''
                            (map_of [(''name'', JStr ''Ana Silva''), (''email'', JStr ''ANA@EX.com'')])
                            JNull contact_ana
                     else x)
             (contacts store_two)\<rparr>,
         [ContactLookup, ContactUpdate])
   \<and> ContactUpsertSchema demo_env (Some [(''name'', JStr ''Eva''), (''email'', JStr ''EVA@ex.com'')])
     = Some (map_of [(''name'', JStr ''Eva''), (''email'', JStr ''EVA@ex.com'')])
   \<and> \<not> body_check_fails demo_env (Some [(''name'', JStr ''Eva''), (''email'', JStr ''EVA@ex.com'')])
   \<and> filter (matches demo_env ''org1'' (Some ''eva@ex.com'') None) (contacts store_two) = []
   \<and> POST demo_env store_two (AuthOk ''org1'')
        (Some [(''name'', JStr ''Eva''), (''email'', JStr ''EVA@ex.com'')]) =
        (Response 201
           (UpsertBody
              (project contact_columns
                 (inserted demo_env ''org1''
                    (map_of [(''name'', JStr ''Eva''), (''email'', JStr ''EVA@ex.com'')]) JNull))
              ''created''),
         store_two\<lparr>contacts :=
           contacts store_two @
             [inserted demo_env ''org1''
                (map_of [(''name'', JStr ''Eva''), (''email'', JStr ''EVA@ex.com'')]) JNull]\<rparr>,
         [ContactLookup, ContactInsert])
   \<and> ContactUpsertSchema demo_env (Some [(''email'', JStr ''eva@ex.com''), (''role'', JStr ''CEO'')])
     = Some (map_of [(''email'', JStr ''eva@ex.com''), (''role'', JStr ''CEO'')])
   \<and> \<not> body_check_fails demo_env (Some [(''email'', JStr ''eva@ex.com''), (''role'', JStr ''CEO'')])
   \<and> new_contact_id demo_env \<noteq> []
   \<and> JStr (new_contact_id demo_env) \<notin> set (stored store_two ''id'')
   \<and> POST demo_env
        (store_two\<lparr>contacts :=
           contacts store_two @
             [inserted demo_env ''org1''
                (map_of [(''name'', JStr ''Eva''), (''email'', JStr ''EVA@ex.com'')]) JNull]\<rparr>)
        (AuthOk ''org1'') (Some [(''email'', JStr ''eva@ex.com''), (''role'', JStr ''CEO'')]) =
        (Response 200
           (UpsertBody
              (project contact_columns
                 (overwritten demo_env ''org1''
                    (map_of [(''email'', JStr ''eva@ex.com''), (''role'', JStr ''CEO'')]) JNull
                    (inserted demo_env ''org1''
                       (map_of [(''name'', JStr ''Eva''), (''email'', JStr ''EVA@ex.com'')]) JNull)))
              ''updated''),
         store_two\<lparr>contacts :=
           contacts store_two @
             [overwritten demo_env ''org1''
                (map_of [(''email'', JStr ''eva@ex.com''), (''role'', JStr ''CEO'')]) JNull
                (inserted demo_env ''org1''
                   (map_of [(''name'', JStr ''Eva''), (''email'', JStr ''EVA@ex.com'')]) JNull)]\<rparr>,
         [ContactLookup, ContactUpdate])
   \<and> col (project contact_columns
             (overwritten demo_env ''org1''
                (map_of [(''email'', JStr ''eva@ex.com''), (''role'', JStr ''CEO'')]) JNull
                (inserted demo_env ''org1''
                   (map_of [(''name'', JStr ''Eva''), (''email'', JStr ''EVA@ex.com'')]) JNull)))
        ''id'' = JStr (new_contact_id demo_env)"
proof -
  let ?kvs = "[(''name'', JStr ''Ana Silva''), (''email'', JStr ''ANA@EX.com'')]"
  let ?kve = "[(''name'', JStr ''Eva''), (''email'', JStr ''EVA@ex.com'')]"
  let ?kv2 = "[(''email'', JStr ''eva@ex.com''), (''role'', JStr ''CEO'')]"
  let ?row = "inserted demo_env ''org1'' (map_of ?kve) JNull"
  let ?st = "store_two\<lparr>contacts := contacts store_two @ [?row]\<rparr>"
  let ?row2 = "overwritten demo_env ''org1'' (map_of ?kv2) JNull ?row"
  have h1: "ContactUpsertSchema demo_env (Some ?kvs) = Some (map_of ?kvs)"
    by (simp add: ContactUpsertSchema_def upsert_member_ok_def upsert_text_keys_def)
  have h2: "\<not> body_check_fails demo_env (Some ?kvs)"
    by (simp add: body_check_fails_def h1 demo_env_sel helper_defs)
  have h3: "Some ''ana@ex.com'' = normalizeEmail demo_env (dstr (map_of ?kvs) ''email'')"
    by (simp add: demo_env_sel helper_defs)
  have h4: "None = normalizePhone demo_env (dstr (map_of ?kvs) ''phone'')"
    by (simp add: demo_env_sel helper_defs)
  have h5: "fault demo_env = (\<lambda>opr. None)"
    by (simp add: demo_env_sel)
  have h6: "company_step demo_env store_two ''org1'' (map_of ?kvs)
              (normalizeText demo_env (dstr (map_of ?kvs) ''company_name'')) = (Inr JNull, store_two, [])"
    by (simp add: company_step_def demo_env_sel helper_defs)
  have h7: "keyed (contacts store_two)"
    by (simp add: keyed_def row_defs)
  have h8: "filter (matches demo_env ''org1'' (Some ''ana@ex.com'') None) (contacts store_two)
              = [contact_ana]"
    by (simp add: matches_def truthy_def sval_def row_defs)
  note T1 = POST_create_or_update [OF h1 h2 h3 h4 refl h5 h6 h7]
  have u: "POST demo_env store_two (AuthOk ''org1'') (Some ?kvs) =
        (Response 200
           (UpsertBody
              (project contact_columns (overwritten demo_env ''org1'' (map_of ?kvs) JNull contact_ana))
              ''updated''),
         store_two\<lparr>contacts :=
           map (\<lambda>x. if x = contact_ana
                     then overwritten demo_env ''org1'' (map_of ?kvs) JNull contact_ana else x)
             (contacts store_two)\<rparr>,
         [ContactLookup, ContactUpdate])"
    using T1 [THEN conjunct1, rule_format, OF h8, THEN conjunct1] by simp
  have g1: "ContactUpsertSchema demo_env (Some ?kve) = Some (map_of ?kve)"
    by (simp add: ContactUpsertSchema_def upsert_member_ok_def upsert_text_keys_def)
  have g2: "\<not> body_check_fails demo_env (Some ?kve)"
    by (simp add: body_check_fails_def g1 demo_env_sel helper_defs)
  have g3: "Some ''eva@ex.com'' = normalizeEmail demo_env (dstr (map_of ?kve) ''email'')"
    by (simp add: demo_env_sel helper_defs)
  have g4: "None = normalizePhone demo_env (dstr (map_of ?kve) ''phone'')"
    by (simp add: demo_env_sel helper_defs)
  have g6: "company_step demo_env store_two ''org1'' (map_of ?kve)
              (normalizeText demo_env (dstr (map_of ?kve) ''company_name'')) = (Inr JNull, store_two, [])"
    by (simp add: company_step_def demo_env_sel helper_defs)
  have g8: "filter (matches demo_env ''org1'' (Some ''eva@ex.com'') None) (contacts store_two) = []"
    by (simp add: matches_def truthy_def sval_def row_defs)
  have g9: "truthy (normalizeText demo_env (dstr (map_of ?kve) ''name''))"
    by (simp add: demo_env_sel helper_defs)
  note T2 = POST_create_or_update [OF g1 g2 g3 g4 refl h5 g6 h7, THEN conjunct2, THEN conjunct1,
      THEN mp, OF conjI [OF g8 g9]]
  have c: "POST demo_env store_two (AuthOk ''org1'') (Some ?kve) =
        (Response 201 (UpsertBody (project contact_columns ?row) ''created''), ?st,
         [ContactLookup, ContactInsert])"
    using T2 [THEN conjunct1] by simp
  have s1: "ContactUpsertSchema demo_env (Some ?kv2) = Some (map_of ?kv2)"
    by (simp add: ContactUpsertSchema_def upsert_member_ok_def upsert_text_keys_def)
  have s2: "\<not> body_check_fails demo_env (Some ?kv2)"
    by (simp add: body_check_fails_def s1 demo_env_sel helper_defs)
  have s3: "normalizeEmail demo_env (dstr (map_of ?kv2) ''email'') = Some ''eva@ex.com''"
    by (simp add: demo_env_sel helper_defs)
  have s4: "truthy (Some ''eva@ex.com'')" "\<not> truthy None"
    by (simp_all add: truthy_def)
  have s5: "\<not> truthy (normalizePhone demo_env (dstr (map_of ?kv2) ''phone''))"
    by (simp add: demo_env_sel helper_defs)
  have s6: "new_contact_id demo_env \<noteq> []"
    by (simp add: demo_env_sel)
  have s7: "JStr (new_contact_id demo_env) \<notin> set (stored store_two ''id'')"
    by (simp add: demo_env_sel stored_def row_defs)
  have s8: "company_step demo_env ?st ''org1'' (map_of ?kv2)
              (normalizeText demo_env (dstr (map_of ?kv2) ''company_name'')) = (Inr JNull, ?st, [])"
    by (simp add: company_step_def demo_env_sel helper_defs)
  have v: "POST demo_env ?st (AuthOk ''org1'') (Some ?kv2) =
        (Response 200 (UpsertBody (project contact_columns ?row2) ''updated''),
         ?st\<lparr>contacts := contacts store_two @ [?row2]\<rparr>,
         [] @ [ContactLookup, ContactUpdate])"
    by (rule T2 [THEN conjunct2, THEN conjunct2, rule_format,
          of demo_env "Some ?kv2" "map_of ?kv2" JNull ?st "[]"])
       (intro conjI s1 s2 s3 s4 s5 s6 s7 h5 s8)
  then have v': "POST demo_env ?st (AuthOk ''org1'') (Some ?kv2) =
        (Response 200 (UpsertBody (project contact_columns ?row2) ''updated''),
         store_two\<lparr>contacts := contacts store_two @ [?row2]\<rparr>,
         [ContactLookup, ContactUpdate])"
    by simp
  have "ContactInsert \<notin> set [ContactLookup, ContactUpdate]
        \<and> length (contacts (store_two\<lparr>contacts := contacts store_two @ [?row2]\<rparr>))
            = length (contacts store_two) + 1
        \<and> (\<forall>s data act.
              Response 200 (UpsertBody (project contact_columns ?row2) ''updated'')
                = Response s (UpsertBody data act) \<longrightarrow>
              s = 200 \<and> act = ''updated'' \<and> col data ''id'' = JStr (new_contact_id demo_env))"
    by (rule T2 [THEN conjunct2, THEN conjunct1, rule_format,
          of demo_env "Some ?kv2" "map_of ?kv2"])
       (simp only: s1 s3 s4 s5 s6 v' simp_thms)
  then have w: "col (project contact_columns ?row2) ''id'' = JStr (new_contact_id demo_env)"
    by simp
  show ?thesis
    by (intro conjI) (rule h1 h2 h5 h7 h8 u g1 g2 g8 c s1 s2 s6 s7 v' w)+
qed

section \<open>Failures of the adapter\<close>

lemma company_select_error_fault:
  "company_select_error e st org n = None \<Longrightarrow> fault e CompanySelect = None"
  "company_select_error e st org n = Some m \<Longrightarrow> fault e CompanySelect = Some m' \<Longrightarrow> m = m'"
  by (auto simp: company_select_error_def split: option.splits if_splits)

lemma resolve_trace:
  assumes "resolveCompanyIdFromName e st org cn = (res, st1, tr1)"
  shows "tr1 \<in> {[], [CompanySelect], [CompanySelect, CompanyInsert]}
         \<and> list_all (\<lambda>opr. fault e opr = None) (butlast tr1)
         \<and> (case res of
               Inr v \<Rightarrow> list_all (\<lambda>opr. fault e opr = None) tr1
             | Inl m \<Rightarrow> tr1 \<noteq> [] \<and> (\<forall>m'. fault e (last tr1) = Some m' \<longrightarrow> m = m'))"
  using assms
  by (auto simp: resolveCompanyIdFromName_def maybeSingle_def
           dest: company_select_error_fault
           split: option.splits if_splits sum.splits list.splits)

lemma company_step_trace:
  assumes "company_step e st org d cn = (res, st1, tr1)"
  shows "tr1 \<in> {[], [CompanySelect], [CompanySelect, CompanyInsert]}
         \<and> list_all (\<lambda>opr. fault e opr = None) (butlast tr1)
         \<and> (case res of
               Inr v \<Rightarrow> list_all (\<lambda>opr. fault e opr = None) tr1
             | Inl m \<Rightarrow> tr1 \<noteq> [] \<and> (\<forall>m'. fault e (last tr1) = Some m' \<longrightarrow> m = m'))"
proof (cases "\<not> js_truthy (if truthy (sanitizeUUID e (dstr d ''client_company_id''))
                   then ostr (sanitizeUUID e (dstr d ''client_company_id'')) else JNull) \<and> truthy cn")
  case True
  with assms have "resolveCompanyIdFromName e st org (sval cn) = (res, st1, tr1)"
    by (simp add: company_step_def Let_def)
  then show ?thesis by (rule resolve_trace)
next
  case False
  with assms show ?thesis
    by (auto simp: company_step_def Let_def)
qed

lemma quiet_surfaced:
  "list_all (\<lambda>opr. fault e opr = None) tr \<Longrightarrow> distinct tr \<Longrightarrow> surfaced e resp tr"
proof -
  assume q: "list_all (\<lambda>opr. fault e opr = None) tr" and d: "distinct tr"
  have "list_all (\<lambda>opr. fault e opr = None) (butlast tr)"
    using q by (auto simp: list_all_iff dest: in_set_butlastD)
  moreover have "tr \<noteq> [] \<Longrightarrow> fault e (last tr) = None"
    using q by (auto simp: list_all_iff)
  ultimately show ?thesis
    using d by (cases "tr = []") (simp_all add: surfaced_def)
qed

lemma snoc_surfaced:
  "list_all (\<lambda>opr. fault e opr = None) tr \<Longrightarrow> distinct tr \<Longrightarrow> x \<notin> set tr \<Longrightarrow>
   x \<notin> set [CompanySelect, CompanyInsert] \<Longrightarrow>
   (\<And>m. fault e x = Some m \<Longrightarrow> resp = err 500 m DB_ERROR) \<Longrightarrow>
   surfaced e resp (tr @ [x])"
  by (auto simp: surfaced_def split: option.splits)

lemma err_known:
  "c \<in> set [VALIDATION_ERROR, NOT_FOUND, DB_ERROR] \<Longrightarrow> known_code (err s m c)"
  "known_code (Response s (UpsertBody data act))"
  "known_code (Response s (DataBody data))"
  "known_code (Response s (ListBody rows nxt))"
  "known_code (Response s (AuthBody v))"
  by (simp_all add: known_code_def err_def)

lemma update_path_surfaced:
  assumes u: "update_path e st tr i p = (resp, st', tr')"
    and q: "list_all (\<lambda>opr. fault e opr = None) tr" "distinct tr" "ContactUpdate \<notin> set tr"
  shows "surfaced e resp tr' \<and> known_code resp"
proof (cases "fault e ContactUpdate")
  case None
  with u have "tr' = tr @ [ContactUpdate]" "known_code resp"
    by (auto simp: update_path_def err_known split: list.splits)
  moreover have "list_all (\<lambda>opr. fault e opr = None) (tr @ [ContactUpdate])"
    using q None by simp
  ultimately show ?thesis
    using q by (simp add: quiet_surfaced)
next
  case (Some m)
  with u have "tr' = tr @ [ContactUpdate]" "resp = err 500 m DB_ERROR"
    by (auto simp: update_path_def)
  moreover have "surfaced e (err 500 m DB_ERROR) (tr @ [ContactUpdate])"
    by (rule snoc_surfaced) (use q Some in simp_all)
  ultimately show ?thesis
    by (simp add: err_known)
qed

lemma create_path_surfaced:
  assumes u: "create_path e st tr nm p = (resp, st', tr')"
    and q: "list_all (\<lambda>opr. fault e opr = None) tr" "distinct tr" "ContactInsert \<notin> set tr"
  shows "surfaced e resp tr' \<and> known_code resp"
proof (cases "truthy nm")
  case False
  with u have "tr' = tr" "resp = err 422 ''Name is required to create a new contact'' VALIDATION_ERROR"
    by (auto simp: create_path_def)
  with q show ?thesis
    by (simp add: quiet_surfaced err_known)
next
  case True
  show ?thesis
  proof (cases "fault e ContactInsert")
    case None
    with u True have "tr' = tr @ [ContactInsert]" "known_code resp"
      by (auto simp: create_path_def err_known Let_def)
    moreover have "list_all (\<lambda>opr. fault e opr = None) (tr @ [ContactInsert])"
      using q None by simp
    ultimately show ?thesis
      using q by (simp add: quiet_surfaced)
  next
    case (Some m)
    with u True have "tr' = tr @ [ContactInsert]" "resp = err 500 m DB_ERROR"
      by (auto simp: create_path_def Let_def)
    moreover have "surfaced e (err 500 m DB_ERROR) (tr @ [ContactInsert])"
      by (rule snoc_surfaced) (use q Some in simp_all)
    ultimately show ?thesis
      by (simp add: err_known)
  qed
qed

lemma upsert_surfaced:
  assumes u: "upsert e st org d em ph nm cn bd lp li = (resp, st', tr)"
  shows "surfaced e resp tr \<and> known_code resp"
proof -
  obtain res st1 tr1 where cs: "company_step e st org d cn = (res, st1, tr1)"
    by (cases "company_step e st org d cn") auto
  note ct = company_step_trace [OF cs]
  then have shape: "tr1 \<in> {[], [CompanySelect], [CompanySelect, CompanyInsert]}"
    and bq: "list_all (\<lambda>opr. fault e opr = None) (butlast tr1)"
    by simp_all
  from shape have dt: "distinct tr1" "ContactLookup \<notin> set tr1" "ContactUpdate \<notin> set tr1"
    "ContactInsert \<notin> set tr1"
    by auto
  show ?thesis
  proof (cases res)
    case (Inl m)
    with u cs have r: "resp = err 422 (if m \<noteq> [] then m else ''Invalid company'') VALIDATION_ERROR"
      and t: "tr = tr1"
      by (simp_all add: upsert_def)
    from ct Inl have ne: "tr1 \<noteq> []" and mm: "\<And>m'. fault e (last tr1) = Some m' \<Longrightarrow> m = m'"
      by simp_all
    from shape ne have "last tr1 \<in> set [CompanySelect, CompanyInsert]"
      by auto
    with r t dt bq mm show ?thesis
      by (auto simp: surfaced_def err_known split: option.splits)
  next
    case (Inr cid)
    with ct have q1: "list_all (\<lambda>opr. fault e opr = None) tr1"
      by simp
    show ?thesis
    proof (cases "maybeSingle (fault e ContactLookup)
                    (map (project [''id'']) (lookup_matches e st1 org em ph))")
      case (Inl m)
      with u cs \<open>res = Inr cid\<close> have r: "resp = err 500 m DB_ERROR" "tr = tr1 @ [ContactLookup]"
        by (simp_all add: upsert_def)
      have "\<And>m'. fault e ContactLookup = Some m' \<Longrightarrow> m = m'"
        using Inl by (auto simp: maybeSingle_def)
      then have "surfaced e (err 500 m DB_ERROR) (tr1 @ [ContactLookup])"
        by (intro snoc_surfaced) (use q1 dt in auto)
      with r show ?thesis
        by (simp add: err_known)
    next
      case (Inr existing)
      then have fl: "fault e ContactLookup = None"
        by (auto simp: maybeSingle_def split: option.splits)
      with q1 dt have q2: "list_all (\<lambda>opr. fault e opr = None) (tr1 @ [ContactLookup])"
        "distinct (tr1 @ [ContactLookup])" "ContactUpdate \<notin> set (tr1 @ [ContactLookup])"
        "ContactInsert \<notin> set (tr1 @ [ContactLookup])"
        by simp_all
      from u cs \<open>res = Inr cid\<close> Inr show ?thesis
        by (auto simp: upsert_def Let_def split: if_splits
              dest: update_path_surfaced [OF _ q2(1) q2(2) q2(3)]
                    create_path_surfaced [OF _ q2(1) q2(2) q2(4)])
    qed
  qed
qed

lemma POST_surfaced:
  assumes "POST e st a b = (resp, st', tr)"
  shows "surfaced e resp tr \<and> known_code resp"
proof -
  have nil: "surfaced e r []" for r
    by (simp add: surfaced_def)
  from assms show ?thesis
    by (auto simp: POST_def Let_def nil err_known
             split: auth_result.splits option.splits if_splits dest: upsert_surfaced)
qed

lemma single_call_surfaced:
  "(\<And>m. fault e x = Some m \<Longrightarrow> resp = err 500 m DB_ERROR) \<Longrightarrow>
   x \<notin> set [CompanySelect, CompanyInsert] \<Longrightarrow> surfaced e resp [x]"
  using snoc_surfaced [of e "[]" x resp] by simp

lemma GET_list_surfaced:
  assumes "GET_list e st a params = (resp, st', tr)"
  shows "surfaced e resp tr \<and> known_code resp"
  using assms
  by (auto simp: GET_list_def Let_def surfaced_def err_known
           split: auth_result.splits option.splits)

lemma GET_by_id_surfaced:
  assumes "GET_by_id e st a contactId = (resp, st', tr)"
  shows "surfaced e resp tr \<and> known_code resp"
  using assms
  by (auto simp: GET_by_id_def maybeSingle_def surfaced_def err_known
           split: auth_result.splits option.splits if_splits sum.splits list.splits)

lemma PATCH_surfaced:
  assumes "PATCH e st a contactId b = (resp, st', tr)"
  shows "surfaced e resp tr \<and> known_code resp"
  using assms
  by (auto simp: PATCH_def Let_def surfaced_def err_known
           split: auth_result.splits option.splits if_splits list.splits)

lemma handle_surfaced:
  assumes "handle e st a c = (resp, st', tr)"
  shows "surfaced e resp tr \<and> known_code resp"
  using assms
  by (cases c) (auto dest: POST_surfaced GET_list_surfaced GET_by_id_surfaced PATCH_surfaced)


text \<open>
  C3, as the code has it. In every handler of /contacts the calls on the adapter are
  made one after the other, none twice, and no call follows one at which the adapter
  reported a failure. A failure at the last call is the response: its message with the
  code DB_ERROR and status 500 for every call but the two of the company step, whose
  failure the upsert answers with status 422, the code VALIDATION_ERROR and the message,
  or \<open>Invalid company\<close> when the message is empty. Every error response carries one of
  the three codes.
\<close>

theorem store_failure_surfaced:
  assumes "handle e st a c = (resp, st', tr)"
  shows "distinct tr
     \<and> (\<forall>opr \<in> set (butlast tr). fault e opr = None)
     \<and> (\<forall>m. tr \<noteq> [] \<and> fault e (last tr) = Some m \<longrightarrow>
          resp = (if last tr \<in> {CompanySelect, CompanyInsert}
                  then err 422 (if m \<noteq> [] then m else ''Invalid company'') VALIDATION_ERROR
                  else err 500 m DB_ERROR))
     \<and> (\<forall>s m code. resp = Response s (ErrorBody m code) \<longrightarrow>
          code \<in> {VALIDATION_ERROR, NOT_FOUND, DB_ERROR})"
  using handle_surfaced [OF assms]
  by (auto simp: surfaced_def known_code_def list_all_iff split: option.splits)

text \<open>
  The claim C3 as it is written fails: a failure of the adapter in the company's lookup
  comes back with the code VALIDATION_ERROR.
\<close>

theorem company_failure_is_validation_error:
  "POST (env_failing CompanySelect ''boom'') empty_store (AuthOk ''org1'')
     (Some [(''name'', JStr ''Ana''), (''email'', JStr ''a@b.c''), (''company_name'', JStr ''Acme'')])
   = (err 422 ''boom'' VALIDATION_ERROR, empty_store, [CompanySelect])
   \<and> VALIDATION_ERROR \<noteq> DB_ERROR"
  by (simp add: post_defs env_failing_def demo_env_sel empty_store_def helper_defs)

theorem store_failure_surfaced_witness:
  "handle (env_failing ContactLookup ''connection lost'') empty_store (AuthOk ''org1'')
     (PostContacts (Some [(''name'', JStr ''Ana''), (''email'', JStr ''a@b.c'')]))
   = (err 500 ''connection lost'' DB_ERROR, empty_store, [ContactLookup])
   \<and> fault (env_failing ContactLookup ''connection lost'') ContactLookup = Some ''connection lost''
   \<and> distinct [ContactLookup]
   \<and> DB_ERROR \<in> {VALIDATION_ERROR, NOT_FOUND, DB_ERROR}"
proof -
  have h: "handle (env_failing ContactLookup ''connection lost'') empty_store (AuthOk ''org1'')
     (PostContacts (Some [(''name'', JStr ''Ana''), (''email'', JStr ''a@b.c'')]))
   = (err 500 ''connection lost'' DB_ERROR, empty_store, [ContactLookup])"
    by (simp add: post_defs env_failing_def demo_env_sel empty_store_def helper_defs)
  from store_failure_surfaced [OF h] h show ?thesis
    by (simp add: env_failing_def)
qed

text \<open>An error the database raises for the pattern of the company lookup is answered like
  the other failures of the company step.\<close>

lemma pattern_error_is_validation_error:
  "POST demo_env store_axb (AuthOk ''org1'')
     (Some [(''email'', JStr ''a@b.c''), (''company_name'', JStr [CHR ''a'', CHR ''x'', CHR 0x5C])])
   = (err 422 dangling_escape VALIDATION_ERROR, store_axb, [CompanySelect])"
  by (simp add: post_defs demo_env_sel helper_defs store_axb_def company_axb_def live_def col_def
        project_def ilike_col_def ilike_col_by_def ilike_by_def dangling_escape_def)

section \<open>The Company Resolver and letter case\<close>

lemma like_match_plain:
  "list_all (\<lambda>c. c \<notin> set [CHR ''%'', CHR ''_'', CHR 0x5C]) p \<Longrightarrow>
   (like_match f p t = LIKE_TRUE) = (map f t = map f p) \<and> like_match f p t \<noteq> LIKE_ERROR"
proof (induction p arbitrary: t)
  case Nil
  then show ?case by (cases t) simp_all
next
  case (Cons a p)
  show ?case
  proof (cases t)
    case Nil
    with Cons.prems show ?thesis by simp
  next
    case (Cons c cs)
    with Cons.prems Cons.IH [of cs] show ?thesis by auto
  qed
qed

lemma ilike_plain:
  assumes "plain p"
  shows "(ilike_by f p t = LIKE_TRUE) = (map f t = map f p)" and "ilike_by f p t \<noteq> LIKE_ERROR"
proof -
  from assms have star: "map (\<lambda>c. if c = CHR ''*'' then CHR ''%'' else c) p = p"
    by (intro map_idI) (auto simp: plain_def pattern_chars_def list_all_iff)
  from assms have "list_all (\<lambda>c. c \<notin> set [CHR ''%'', CHR ''_'', CHR 0x5C]) p"
    by (auto simp: plain_def pattern_chars_def list_all_iff)
  from like_match_plain [OF this, of f t]
  show "(ilike_by f p t = LIKE_TRUE) = (map f t = map f p)" "ilike_by f p t \<noteq> LIKE_ERROR"
    by (simp_all add: ilike_by_def star)
qed

lemma company_matches_plain:
  assumes "plain n"
  shows "company_matches e st org n = named_companies e st org n"
    and "company_select_error e st org n = fault e CompanySelect"
proof -
  show "company_matches e st org n = named_companies e st org n"
    unfolding company_matches_def named_companies_def
    by (rule filter_cong [OF refl])
       (simp add: ilike_col_def ilike_col_by_def same_name_def ilike_plain(1) [OF assms]
          split: jsonv.splits)
  have "ilike_col e ''name'' n r \<noteq> LIKE_ERROR" for r
    by (simp add: ilike_col_def ilike_col_by_def ilike_plain(2) [OF assms] split: jsonv.splits)
  then show "company_select_error e st org n = fault e CompanySelect"
    by (simp add: company_select_error_def list_ex_iff split: option.splits)
qed

lemma resolve_found:
  assumes "normalizeText e (Some a) = Some n" "n \<noteq> []" "plain n"
    and "fault e CompanySelect = None"
    and "named_companies e st org n = [r]" "js_truthy (col r ''id'')"
  shows "resolveCompanyIdFromName e st org a = (Inr (col r ''id''), st, [CompanySelect])"
  using assms
  by (simp add: resolveCompanyIdFromName_def company_matches_plain maybeSingle_def data_id_def
        project_def col_def)

lemma resolve_created:
  assumes "normalizeText e (Some a) = Some n" "n \<noteq> []" "plain n"
    and "fault e CompanySelect = None" "fault e CompanyInsert = None"
    and "named_companies e st org n = []"
  shows "resolveCompanyIdFromName e st org a =
           (Inr (JStr (new_company_id e)),
            st\<lparr>companies := companies st @ [company_row e org n]\<rparr>,
            [CompanySelect, CompanyInsert])"
  using assms
  by (simp add: resolveCompanyIdFromName_def company_matches_plain maybeSingle_def data_id_def)

lemma resolve_ambiguous:
  assumes "normalizeText e (Some a) = Some n" "n \<noteq> []" "plain n"
    and "fault e CompanySelect = None"
    and "2 \<le> length (named_companies e st org n)"
  shows "resolveCompanyIdFromName e st org a = (Inl multiple_rows, st, [CompanySelect])"
proof -
  from assms(5) obtain x y zs where "named_companies e st org n = x # y # zs"
    by (auto simp: numeral_2_eq_2 Suc_le_length_iff)
  with assms show ?thesis
    by (simp add: resolveCompanyIdFromName_def company_matches_plain maybeSingle_def)
qed

lemma same_name_cong:
  "fold_case e' = fold_case e \<Longrightarrow> map (fold_case e) n' = map (fold_case e) n \<Longrightarrow>
   same_name e' n' r = same_name e n r"
  by (simp add: same_name_def split: jsonv.splits)

lemma named_companies_cong:
  assumes "fold_case e' = fold_case e" "map (fold_case e) n' = map (fold_case e) n"
  shows "named_companies e' st org n' = named_companies e st org n"
  unfolding named_companies_def same_name_cong [OF assms] ..

lemma named_after_insert:
  assumes "named_companies e st org n = []"
  shows "named_companies e (st\<lparr>companies := companies st @ [company_row e org n]\<rparr>) org n
           = [company_row e org n]"
  using assms
  by (simp add: named_companies_def company_row_def live_def same_name_def col_def)

text \<open>
  Where the resolver does what its name says: for a name without \<^verbatim>\<open>%\<close>, \<^verbatim>\<open>_\<close>, backslash
  and \<^verbatim>\<open>*\<close>, with an adapter that reports no failure and companies whose ids are not
  empty, the lookup finds the non-deleted companies of the tenant that have this name,
  letter case apart. If there is one, its id is returned and nothing is written; if there
  is none, one company is created and its id returned; if there are several, the resolver
  throws. And when at most one company has the name, resolving a name that differs from
  it only by letter case, in the store the first call left, returns the same id and
  writes nothing.
\<close>

lemma resolver_plain_names:
  assumes n: "normalizeText e (Some a) = Some n" "n \<noteq> []" "plain n"
    and quiet: "fault e CompanySelect = None" "fault e CompanyInsert = None"
    and ids: "list_all (\<lambda>r. js_truthy (col r ''id'')) (companies st)" "new_company_id e \<noteq> []"
  shows
    "(\<forall>r. named_companies e st org n = [r] \<longrightarrow>
         resolveCompanyIdFromName e st org a = (Inr (col r ''id''), st, [CompanySelect]))
     \<and> (named_companies e st org n = [] \<longrightarrow>
         resolveCompanyIdFromName e st org a =
           (Inr (JStr (new_company_id e)),
            st\<lparr>companies := companies st @ [company_row e org n]\<rparr>,
            [CompanySelect, CompanyInsert]))
     \<and> (2 \<le> length (named_companies e st org n) \<longrightarrow>
         resolveCompanyIdFromName e st org a = (Inl multiple_rows, st, [CompanySelect]))
     \<and> (\<forall>e' b n'. length (named_companies e st org n) \<le> 1
           \<and> normalizeText e' (Some b) = Some n' \<and> plain n'
           \<and> fold_case e' = fold_case e \<and> map (fold_case e) n' = map (fold_case e) n
           \<and> fault e' CompanySelect = None \<longrightarrow>
         resolveCompanyIdFromName e' (fst (snd (resolveCompanyIdFromName e st org a))) org b =
           (fst (resolveCompanyIdFromName e st org a),
            fst (snd (resolveCompanyIdFromName e st org a)), [CompanySelect]))"
proof -
  have truthy_id: "js_truthy (col r ''id'')" if "named_companies e st org n = [r]" for r
  proof -
    have "r \<in> set (named_companies e st org n)" by (simp add: that)
    then have "r \<in> set (companies st)" by (simp add: named_companies_def)
    with ids(1) show ?thesis by (simp add: list_all_iff)
  qed
  have A: "resolveCompanyIdFromName e st org a = (Inr (col r ''id''), st, [CompanySelect])"
    if "named_companies e st org n = [r]" for r
    using resolve_found [OF n quiet(1) that truthy_id [OF that]] .
  have B: "resolveCompanyIdFromName e st org a =
           (Inr (JStr (new_company_id e)),
            st\<lparr>companies := companies st @ [company_row e org n]\<rparr>,
            [CompanySelect, CompanyInsert])"
    if "named_companies e st org n = []"
    using resolve_created [OF n quiet that] .
  have C: "resolveCompanyIdFromName e st org a = (Inl multiple_rows, st, [CompanySelect])"
    if "2 \<le> length (named_companies e st org n)"
    using resolve_ambiguous [OF n quiet(1) that] .
  have D: "resolveCompanyIdFromName e' (fst (snd (resolveCompanyIdFromName e st org a))) org b =
           (fst (resolveCompanyIdFromName e st org a),
            fst (snd (resolveCompanyIdFromName e st org a)), [CompanySelect])"
    if le: "length (named_companies e st org n) \<le> 1"
      and b: "normalizeText e' (Some b) = Some n'" "plain n'"
      and fc: "fold_case e' = fold_case e"
      and eq: "map (fold_case e) n' = map (fold_case e) n" and q': "fault e' CompanySelect = None"
    for e' b n'
  proof -
    from eq n(2) have ne: "n' \<noteq> []" by auto
    show ?thesis
    proof (cases "named_companies e st org n")
      case Nil
      let ?st1 = "st\<lparr>companies := companies st @ [company_row e org n]\<rparr>"
      have "named_companies e' ?st1 org n' = [company_row e org n]"
        using named_after_insert [OF Nil] by (simp add: named_companies_cong [OF fc eq])
      moreover have "js_truthy (col (company_row e org n) ''id'')"
        "col (company_row e org n) ''id'' = JStr (new_company_id e)"
        using ids(2) by (simp_all add: company_row_def col_def)
      ultimately have "resolveCompanyIdFromName e' ?st1 org b =
          (Inr (JStr (new_company_id e)), ?st1, [CompanySelect])"
        using resolve_found [OF b(1) ne b(2) q', of ?st1 org "company_row e org n"] by simp
      with B [OF Nil] show ?thesis by simp
    next
      case (Cons r rs)
      with le have one: "named_companies e st org n = [r]" by simp
      then have "named_companies e' st org n' = [r]"
        by (simp add: named_companies_cong [OF fc eq])
      from resolve_found [OF b(1) ne b(2) q' this truthy_id [OF one]] A [OF one]
      show ?thesis by simp
    qed
  qed
  from A B C D show ?thesis by blast
qed

text \<open>
  C4 does not hold of the code: the name goes to \<^verbatim>\<open>.ilike\<close> as it is, so the lookup is a
  pattern match and not the exact match of names, letter case apart, that the claim
  states. In a tenant whose only company is \<open>axb\<close>, no company has the name \<open>a_b\<close>,
  letter case apart; yet the resolver returns the id of \<open>axb\<close> for \<open>a_b\<close> and creates
  no company.
\<close>

theorem resolver_pattern_match:
  "resolveCompanyIdFromName demo_env store_axb ''org1'' ''a_b''
     = (Inr (JStr ''k1''), store_axb, [CompanySelect])
   \<and> named_companies demo_env store_axb ''org1'' ''a_b'' = []
   \<and> stored_names store_axb = [JStr ''axb'']"
  by (simp add: resolveCompanyIdFromName_def company_matches_def company_select_error_def
        maybeSingle_def data_id_def demo_env_sel helper_defs store_axb_def company_axb_def
        live_def col_def project_def ilike_col_def ilike_col_by_def ilike_by_def
        named_companies_def same_name_def stored_names_def)

text \<open>A name that ends in a backslash, where a company of the tenant has the characters
  before it and more: the database refuses the pattern and the resolver throws.\<close>

lemma resolver_dangling_escape:
  "resolveCompanyIdFromName demo_env store_axb ''org1'' [CHR ''a'', CHR ''x'', CHR 0x5C]
     = (Inl dangling_escape, store_axb, [CompanySelect])"
  by (simp add: resolveCompanyIdFromName_def company_matches_def company_select_error_def
        maybeSingle_def data_id_def demo_env_sel helper_defs store_axb_def company_axb_def
        live_def col_def project_def ilike_col_def ilike_col_by_def ilike_by_def)

section \<open>GET /contacts: the page and the next cursor\<close>

lemma enumerate_window:
  "map snd (filter (\<lambda>ir. a \<le> fst ir \<and> fst ir < b) (enumerate n xs))
     = take (b - max a n) (drop (a - n) xs)"
proof (induction xs arbitrary: n)
  case Nil
  then show ?case by simp
next
  case (Cons x xs)
  show ?case
    using Cons.IH [of "Suc n"]
    by (auto simp: max_def drop_Cons' take_Cons' not_le not_less Suc_diff_le le_Suc_eq)
qed

lemma range_rows_take_drop:
  "range_rows (int k) (int k + int l - 1) rows = take l (drop k rows)"
proof -
  have "(\<lambda>ir. int k \<le> int (fst ir) \<and> int (fst ir) \<le> int k + int l - 1)
          = (\<lambda>ir::nat \<times> 'a. k \<le> fst ir \<and> fst ir < k + l)"
    by (auto simp: fun_eq_iff)
  then show ?thesis
    using enumerate_window [of k "k + l" 0 rows]
    by (simp add: range_rows_def)
qed

text \<open>
  C5. For an authenticated request whose query the adapter answers, with \<open>k\<close> the
  decoded cursor, \<open>l\<close> the parsed limit and \<open>rows\<close> the rows of the query in its
  order: the window asked of the adapter is from \<open>k\<close> to \<open>k + l - 1\<close>, the page is
  made of the rows at these positions (the \<open>l\<close> rows after the first \<open>k\<close>), and the
  next cursor is the token of \<open>k + l\<close> when \<open>k + l\<close> is less than the number of rows,
  null otherwise.
\<close>

theorem GET_list_page:
  assumes "fault e ContactList = None"
    and "k = decodeOffsetCursor e (query_get params ''cursor'')"
    and "l = parseLimit e (query_get params ''limit'')"
    and "rows = list_query e st org params"
  shows "GET_list e st (AuthOk org) params =
           (Response 200
              (ListBody (map (list_item e) (range_rows (int k) (int k + int l - 1) rows))
                 (if k + l < length rows then Some (encodeOffsetCursor e (k + l)) else None)),
            st, [ContactList])
         \<and> range_rows (int k) (int k + int l - 1) rows = take l (drop k rows)"
proof -
  have "int k + int l - 1 + 1 < int (length rows) \<longleftrightarrow> k + l < length rows"
    by auto
  moreover have "nat (int k + int l - 1 + 1) = k + l"
    by simp
  ultimately show ?thesis
    using assms by (simp add: GET_list_def Let_def range_rows_take_drop)
qed

theorem GET_list_page_witness:
  "fault demo_env ContactList = None
   \<and> 0 = decodeOffsetCursor demo_env (query_get [(''limit'', ''1'')] ''cursor'')
   \<and> 1 = parseLimit demo_env (query_get [(''limit'', ''1'')] ''limit'')
   \<and> [contact_bia, contact_ana] = list_query demo_env store_two ''org1'' [(''limit'', ''1'')]
   \<and> GET_list demo_env store_two (AuthOk ''org1'') [(''limit'', ''1'')] =
       (Response 200 (ListBody [list_item demo_env contact_bia] (Some ''1'')), store_two, [ContactList])"
proof -
  have h1: "fault demo_env ContactList = None"
    by (simp add: demo_env_sel)
  have h2: "0 = decodeOffsetCursor demo_env (query_get [(''limit'', ''1'')] ''cursor'')"
    by (simp add: demo_env_sel query_get_def spec_decodeOffsetCursor_def)
  have h3: "1 = parseLimit demo_env (query_get [(''limit'', ''1'')] ''limit'')"
    by (simp add: demo_env_sel query_get_def spec_parseLimit_def number_of_def digit_val_def)
  have h4: "[contact_bia, contact_ana] = list_query demo_env store_two ''org1'' [(''limit'', ''1'')]"
    by (simp add: list_query_def demo_env_sel query_get_def helper_defs store_two_def live_def
          order_created_desc_def created_key_def col_def contact_ana_def contact_bia_def)
  have enc: "encodeOffsetCursor demo_env (Suc 0) = ''1''"
    by (simp add: demo_env_sel spec_encodeOffsetCursor_def digits_of.simps digit_char_def)
  from GET_list_page [OF h1 h2 h3 h4]
  have g: "GET_list demo_env store_two (AuthOk ''org1'') [(''limit'', ''1'')] =
       (Response 200 (ListBody [list_item demo_env contact_bia] (Some ''1'')), store_two, [ContactList])"
    by (simp add: enc)
  show ?thesis
    by (intro conjI) (rule h1 h2 h3 h4 g)+
qed

section \<open>Dates that do not parse\<close>

lemma date_shape_length: "date_shape s \<Longrightarrow> length s = 10"
  by (induction s rule: date_shape.induct) simp_all

lemma toIsoDateString_invalid:
  "toIsoDateString e (Some v) = Some INVALID \<longleftrightarrow> bad_date e v"
proof -
  have a: "date_shape s \<Longrightarrow> s \<noteq> INVALID" for s
    using date_shape_length [of s] by (auto simp: INVALID_def)
  have b: "take 10 t \<noteq> INVALID" for t :: string
  proof
    assume "take 10 t = INVALID"
    then have "length (take 10 t) = 11" by (simp add: INVALID_def)
    then show False by simp
  qed
  show ?thesis
    using a [of "trim e v"] b
    by (auto simp: toIsoDateString_def bad_date_def Let_def split: option.splits)
qed

lemma toIsoDateString_none [simp]: "toIsoDateString e None = None"
  by (simp add: toIsoDateString_def trim_def trim_by_def)

lemma toIsoTimestamp_none [simp]: "toIsoTimestamp e None = None"
  by (simp add: toIsoTimestamp_def trim_def trim_by_def)

lemma toIsoTimestamp_invalid:
  "bad_timestamp e v \<Longrightarrow> toIsoTimestamp e (Some v) = Some INVALID"
  by (auto simp: toIsoTimestamp_def bad_timestamp_def Let_def)

lemma upsert_date_invalid:
  "toIsoDateString e (dstr d k) = Some INVALID \<longleftrightarrow> unparsable_date e d k"
  by (auto simp: dstr_def unparsable_date_def toIsoDateString_invalid
           split: option.splits jsonv.splits)

lemma upsert_timestamp_invalid:
  "unparsable_timestamp e d k \<Longrightarrow> toIsoTimestamp e (dstr d k) = Some INVALID"
  by (auto simp: dstr_def unparsable_timestamp_def toIsoTimestamp_invalid
           split: option.splits jsonv.splits)

lemma ostr_eq_JStr: "ostr x = JStr s \<longleftrightarrow> x = Some s"
  by (cases x) (simp_all add: ostr_def)

lemma patch_date_invalid:
  "is_sentinel d k (patch_date e) \<longleftrightarrow> unparsable_date e d k"
proof (cases "d k")
  case None
  then show ?thesis by (simp add: is_sentinel_def unparsable_date_def)
next
  case (Some v)
  then show ?thesis
    by (cases v)
       (simp_all add: is_sentinel_def unparsable_date_def patch_date_def ostr_eq_JStr
          toIsoDateString_invalid)
qed

lemma patch_timestamp_invalid:
  "unparsable_timestamp e d k \<Longrightarrow> is_sentinel d k (patch_timestamp e)"
  by (auto simp: is_sentinel_def unparsable_timestamp_def patch_timestamp_def ostr_eq_JStr
        toIsoTimestamp_invalid split: option.splits jsonv.splits)

lemma POST_invalid_dates:
  assumes "ContactUpsertSchema e b = Some d"
    and "truthy (normalizeEmail e (dstr d ''email'')) \<or> truthy (normalizePhone e (dstr d ''phone''))"
  shows "(unparsable_date e d ''birth_date'' \<longrightarrow>
            POST e st (AuthOk org) b = (err 422 ''Invalid birth_date'' VALIDATION_ERROR, st, []))
       \<and> (\<not> unparsable_date e d ''birth_date'' \<and> unparsable_date e d ''last_purchase_date'' \<longrightarrow>
            POST e st (AuthOk org) b = (err 422 ''Invalid last_purchase_date'' VALIDATION_ERROR, st, []))
       \<and> (\<not> unparsable_date e d ''birth_date'' \<and> \<not> unparsable_date e d ''last_purchase_date''
            \<and> unparsable_timestamp e d ''last_interaction'' \<longrightarrow>
            POST e st (AuthOk org) b = (err 422 ''Invalid last_interaction'' VALIDATION_ERROR, st, []))"
  using assms
  by (auto simp: POST_def Let_def upsert_date_invalid upsert_timestamp_invalid)

lemma PATCH_invalid_dates:
  assumes "isValidUUID e contactId" and "ContactPatchSchema e b = Some d"
  shows "(unparsable_date e d ''birth_date'' \<longrightarrow>
            PATCH e st (AuthOk org) contactId b = (err 422 ''Invalid birth_date'' VALIDATION_ERROR, st, []))
       \<and> (\<not> unparsable_date e d ''birth_date'' \<and> unparsable_date e d ''last_purchase_date'' \<longrightarrow>
            PATCH e st (AuthOk org) contactId b
              = (err 422 ''Invalid last_purchase_date'' VALIDATION_ERROR, st, []))
       \<and> (\<not> unparsable_date e d ''birth_date'' \<and> \<not> unparsable_date e d ''last_purchase_date''
            \<and> unparsable_timestamp e d ''last_interaction'' \<longrightarrow>
            PATCH e st (AuthOk org) contactId b
              = (err 422 ''Invalid last_interaction'' VALIDATION_ERROR, st, []))"
  using assms
  by (auto simp: PATCH_def patch_invalid_date_def patch_date_invalid patch_timestamp_invalid)


text \<open>
  C6, as the code has it. On an authenticated upsert whose body passes the schema and
  has an email or a phone, and on an authenticated partial update with a well-formed id
  whose body passes the schema, the three fields are checked in the order birth_date,
  last_purchase_date, last_interaction, and the first whose string does not parse is
  answered 422 with the code VALIDATION_ERROR and a message that names it, before any
  call on the store. A string does not parse when, trimmed as JavaScript trims it, it is
  not empty, is not of the shape \<^verbatim>\<open>dddd-dd-dd\<close> (for the two date fields) and is not a
  date for JavaScript.
\<close>

theorem unparsable_date_rejected:
  "(ContactUpsertSchema e b = Some d
      \<and> (truthy (normalizeEmail e (dstr d ''email'')) \<or> truthy (normalizePhone e (dstr d ''phone'')))
    \<longrightarrow>
      (unparsable_date e d ''birth_date'' \<longrightarrow>
         POST e st (AuthOk org) b = (err 422 ''Invalid birth_date'' VALIDATION_ERROR, st, []))
      \<and> (\<not> unparsable_date e d ''birth_date'' \<and> unparsable_date e d ''last_purchase_date'' \<longrightarrow>
         POST e st (AuthOk org) b = (err 422 ''Invalid last_purchase_date'' VALIDATION_ERROR, st, []))
      \<and> (\<not> unparsable_date e d ''birth_date'' \<and> \<not> unparsable_date e d ''last_purchase_date''
           \<and> unparsable_timestamp e d ''last_interaction'' \<longrightarrow>
         POST e st (AuthOk org) b = (err 422 ''Invalid last_interaction'' VALIDATION_ERROR, st, [])))
   \<and> (isValidUUID e contactId \<and> ContactPatchSchema e b' = Some d'
    \<longrightarrow>
      (unparsable_date e d' ''birth_date'' \<longrightarrow>
         PATCH e st (AuthOk org) contactId b'
           = (err 422 ''Invalid birth_date'' VALIDATION_ERROR, st, []))
      \<and> (\<not> unparsable_date e d' ''birth_date'' \<and> unparsable_date e d' ''last_purchase_date'' \<longrightarrow>
         PATCH e st (AuthOk org) contactId b'
           = (err 422 ''Invalid last_purchase_date'' VALIDATION_ERROR, st, []))
      \<and> (\<not> unparsable_date e d' ''birth_date'' \<and> \<not> unparsable_date e d' ''last_purchase_date''
           \<and> unparsable_timestamp e d' ''last_interaction'' \<longrightarrow>
         PATCH e st (AuthOk org) contactId b'
           = (err 422 ''Invalid last_interaction'' VALIDATION_ERROR, st, [])))"
  using POST_invalid_dates [of e b d st org] PATCH_invalid_dates [of e contactId b' d' st org]
  by blast

text \<open>
  The claim C6 as it is written fails: \<open>2024-99-99\<close> is no date, yet it has the shape
  the handler takes as it is. The upsert sends it to the store: with a store that takes
  it the answer is 201 and the string is the stored birth date; with a store that
  refuses it the answer is 500. Neither is a validation error.
\<close>

theorem date_shaped_string_accepted:
  "demo_jsDate ''2024-99-99'' = None
   \<and> status_of (fst (POST demo_env empty_store (AuthOk ''org1'')
        (Some [(''name'', JStr ''Ana''), (''email'', JStr ''a@b.c''),
               (''birth_date'', JStr ''2024-99-99'')]))) = 201
   \<and> stored (fst (snd (POST demo_env empty_store (AuthOk ''org1'')
        (Some [(''name'', JStr ''Ana''), (''email'', JStr ''a@b.c''),
               (''birth_date'', JStr ''2024-99-99'')])))) ''birth_date'' = [JStr ''2024-99-99'']
   \<and> fst (POST (env_failing ContactInsert ''date/time field value out of range'') empty_store
        (AuthOk ''org1'')
        (Some [(''name'', JStr ''Ana''), (''email'', JStr ''a@b.c''),
               (''birth_date'', JStr ''2024-99-99'')]))
       = err 500 ''date/time field value out of range'' DB_ERROR"
  by (simp add: post_defs env_failing_def demo_env_sel empty_store_def helper_defs demo_jsDate_def
        stored_def contact_row_def upsert_payload_def col_def map_add_def)

text \<open>A date that is one no-break space is blank: the contact is created without a
  birth date.\<close>

lemma no_break_space_is_blank:
  "status_of (fst (POST demo_env empty_store (AuthOk ''org1'')
        (Some [(''name'', JStr ''Ana''), (''email'', JStr ''a@b.c''),
               (''birth_date'', JStr [CHR 0xA0])]))) = 201
   \<and> stored (fst (snd (POST demo_env empty_store (AuthOk ''org1'')
        (Some [(''name'', JStr ''Ana''), (''email'', JStr ''a@b.c''),
               (''birth_date'', JStr [CHR 0xA0])])))) ''birth_date'' = [JNull]"
  by (simp add: post_defs demo_env_sel empty_store_def helper_defs stored_def contact_row_def
        upsert_payload_def col_def map_add_def)

theorem unparsable_date_rejected_witness:
  "ContactUpsertSchema demo_env
     (Some [(''email'', JStr ''a@b.c''), (''birth_date'', JStr ''not-a-date'')])
     = Some (map_of [(''email'', JStr ''a@b.c''), (''birth_date'', JStr ''not-a-date'')])
   \<and> truthy (normalizeEmail demo_env
        (dstr (map_of [(''email'', JStr ''a@b.c''), (''birth_date'', JStr ''not-a-date'')]) ''email''))
   \<and> unparsable_date demo_env
        (map_of [(''email'', JStr ''a@b.c''), (''birth_date'', JStr ''not-a-date'')]) ''birth_date''
   \<and> POST demo_env store_two (AuthOk ''org1'')
        (Some [(''email'', JStr ''a@b.c''), (''birth_date'', JStr ''not-a-date'')])
       = (err 422 ''Invalid birth_date'' VALIDATION_ERROR, store_two, [])
   \<and> isValidUUID demo_env ''123e4567-e89b-12d3-a456-426614174000''
   \<and> ContactPatchSchema demo_env (Some [(''last_interaction'', JStr ''soon'')])
       = Some (map_of [(''last_interaction'', JStr ''soon'')])
   \<and> unparsable_timestamp demo_env (map_of [(''last_interaction'', JStr ''soon'')]) ''last_interaction''
   \<and> PATCH demo_env store_two (AuthOk ''org1'') ''123e4567-e89b-12d3-a456-426614174000''
        (Some [(''last_interaction'', JStr ''soon'')])
       = (err 422 ''Invalid last_interaction'' VALIDATION_ERROR, store_two, [])"
proof -
  let ?b = "Some [(''email'', JStr ''a@b.c''), (''birth_date'', JStr ''not-a-date'')]"
  let ?d = "map_of [(''email'', JStr ''a@b.c''), (''birth_date'', JStr ''not-a-date'')]"
  let ?b' = "Some [(''last_interaction'', JStr ''soon'')]"
  let ?d' = "map_of [(''last_interaction'', JStr ''soon'')]"
  let ?id = "''123e4567-e89b-12d3-a456-426614174000''"
  have h1: "ContactUpsertSchema demo_env ?b = Some ?d"
    by (simp add: ContactUpsertSchema_def upsert_member_ok_def upsert_text_keys_def)
  have h2: "truthy (normalizeEmail demo_env (dstr ?d ''email''))"
    by (simp add: demo_env_sel helper_defs)
  have h3: "unparsable_date demo_env ?d ''birth_date''"
    by (simp add: unparsable_date_def bad_date_def demo_env_sel demo_jsDate_def trim_def
          trim_by_def js_space_def)
  have h4: "isValidUUID demo_env ?id"
    by (simp add: demo_env_sel uuid_shape_def is_hex_def enumerate_eq_zip upt_rec)
  have h5: "ContactPatchSchema demo_env ?b' = Some ?d'"
    by (simp add: ContactPatchSchema_def patch_member_ok_def patch_text_keys_def patch_date_keys_def)
  have h6: "unparsable_timestamp demo_env ?d' ''last_interaction''"
    by (simp add: unparsable_timestamp_def bad_timestamp_def demo_env_sel demo_jsDate_def
          trim_def trim_by_def js_space_def)
  have n1: "\<not> unparsable_date demo_env ?d' ''birth_date''"
    "\<not> unparsable_date demo_env ?d' ''last_purchase_date''"
    by (simp_all add: unparsable_date_def)
  note T = unparsable_date_rejected [of demo_env ?b ?d store_two "''org1''" ?id ?b' ?d']
  have p: "POST demo_env store_two (AuthOk ''org1'') ?b
             = (err 422 ''Invalid birth_date'' VALIDATION_ERROR, store_two, [])"
    using T [THEN conjunct1] h1 h2 h3 by (simp only: simp_thms)
  have q: "PATCH demo_env store_two (AuthOk ''org1'') ?id ?b'
             = (err 422 ''Invalid last_interaction'' VALIDATION_ERROR, store_two, [])"
    using T [THEN conjunct2] h4 h5 h6 n1 by (simp only: simp_thms)
  show ?thesis
    by (intro conjI) (rule h1 h2 h3 h4 h5 h6 p q)+
qed

section \<open>PATCH: what is written and what is kept\<close>

lemma map_of_set_if_present:
  "map_of (set_if_present d k' f @ rest) k =
     (if k = k' then (case d k' of None \<Rightarrow> map_of rest k | Some v \<Rightarrow> Some (f v))
      else map_of rest k)"
  by (simp add: set_if_present_def split: option.splits)

lemma patch_updates_other:
  "k \<notin> set patch_keys \<Longrightarrow> k \<noteq> ''updated_at'' \<Longrightarrow> patch_updates e d k = None"
  by (simp add: patch_keys_def patch_updates_def map_of_set_if_present del: map_of_append)

lemma patch_updates_stamp:
  "patch_updates e d ''updated_at'' = Some (JStr (now e))"
  by (simp add: patch_updates_def map_of_set_if_present del: map_of_append)

lemma patch_updates_absent:
  assumes "d k = None" "k \<noteq> ''updated_at''"
  shows "patch_updates e d k = None"
proof (cases "k \<in> set patch_keys")
  case True
  then show ?thesis
    using assms(1) unfolding patch_keys_def
    by (elim set_ConsD [elim_format] disjE;
        simp add: patch_updates_def map_of_set_if_present del: map_of_append)
next
  case False
  then show ?thesis by (rule patch_updates_other [OF _ assms(2)])
qed

lemma schema_keys:
  assumes "ContactPatchSchema e (Some kvs) = Some d"
  shows "d = map_of kvs" and "\<And>k v. d k = Some v \<Longrightarrow> patch_member_ok e (k, v)"
proof -
  from assms have ok: "list_all (patch_member_ok e) kvs" and d: "d = map_of kvs"
    by (auto simp: ContactPatchSchema_def split: if_splits)
  show "d = map_of kvs" by (rule d)
  show "patch_member_ok e (k, v)" if "d k = Some v" for k v
  proof -
    from that d have "(k, v) \<in> set kvs"
      by (auto dest: map_of_SomeD)
    with ok show ?thesis
      by (simp add: list_all_iff)
  qed
qed

lemma patch_member_key:
  "patch_member_ok e (k, v) \<Longrightarrow> k \<in> set patch_keys"
  by (auto simp: patch_member_ok_def patch_keys_def patch_text_keys_def patch_date_keys_def
           split: if_splits)

lemma patch_updates_written:
  assumes ok: "patch_member_ok e (k, v)" and dk: "d k = Some v"
  shows "patch_updates e d k = Some (written e k v)"
  using patch_member_key [OF ok] ok dk unfolding patch_keys_def
  by (elim set_ConsD [elim_format] disjE;
      cases v;
      simp add: patch_updates_def map_of_set_if_present written_def patch_member_ok_def
        patch_text_keys_def patch_date_keys_def patch_text_def patch_company_id_def
        patch_date_def patch_timestamp_def patch_number_def Number_js_def date_value_eq
        timestamp_value_eq Let_def
        del: map_of_append)

lemma patched_row:
  assumes "ContactPatchSchema e (Some kvs) = Some d"
  shows "r ++ patch_updates e d = patched e d r"
proof (rule ext)
  fix k
  note sk = schema_keys [OF assms]
  show "(r ++ patch_updates e d) k = patched e d r k"
  proof (cases "k = ''updated_at''")
    case True
    then show ?thesis
      by (simp add: map_add_def patch_updates_stamp patched_def)
  next
    case False
    show ?thesis
    proof (cases "d k")
      case None
      with False show ?thesis
        by (simp add: map_add_def patch_updates_absent patched_def)
    next
      case (Some v)
      with False patch_updates_written [where e = e and d = d and k = k and v = v, OF sk(2) [OF Some] Some]
      show ?thesis
        by (simp add: map_add_def patched_def)
    qed
  qed
qed

lemma PATCH_writes:
  assumes "isValidUUID e contactId" and d: "ContactPatchSchema e b = Some d"
    and "patch_invalid_date e d = None" and "fault e ContactPatch = None"
    and r: "filter (patch_target org contactId) (contacts st) = [r]"
  shows "PATCH e st (AuthOk org) contactId b =
           (Response 200 (DataBody (project contact_columns (r ++ patch_updates e d))),
            st\<lparr>contacts := map (\<lambda>x. if x = r then r ++ patch_updates e d else x) (contacts st)\<rparr>,
            [ContactPatch])"
  using assms single_target(1) [OF r, of "\<lambda>x. x ++ patch_updates e d"]
  by (simp add: PATCH_def Let_def)

lemma PATCH_outcome:
  assumes "PATCH e st a contactId b = (resp, st', tr)"
  shows "st' = st
         \<or> (\<exists>org d r. a = AuthOk org \<and> ContactPatchSchema e b = Some d
               \<and> filter (\<lambda>x. col x ''organization_id'' = JStr org \<and> col x ''id'' = JStr contactId)
                    (contacts st) = [r]
               \<and> resp = Response 200 (DataBody (project contact_columns (patched e d r)))
               \<and> st' = st\<lparr>contacts := map (\<lambda>x. if x = r then patched e d r else x) (contacts st)\<rparr>)"
proof (cases "st' = st")
  case True
  then show ?thesis by simp
next
  case False
  with assms obtain org where a: "a = AuthOk org"
    by (cases a) (auto simp: PATCH_def)
  from assms False a have v: "isValidUUID e contactId"
    by (auto simp: PATCH_def split: if_splits)
  from assms False a v obtain d where d: "ContactPatchSchema e b = Some d"
    by (cases "ContactPatchSchema e b") (auto simp: PATCH_def)
  then obtain kvs where b: "b = Some kvs"
    by (cases b) (auto simp: ContactPatchSchema_def)
  from assms False a v d have i: "patch_invalid_date e d = None"
    by (cases "patch_invalid_date e d") (auto simp: PATCH_def)
  from assms False a v d i have f: "fault e ContactPatch = None"
    by (cases "fault e ContactPatch") (auto simp: PATCH_def Let_def)
  from assms False a v d i f obtain r where
    r: "filter (patch_target org contactId) (contacts st) = [r]"
    by (auto simp: PATCH_def Let_def split: list.splits)
  then have r': "filter (\<lambda>x. col x ''organization_id'' = JStr org \<and> col x ''id'' = JStr contactId)
                   (contacts st) = [r]"
    by (simp add: patch_target_def [abs_def])
  note w = PATCH_writes [OF v d i f r, unfolded patched_row [OF d [unfolded b]]]
  from w assms a
  have "resp = Response 200 (DataBody (project contact_columns (patched e d r)))"
    "st' = st\<lparr>contacts := map (\<lambda>x. if x = r then patched e d r else x) (contacts st)\<rparr>"
    by simp_all
  with a d r' show ?thesis
    by blast
qed

text \<open>
  C7, as the code has it. A partial update either leaves the store as it found it, or
  answers 200 and changes one record: the record \<open>r\<close> of the tenant with the id of the
  request becomes \<open>patched e d r\<close>, for the parsed body \<open>d\<close>, and no other row changes. It
  does the latter, with the update as its only call, when the id is well formed, the body
  passes the schema, its dates are taken, the adapter reports no failure and \<open>r\<close> is the
  one record of the tenant with this id. In \<open>patched e d r\<close> every column that is not a
  member of the body keeps its stored value, but \<^verbatim>\<open>updated_at\<close>, which is set to the
  current time; every member of the body is written with its normalised value; a member
  the body gives as null is null afterwards.
\<close>

theorem PATCH_frame:
  "(ContactPatchSchema e (Some kvs) = Some d \<longrightarrow>
      (\<forall>k. k \<notin> fst ` set kvs \<and> k \<noteq> ''updated_at'' \<longrightarrow> patched e d r k = r k)
      \<and> (\<forall>k v. map_of kvs k = Some v \<longrightarrow> patched e d r k = Some (written e k v))
      \<and> (\<forall>k \<in> set patch_nullable. map_of kvs k = Some JNull \<longrightarrow> patched e d r k = Some JNull)
      \<and> patched e d r ''updated_at'' = Some (JStr (now e)))
   \<and> (isValidUUID e contactId \<and> ContactPatchSchema e b = Some d
      \<and> patch_invalid_date e d = None \<and> fault e ContactPatch = None
      \<and> filter (\<lambda>x. col x ''organization_id'' = JStr org \<and> col x ''id'' = JStr contactId)
           (contacts st) = [r] \<longrightarrow>
      PATCH e st (AuthOk org) contactId b =
        (Response 200 (DataBody (project contact_columns (patched e d r))),
         st\<lparr>contacts := map (\<lambda>x. if x = r then patched e d r else x) (contacts st)\<rparr>,
         [ContactPatch]))
   \<and> (PATCH e st a contactId b = (resp, st', tr) \<longrightarrow>
        st' = st
        \<or> (\<exists>org d r. a = AuthOk org \<and> ContactPatchSchema e b = Some d
              \<and> filter (\<lambda>x. col x ''organization_id'' = JStr org \<and> col x ''id'' = JStr contactId)
                   (contacts st) = [r]
              \<and> resp = Response 200 (DataBody (project contact_columns (patched e d r)))
              \<and> st' = st\<lparr>contacts := map (\<lambda>x. if x = r then patched e d r else x) (contacts st)\<rparr>))"
proof (intro conjI impI)
  assume s: "ContactPatchSchema e (Some kvs) = Some d"
  note sk = schema_keys [OF s]
  have key: "k \<noteq> ''updated_at''" if "map_of kvs k = Some v" for k v
  proof -
    from that sk have "patch_member_ok e (k, v)" by simp
    from patch_member_key [OF this] show ?thesis
      by (auto simp: patch_keys_def)
  qed
  show "\<forall>k. k \<notin> fst ` set kvs \<and> k \<noteq> ''updated_at'' \<longrightarrow> patched e d r k = r k"
  proof (intro allI impI)
    fix k
    assume "k \<notin> fst ` set kvs \<and> k \<noteq> ''updated_at''"
    then have "map_of kvs k = None" "k \<noteq> ''updated_at''"
      by (simp_all add: map_of_eq_None_iff)
    then show "patched e d r k = r k"
      by (simp add: patched_def sk(1))
  qed
  show present: "\<forall>k v. map_of kvs k = Some v \<longrightarrow> patched e d r k = Some (written e k v)"
    using key by (simp add: patched_def sk(1))
  show "\<forall>k \<in> set patch_nullable. map_of kvs k = Some JNull \<longrightarrow> patched e d r k = Some JNull"
    using present by (simp add: written_def)
  show "patched e d r ''updated_at'' = Some (JStr (now e))"
    by (simp add: patched_def)
next
  assume h: "isValidUUID e contactId \<and> ContactPatchSchema e b = Some d
      \<and> patch_invalid_date e d = None \<and> fault e ContactPatch = None
      \<and> filter (\<lambda>x. col x ''organization_id'' = JStr org \<and> col x ''id'' = JStr contactId)
           (contacts st) = [r]"
  then have h': "isValidUUID e contactId" "ContactPatchSchema e b = Some d"
    "patch_invalid_date e d = None" "fault e ContactPatch = None"
    "filter (patch_target org contactId) (contacts st) = [r]"
    by (simp_all add: patch_target_def [abs_def])
  from h'(2) obtain kvs' where b: "b = Some kvs'"
    by (cases b) (auto simp: ContactPatchSchema_def)
  show "PATCH e st (AuthOk org) contactId b =
        (Response 200 (DataBody (project contact_columns (patched e d r))),
         st\<lparr>contacts := map (\<lambda>x. if x = r then patched e d r else x) (contacts st)\<rparr>,
         [ContactPatch])"
    using PATCH_writes [OF h'] by (simp only: patched_row [OF h'(2) [unfolded b]])
next
  assume "PATCH e st a contactId b = (resp, st', tr)"
  then show "st' = st
        \<or> (\<exists>org d r. a = AuthOk org \<and> ContactPatchSchema e b = Some d
              \<and> filter (\<lambda>x. col x ''organization_id'' = JStr org \<and> col x ''id'' = JStr contactId)
                   (contacts st) = [r]
              \<and> resp = Response 200 (DataBody (project contact_columns (patched e d r)))
              \<and> st' = st\<lparr>contacts := map (\<lambda>x. if x = r then patched e d r else x) (contacts st)\<rparr>)"
    by (rule PATCH_outcome)
qed

text \<open>
  The claim C7 as it is written fails for \<^verbatim>\<open>updated_at\<close>: the body of this partial
  update has no such member, and the stored value changes to the time of the update.
\<close>

theorem PATCH_sets_updated_at:
  "''updated_at'' \<notin> fst ` set [(''role'', JStr ''CEO'')]
   \<and> stored store_eva ''updated_at'' = [JStr ''2025-03-01T00:00:00.000Z'']
   \<and> status_of (fst (PATCH demo_env store_eva (AuthOk ''org1'')
        ''123e4567-e89b-12d3-a456-426614174000'' (Some [(''role'', JStr ''CEO'')]))) = 200
   \<and> stored (fst (snd (PATCH demo_env store_eva (AuthOk ''org1'')
        ''123e4567-e89b-12d3-a456-426614174000'' (Some [(''role'', JStr ''CEO'')]))))
        ''updated_at'' = [JStr ''2026-01-01T00:00:01.000Z'']"
  by (simp add: PATCH_def ContactPatchSchema_def patch_member_ok_def patch_text_keys_def
        patch_date_keys_def patch_invalid_date_def is_sentinel_def patch_target_def
        patch_updates_def set_if_present_def patch_text_def demo_env_sel helper_defs
        uuid_shape_def is_hex_def enumerate_eq_zip upt_rec store_eva_def contact_eva_def
        stored_def col_def map_add_def)

theorem PATCH_frame_witness:
  "isValidUUID demo_env ''123e4567-e89b-12d3-a456-426614174000''
   \<and> ContactPatchSchema demo_env (Some [(''role'', JStr '' CEO ''), (''birth_date'', JNull)])
       = Some (map_of [(''role'', JStr '' CEO ''), (''birth_date'', JNull)])
   \<and> patch_invalid_date demo_env (map_of [(''role'', JStr '' CEO ''), (''birth_date'', JNull)]) = None
   \<and> fault demo_env ContactPatch = None
   \<and> filter (\<lambda>x. col x ''organization_id'' = JStr ''org1''
                  \<and> col x ''id'' = JStr ''123e4567-e89b-12d3-a456-426614174000'')
        (contacts store_eva) = [contact_eva]
   \<and> PATCH demo_env store_eva (AuthOk ''org1'') ''123e4567-e89b-12d3-a456-426614174000''
        (Some [(''role'', JStr '' CEO ''), (''birth_date'', JNull)]) =
        (Response 200
           (DataBody
              (project contact_columns
                 (patched demo_env (map_of [(''role'', JStr '' CEO ''), (''birth_date'', JNull)])
                    contact_eva))),
         store_eva\<lparr>contacts :=
           map (\<lambda>x. if x = contact_eva
                     then patched demo_env
                            (map_of [(''role'', JStr '' CEO ''), (''birth_date'', JNull)]) contact_eva
                     else x)
             (contacts store_eva)\<rparr>,
         [ContactPatch])
   \<and> patched demo_env (map_of [(''role'', JStr '' CEO ''), (''birth_date'', JNull)]) contact_eva
        ''name'' = Some (JStr ''Eva'')
   \<and> patched demo_env (map_of [(''role'', JStr '' CEO ''), (''birth_date'', JNull)]) contact_eva
        ''role'' = Some (JStr ''CEO'')
   \<and> patched demo_env (map_of [(''role'', JStr '' CEO ''), (''birth_date'', JNull)]) contact_eva
        ''birth_date'' = Some JNull
   \<and> patched demo_env (map_of [(''role'', JStr '' CEO ''), (''birth_date'', JNull)]) contact_eva
        ''updated_at'' = Some (JStr ''2026-01-01T00:00:01.000Z'')
   \<and> PATCH demo_env store_eva (AuthOk ''org1'') ''123e4567-e89b-12d3-a456-426614174000''
        (Some [(''nickname'', JStr ''E'')])
       = (err 422 ''Invalid payload'' VALIDATION_ERROR, store_eva, [])"
proof -
  let ?id = "''123e4567-e89b-12d3-a456-426614174000''"
  let ?kvs = "[(''role'', JStr '' CEO ''), (''birth_date'', JNull)]"
  let ?r' = "patched demo_env (map_of ?kvs) contact_eva"
  have h1: "isValidUUID demo_env ?id"
    by (simp add: demo_env_sel uuid_shape_def is_hex_def enumerate_eq_zip upt_rec)
  have h2: "ContactPatchSchema demo_env (Some ?kvs) = Some (map_of ?kvs)"
    by (simp add: ContactPatchSchema_def patch_member_ok_def patch_text_keys_def patch_date_keys_def)
  have h3: "patch_invalid_date demo_env (map_of ?kvs) = None"
    by (simp add: patch_invalid_date_def is_sentinel_def patch_date_def)
  have h4: "fault demo_env ContactPatch = None"
    by (simp add: demo_env_sel)
  have h5: "filter (\<lambda>x. col x ''organization_id'' = JStr ''org1'' \<and> col x ''id'' = JStr ?id)
              (contacts store_eva) = [contact_eva]"
    by (simp add: store_eva_def contact_eva_def col_def)
  note T = PATCH_frame [where e = demo_env and kvs = ?kvs and d = "map_of ?kvs"
      and r = contact_eva and contactId = ?id and b = "Some ?kvs" and org = "''org1''"
      and st = store_eva]
  note F = T [THEN conjunct1, THEN mp, OF h2]
  have p: "PATCH demo_env store_eva (AuthOk ''org1'') ?id (Some ?kvs) =
        (Response 200 (DataBody (project contact_columns ?r')),
         store_eva\<lparr>contacts := map (\<lambda>x. if x = contact_eva then ?r' else x) (contacts store_eva)\<rparr>,
         [ContactPatch])"
    by (rule T [THEN conjunct2, THEN conjunct1, THEN mp]) (intro conjI h1 h2 h3 h4 h5)
  have "?r' ''name'' = contact_eva ''name''"
    using F [THEN conjunct1, rule_format, of "''name''"] by simp
  then have a: "?r' ''name'' = Some (JStr ''Eva'')"
    by (simp add: contact_eva_def)
  have "?r' ''role'' = Some (written demo_env ''role'' (JStr '' CEO ''))"
    using F [THEN conjunct2, THEN conjunct1, rule_format, of "''role''" "JStr '' CEO ''"] by simp
  then have b: "?r' ''role'' = Some (JStr ''CEO'')"
    by (simp add: written_def demo_env_sel helper_defs)
  have c: "?r' ''birth_date'' = Some JNull"
    using F [THEN conjunct2, THEN conjunct2, THEN conjunct1, rule_format, of "''birth_date''"]
    by (simp add: patch_nullable_def)
  have "?r' ''updated_at'' = Some (JStr (now demo_env))"
    by (rule F [THEN conjunct2, THEN conjunct2, THEN conjunct2])
  then have s: "?r' ''updated_at'' = Some (JStr ''2026-01-01T00:00:01.000Z'')"
    by (simp add: demo_env_sel)
  have q: "PATCH demo_env store_eva (AuthOk ''org1'') ?id (Some [(''nickname'', JStr ''E'')])
       = (err 422 ''Invalid payload'' VALIDATION_ERROR, store_eva, [])"
    by (simp add: PATCH_def ContactPatchSchema_def patch_member_ok_def patch_text_keys_def
          patch_date_keys_def h1)
  show ?thesis
    by (intro conjI) (rule h1 h2 h3 h4 h5 p a b c s q)+
qed

section \<open>POST: what an update and a creation write\<close>

lemma create_path_success:
  assumes "create_path e st tr nm p = (Response s (UpsertBody data act), st', tr')"
  shows "s = 201 \<and> act = ''created'' \<and> truthy nm
         \<and> data = project contact_columns
              (contact_row e (p(''name'' \<mapsto> ostr nm, ''created_at'' \<mapsto> JStr (now e),
                                ''status'' \<mapsto> JStr ''ACTIVE'', ''stage'' \<mapsto> JStr ''LEAD'')))
         \<and> contacts st' = contacts st @
              [contact_row e (p(''name'' \<mapsto> ostr nm, ''created_at'' \<mapsto> JStr (now e),
                                ''status'' \<mapsto> JStr ''ACTIVE'', ''stage'' \<mapsto> JStr ''LEAD''))]"
  using assms
  by (auto simp: create_path_def err_def Let_def split: if_splits option.splits)

lemma upsert_success:
  assumes u: "upsert e st org d em ph nm cn bd lp li = (Response s (UpsertBody data act), st', tr)"
  shows "\<exists>cid st1 tr1. company_step e st org d cn = (Inr cid, st1, tr1) \<and>
     ((s = 200 \<and> act = ''updated'' \<and>
        (\<exists>r \<in> set (contacts st).
           data = project contact_columns (r ++ update_payload e org d em ph nm cn cid bd li lp)
           \<and> contacts st' =
               map (\<lambda>x. if col x ''id'' = col r ''id''
                         then x ++ update_payload e org d em ph nm cn cid bd li lp else x)
                 (contacts st)
           \<and> contacts st' =
               map (\<lambda>x. if x = r
                         then r ++ update_payload e org d em ph nm cn cid bd li lp else x)
                 (contacts st)))
      \<or> (s = 201 \<and> act = ''created'' \<and> truthy nm
           \<and> data = project contact_columns (insert_row e org d em ph nm cn cid bd li lp)
           \<and> contacts st' = contacts st @ [insert_row e org d em ph nm cn cid bd li lp]))"
proof -
  obtain res st1 tr1 where cs: "company_step e st org d cn = (res, st1, tr1)"
    by (cases "company_step e st org d cn") auto
  from company_step_frame [OF cs] have c1: "contacts st1 = contacts st" by simp
  show ?thesis
  proof (cases res)
    case (Inl m)
    with u cs show ?thesis by (simp add: upsert_def err_def)
  next
    case (Inr cid)
    show ?thesis
    proof (cases "maybeSingle (fault e ContactLookup)
                    (map (project [''id'']) (lookup_matches e st1 org em ph))")
      case (Inl m)
      with u cs \<open>res = Inr cid\<close> show ?thesis by (simp add: upsert_def err_def)
    next
      case (Inr existing)
      show ?thesis
      proof (cases "js_truthy (data_id existing)")
        case True
        with u cs \<open>res = Inr cid\<close> Inr
        have "update_path e st1 (tr1 @ [ContactLookup]) (data_id existing)
                (update_payload e org d em ph nm cn cid bd li lp)
              = (Response s (UpsertBody data act), st', tr)"
          by (simp add: upsert_def Let_def update_payload_def)
        from update_path_success [OF this] cs \<open>res = Inr cid\<close> c1 show ?thesis
          by auto
      next
        case False
        with u cs \<open>res = Inr cid\<close> Inr
        have "create_path e st1 (tr1 @ [ContactLookup]) nm
                (upsert_payload e org d em ph cn cid bd li lp)
              = (Response s (UpsertBody data act), st', tr)"
          by (simp add: upsert_def Let_def)
        from create_path_success [OF this] cs \<open>res = Inr cid\<close> c1 show ?thesis
          by (auto simp: insert_row_def)
      qed
    qed
  qed
qed

lemma POST_success_checked:
  assumes "POST e st (AuthOk org) b = (Response s (UpsertBody data act), st', tr)"
  shows "\<not> body_check_fails e b"
proof
  assume "body_check_fails e b"
  from POST_rejected [OF this, of st org] assms show False
    by (auto simp: err_def)
qed


lemma upsert_payload_at:
  "upsert_payload e org d em ph cn cid bd li lp ''email'' = Some (ostr em)"
  "upsert_payload e org d em ph cn cid bd li lp ''phone'' = Some (ostr ph)"
  "upsert_payload e org d em ph cn cid bd li lp ''role'' = Some (ostr (normalizeText e (dstr d ''role'')))"
  "upsert_payload e org d em ph cn cid bd li lp ''company_name'' = Some (ostr cn)"
  "upsert_payload e org d em ph cn cid bd li lp ''client_company_id'' = Some cid"
  "upsert_payload e org d em ph cn cid bd li lp ''avatar'' = Some (ostr (normalizeText e (dstr d ''avatar'')))"
  "upsert_payload e org d em ph cn cid bd li lp ''status'' = Some (ostr (normalizeText e (dstr d ''status'')))"
  "upsert_payload e org d em ph cn cid bd li lp ''stage'' = Some (ostr (normalizeText e (dstr d ''stage'')))"
  "upsert_payload e org d em ph cn cid bd li lp ''source'' = Some (ostr (normalizeText e (dstr d ''source'')))"
  "upsert_payload e org d em ph cn cid bd li lp ''notes'' = Some (ostr (normalizeText e (dstr d ''notes'')))"
  "upsert_payload e org d em ph cn cid bd li lp ''birth_date'' = Some (ostr bd)"
  "upsert_payload e org d em ph cn cid bd li lp ''last_interaction'' = Some (ostr li)"
  "upsert_payload e org d em ph cn cid bd li lp ''last_purchase_date'' = Some (ostr lp)"
  "upsert_payload e org d em ph cn cid bd li lp ''total_value'' = d ''total_value''"
  by (simp_all add: upsert_payload_def split: option.splits)

lemma update_payload_at:
  "k \<noteq> ''name'' \<Longrightarrow>
   update_payload e org d em ph nm cn cid bd li lp k = upsert_payload e org d em ph cn cid bd li lp k"
  "update_payload e org d em ph nm cn cid bd li lp ''name'' = (if truthy nm then Some (ostr nm) else None)"
  by (simp_all add: update_payload_def upsert_payload_keeps)

lemma insert_row_at:
  "insert_row e org d em ph nm cn cid bd li lp ''status'' = Some (JStr ''ACTIVE'')"
  "insert_row e org d em ph nm cn cid bd li lp ''stage'' = Some (JStr ''LEAD'')"
  by (simp_all add: insert_row_def contact_row_def map_add_def)

text \<open>
  C10. Whenever the upsert answers with a record, the action is \<open>created\<close> with status
  201 or \<open>updated\<close> with status 200. On a creation one row is appended, and its
  \<^verbatim>\<open>status\<close> is \<open>ACTIVE\<close> and its \<^verbatim>\<open>stage\<close> is \<open>LEAD\<close>, whatever the body gave for
  them. On an update the record's \<^verbatim>\<open>status\<close> and \<^verbatim>\<open>stage\<close> are the normalised values of
  the body.
\<close>

theorem POST_create_defaults:
  assumes d: "ContactUpsertSchema e b = Some d"
    and out: "POST e st (AuthOk org) b = (Response s (UpsertBody data act), st', tr)"
  shows "(act = ''created'' \<or> act = ''updated'')
     \<and> (act = ''created'' \<longrightarrow>
          s = 201
          \<and> (\<exists>row. contacts st' = contacts st @ [row] \<and> data = project contact_columns row
                \<and> row ''status'' = Some (JStr ''ACTIVE'') \<and> row ''stage'' = Some (JStr ''LEAD''))
          \<and> col data ''status'' = JStr ''ACTIVE'' \<and> col data ''stage'' = JStr ''LEAD'')
     \<and> (act = ''updated'' \<longrightarrow>
          s = 200
          \<and> (\<exists>r r'. r \<in> set (contacts st)
                \<and> contacts st' = map (\<lambda>x. if x = r then r' else x) (contacts st)
                \<and> data = project contact_columns r'
                \<and> r' ''status'' = Some (ostr (normalizeText e (dstr d ''status'')))
                \<and> r' ''stage'' = Some (ostr (normalizeText e (dstr d ''stage''))))
          \<and> col data ''status'' = ostr (normalizeText e (dstr d ''status''))
          \<and> col data ''stage'' = ostr (normalizeText e (dstr d ''stage'')))"
proof -
  let ?em = "normalizeEmail e (dstr d ''email'')" and ?ph = "normalizePhone e (dstr d ''phone'')"
  let ?nm = "normalizeText e (dstr d ''name'')" and ?cn = "normalizeText e (dstr d ''company_name'')"
  let ?bd = "toIsoDateString e (dstr d ''birth_date'')"
  let ?lp = "toIsoDateString e (dstr d ''last_purchase_date'')"
  let ?li = "toIsoTimestamp e (dstr d ''last_interaction'')"
  have cols: "''status'' \<in> set contact_columns" "''stage'' \<in> set contact_columns"
    by (simp_all add: contact_columns_def)
  from out POST_checked [OF d POST_success_checked [OF out], of st org]
  have "upsert e st org d ?em ?ph ?nm ?cn ?bd ?lp ?li = (Response s (UpsertBody data act), st', tr)"
    by simp
  from upsert_success [OF this] obtain cid where
    c: "(s = 200 \<and> act = ''updated'' \<and>
        (\<exists>r \<in> set (contacts st).
           data = project contact_columns (r ++ update_payload e org d ?em ?ph ?nm ?cn cid ?bd ?li ?lp)
           \<and> contacts st' =
               map (\<lambda>x. if x = r
                         then r ++ update_payload e org d ?em ?ph ?nm ?cn cid ?bd ?li ?lp else x)
                 (contacts st)))
      \<or> (s = 201 \<and> act = ''created''
           \<and> data = project contact_columns (insert_row e org d ?em ?ph ?nm ?cn cid ?bd ?li ?lp)
           \<and> contacts st' = contacts st @ [insert_row e org d ?em ?ph ?nm ?cn cid ?bd ?li ?lp])"
    by blast
  then show ?thesis
  proof (elim disjE conjE bexE)
    fix r
    let ?r' = "r ++ update_payload e org d ?em ?ph ?nm ?cn cid ?bd ?li ?lp"
    assume u: "s = 200" "act = ''updated''" "r \<in> set (contacts st)"
      "data = project contact_columns ?r'"
      "contacts st' = map (\<lambda>x. if x = r then ?r' else x) (contacts st)"
    have w: "?r' ''status'' = Some (ostr (normalizeText e (dstr d ''status'')))"
      "?r' ''stage'' = Some (ostr (normalizeText e (dstr d ''stage'')))"
      by (simp_all add: map_add_def update_payload_at upsert_payload_at)
    have "\<exists>r r'. r \<in> set (contacts st)
                \<and> contacts st' = map (\<lambda>x. if x = r then r' else x) (contacts st)
                \<and> data = project contact_columns r'
                \<and> r' ''status'' = Some (ostr (normalizeText e (dstr d ''status'')))
                \<and> r' ''stage'' = Some (ostr (normalizeText e (dstr d ''stage'')))"
      by (rule exI [of _ r], rule exI [of _ ?r']) (intro conjI u(3) u(5) u(4) w)
    with u show ?thesis
      by (simp add: col_project cols col_map_add update_payload_at upsert_payload_at)
  next
    assume "s = 201" "act = ''created''"
      and "data = project contact_columns (insert_row e org d ?em ?ph ?nm ?cn cid ?bd ?li ?lp)"
      and "contacts st' = contacts st @ [insert_row e org d ?em ?ph ?nm ?cn cid ?bd ?li ?lp]"
    then show ?thesis
      using insert_row_at [of e org d ?em ?ph ?nm ?cn cid ?bd ?li ?lp]
      by (simp add: col_project cols col_Some)
  qed
qed


theorem POST_create_defaults_witness:
  "ContactUpsertSchema demo_env
     (Some [(''name'', JStr ''Ana''), (''email'', JStr ''a@b.c''), (''status'', JStr ''VIP''),
            (''stage'', JStr ''CUSTOMER'')])
     = Some (map_of [(''name'', JStr ''Ana''), (''email'', JStr ''a@b.c''), (''status'', JStr ''VIP''),
                     (''stage'', JStr ''CUSTOMER'')])
   \<and> (\<exists>data st'. POST demo_env empty_store (AuthOk ''org1'')
          (Some [(''name'', JStr ''Ana''), (''email'', JStr ''a@b.c''), (''status'', JStr ''VIP''),
                 (''stage'', JStr ''CUSTOMER'')])
          = (Response 201 (UpsertBody data ''created''), st', [ContactLookup, ContactInsert])
        \<and> col data ''status'' = JStr ''ACTIVE'' \<and> col data ''stage'' = JStr ''LEAD'')
   \<and> ContactUpsertSchema demo_env (Some [(''email'', JStr ''ana@ex.com''), (''status'', JStr '' VIP '')])
     = Some (map_of [(''email'', JStr ''ana@ex.com''), (''status'', JStr '' VIP '')])
   \<and> (\<exists>data st'. POST demo_env store_two (AuthOk ''org1'')
          (Some [(''email'', JStr ''ana@ex.com''), (''status'', JStr '' VIP '')])
          = (Response 200 (UpsertBody data ''updated''), st', [ContactLookup, ContactUpdate])
        \<and> col data ''status'' = JStr ''VIP'' \<and> col data ''stage'' = JNull
        \<and> (\<exists>r r'. r \<in> set (contacts store_two)
              \<and> contacts st' = map (\<lambda>x. if x = r then r' else x) (contacts store_two)
              \<and> r' ''status'' = Some (JStr ''VIP'') \<and> r' ''stage'' = Some JNull))"
proof -
  let ?k1 = "[(''name'', JStr ''Ana''), (''email'', JStr ''a@b.c''), (''status'', JStr ''VIP''),
              (''stage'', JStr ''CUSTOMER'')]"
  let ?k2 = "[(''email'', JStr ''ana@ex.com''), (''status'', JStr '' VIP '')]"
  have h1: "ContactUpsertSchema demo_env (Some ?k1) = Some (map_of ?k1)"
    by (simp add: ContactUpsertSchema_def upsert_member_ok_def upsert_text_keys_def)
  have h2: "ContactUpsertSchema demo_env (Some ?k2) = Some (map_of ?k2)"
    by (simp add: ContactUpsertSchema_def upsert_member_ok_def upsert_text_keys_def)
  have "\<exists>data st'. POST demo_env empty_store (AuthOk ''org1'') (Some ?k1)
          = (Response 201 (UpsertBody data ''created''), st', [ContactLookup, ContactInsert])"
    by (simp add: post_defs demo_env_sel empty_store_def helper_defs)
  then obtain data1 st1 where p1: "POST demo_env empty_store (AuthOk ''org1'') (Some ?k1)
          = (Response 201 (UpsertBody data1 ''created''), st1, [ContactLookup, ContactInsert])"
    by blast
  from POST_create_defaults [OF h1 p1]
  have c1: "col data1 ''status'' = JStr ''ACTIVE''" "col data1 ''stage'' = JStr ''LEAD''"
    by simp_all
  have "\<exists>data st'. POST demo_env store_two (AuthOk ''org1'') (Some ?k2)
          = (Response 200 (UpsertBody data ''updated''), st', [ContactLookup, ContactUpdate])"
    by (simp add: post_defs demo_env_sel helper_defs row_defs)
  then obtain data2 st2 where p2: "POST demo_env store_two (AuthOk ''org1'') (Some ?k2)
          = (Response 200 (UpsertBody data2 ''updated''), st2, [ContactLookup, ContactUpdate])"
    by blast
  note U = POST_create_defaults [OF h2 p2, THEN conjunct2, THEN conjunct2, THEN mp, OF refl]
  have n: "ostr (normalizeText demo_env (dstr (map_of ?k2) ''status'')) = JStr ''VIP''"
    "ostr (normalizeText demo_env (dstr (map_of ?k2) ''stage'')) = JNull"
    by (simp_all add: demo_env_sel helper_defs)
  note V = U [unfolded n, THEN conjunct2]
  have c2: "col data2 ''status'' = JStr ''VIP''" "col data2 ''stage'' = JNull"
    by (rule V [THEN conjunct2, THEN conjunct1], rule V [THEN conjunct2, THEN conjunct2])
  from V [THEN conjunct1]
  have c3: "\<exists>r r'. r \<in> set (contacts store_two)
              \<and> contacts st2 = map (\<lambda>x. if x = r then r' else x) (contacts store_two)
              \<and> r' ''status'' = Some (JStr ''VIP'') \<and> r' ''stage'' = Some JNull"
    by blast
  from h1 h2 p1 c1 p2 c2 c3 show ?thesis
    by blast
qed

lemma company_step_absent:
  assumes "d ''client_company_id'' = None" "\<not> truthy (sanitizeUUID e None)"
  shows "company_step e st org d cn =
           (if truthy cn then resolveCompanyIdFromName e st org (sval cn) else (Inr JNull, st, []))"
  using assms by (simp add: company_step_def dstr_def Let_def)

lemma dstr_absent: "d k = None \<Longrightarrow> dstr d k = None"
  by (simp add: dstr_def)

text \<open>
  C9, as the code has it. When the upsert answers \<open>updated\<close>, the matched record \<open>r\<close>
  is overwritten with an object \<open>p\<close>: for every member among email, phone, role,
  company_name, avatar, status, stage, source, notes, birth_date, last_interaction and
  last_purchase_date that the body does not have, \<open>p\<close> carries null (given helpers that
  turn an absent input into null). \<^verbatim>\<open>client_company_id\<close>, when the body has none, is
  null if the company name, once normalised, is absent or empty (the body has none, or a
  blank one), and the id the resolver returns for the normalised company name otherwise.
  \<open>p\<close> has no \<^verbatim>\<open>name\<close> when the body has none, and no \<^verbatim>\<open>total_value\<close> when the body
  has none, so these two keep their stored values.
\<close>

theorem POST_update_overwrites:
  assumes d: "ContactUpsertSchema e b = Some d"
    and out: "POST e st (AuthOk org) b = (Response s (UpsertBody data ''updated''), st', tr)"
    and absent: "normalizeText e None = None" "normalizeEmail e None = None"
      "normalizePhone e None = None" "\<not> truthy (sanitizeUUID e None)"
  shows "\<exists>r p. r \<in> set (contacts st)
      \<and> data = project contact_columns (r ++ p)
      \<and> contacts st' = map (\<lambda>x. if col x ''id'' = col r ''id'' then x ++ p else x) (contacts st)
      \<and> (\<forall>k \<in> set upsert_nullable. d k = None \<longrightarrow> p k = Some JNull)
      \<and> (d ''client_company_id'' = None \<and> \<not> truthy (normalizeText e (dstr d ''company_name'')) \<longrightarrow>
           p ''client_company_id'' = Some JNull)
      \<and> (d ''client_company_id'' = None \<and> truthy (normalizeText e (dstr d ''company_name'')) \<longrightarrow>
           (\<exists>v. p ''client_company_id'' = Some v
              \<and> fst (resolveCompanyIdFromName e st org (sval (normalizeText e (dstr d ''company_name''))))
                  = Inr v))
      \<and> (d ''name'' = None \<longrightarrow> p ''name'' = None)
      \<and> (d ''total_value'' = None \<longrightarrow> p ''total_value'' = None)
      \<and> p ''id'' = None \<and> p ''created_at'' = None"
proof -
  let ?em = "normalizeEmail e (dstr d ''email'')" and ?ph = "normalizePhone e (dstr d ''phone'')"
  let ?nm = "normalizeText e (dstr d ''name'')" and ?cn = "normalizeText e (dstr d ''company_name'')"
  let ?bd = "toIsoDateString e (dstr d ''birth_date'')"
  let ?lp = "toIsoDateString e (dstr d ''last_purchase_date'')"
  let ?li = "toIsoTimestamp e (dstr d ''last_interaction'')"
  from out POST_checked [OF d POST_success_checked [OF out], of st org]
  have "upsert e st org d ?em ?ph ?nm ?cn ?bd ?lp ?li
          = (Response s (UpsertBody data ''updated''), st', tr)"
    by simp
  from upsert_success [OF this] obtain cid st1 tr1 r where
    cs: "company_step e st org d ?cn = (Inr cid, st1, tr1)"
    and r: "r \<in> set (contacts st)"
      "data = project contact_columns (r ++ update_payload e org d ?em ?ph ?nm ?cn cid ?bd ?li ?lp)"
      "contacts st' =
         map (\<lambda>x. if col x ''id'' = col r ''id''
                   then x ++ update_payload e org d ?em ?ph ?nm ?cn cid ?bd ?li ?lp else x)
           (contacts st)"
    by auto
  let ?p = "update_payload e org d ?em ?ph ?nm ?cn cid ?bd ?li ?lp"
  have nulls: "\<forall>k \<in> set upsert_nullable. d k = None \<longrightarrow> ?p k = Some JNull"
    by (simp add: upsert_nullable_def update_payload_at upsert_payload_at absent ostr_def
          dstr_absent)
  have none: "?p ''client_company_id'' = Some JNull"
    if "d ''client_company_id'' = None" "\<not> truthy ?cn"
  proof -
    from that absent have "company_step e st org d ?cn = (Inr JNull, st, [])"
      by (simp add: company_step_absent)
    with cs have "cid = JNull" by simp
    then show ?thesis by (simp add: update_payload_at upsert_payload_at)
  qed
  have resolved: "\<exists>v. ?p ''client_company_id'' = Some v
              \<and> fst (resolveCompanyIdFromName e st org (sval ?cn)) = Inr v"
    if "d ''client_company_id'' = None" "truthy ?cn"
  proof -
    from that absent have "company_step e st org d ?cn = resolveCompanyIdFromName e st org (sval ?cn)"
      by (simp add: company_step_absent)
    with cs have "fst (resolveCompanyIdFromName e st org (sval ?cn)) = Inr cid" by simp
    then show ?thesis by (simp add: update_payload_at upsert_payload_at)
  qed
  have name: "?p ''name'' = None" if "d ''name'' = None"
    using that absent by (simp add: update_payload_at truthy_def dstr_absent)
  have tv: "?p ''total_value'' = None" if "d ''total_value'' = None"
    using that by (simp add: update_payload_at upsert_payload_at)
  show ?thesis
  proof (rule exI [of _ r], rule exI [of _ ?p], intro conjI impI)
    show "r \<in> set (contacts st)" by (rule r(1))
    show "data = project contact_columns (r ++ ?p)" by (rule r(2))
    show "contacts st' = map (\<lambda>x. if col x ''id'' = col r ''id'' then x ++ ?p else x) (contacts st)"
      by (rule r(3))
    show "\<forall>k \<in> set upsert_nullable. d k = None \<longrightarrow> ?p k = Some JNull" by (rule nulls)
    show "?p ''id'' = None" "?p ''created_at'' = None"
      by (simp_all add: update_payload_at upsert_payload_keeps)
  qed (simp_all add: none resolved name tv)
qed


text \<open>
  The claim C9 as it is written fails for \<^verbatim>\<open>client_company_id\<close>: a body without it but
  with a company name updates the matched contact with the id of the resolved company,
  not with null.
\<close>

theorem POST_update_resolves_company:
  "map_of [(''email'', JStr ''ana@ex.com''), (''company_name'', JStr ''axb'')] ''client_company_id''
     = None
   \<and> stored store_ana_axb ''client_company_id'' = [JNull]
   \<and> status_of (fst (POST demo_env store_ana_axb (AuthOk ''org1'')
        (Some [(''email'', JStr ''ana@ex.com''), (''company_name'', JStr ''axb'')]))) = 200
   \<and> stored (fst (snd (POST demo_env store_ana_axb (AuthOk ''org1'')
        (Some [(''email'', JStr ''ana@ex.com''), (''company_name'', JStr ''axb'')]))))
        ''client_company_id'' = [JStr ''k1'']"
  by (simp add: post_defs demo_env_sel helper_defs row_defs store_ana_axb_def company_axb_def
        ilike_col_def ilike_col_by_def ilike_by_def stored_def upsert_payload_def map_add_def)

theorem POST_update_overwrites_witness:
  "ContactUpsertSchema demo_env
       (Some [(''email'', JStr ''ana@ex.com''), (''company_name'', JStr ''  '')])
     = Some (map_of [(''email'', JStr ''ana@ex.com''), (''company_name'', JStr ''  '')])
   \<and> normalizeText demo_env None = None \<and> normalizeEmail demo_env None = None
   \<and> normalizePhone demo_env None = None \<and> \<not> truthy (sanitizeUUID demo_env None)
   \<and> \<not> truthy (normalizeText demo_env
          (dstr (map_of [(''email'', JStr ''ana@ex.com''), (''company_name'', JStr ''  '')])
             ''company_name''))
   \<and> (\<exists>data st'. POST demo_env store_two (AuthOk ''org1'')
          (Some [(''email'', JStr ''ana@ex.com''), (''company_name'', JStr ''  '')])
          = (Response 200 (UpsertBody data ''updated''), st', [ContactLookup, ContactUpdate])
        \<and> col data ''role'' = JNull \<and> col data ''birth_date'' = JNull
        \<and> col data ''client_company_id'' = JNull)"
proof -
  let ?kvs = "[(''email'', JStr ''ana@ex.com''), (''company_name'', JStr ''  '')]"
  have h1: "ContactUpsertSchema demo_env (Some ?kvs) = Some (map_of ?kvs)"
    by (simp add: ContactUpsertSchema_def upsert_member_ok_def upsert_text_keys_def)
  have h2: "normalizeText demo_env None = None" "normalizeEmail demo_env None = None"
    "normalizePhone demo_env None = None" "\<not> truthy (sanitizeUUID demo_env None)"
    by (simp_all add: demo_env_sel helper_defs)
  have h3: "\<not> truthy (normalizeText demo_env (dstr (map_of ?kvs) ''company_name''))"
    by (simp add: demo_env_sel helper_defs)
  have "\<exists>data st'. POST demo_env store_two (AuthOk ''org1'') (Some ?kvs)
          = (Response 200 (UpsertBody data ''updated''), st', [ContactLookup, ContactUpdate])"
    by (simp add: post_defs demo_env_sel helper_defs row_defs)
  then obtain data st' where p: "POST demo_env store_two (AuthOk ''org1'') (Some ?kvs)
          = (Response 200 (UpsertBody data ''updated''), st', [ContactLookup, ContactUpdate])"
    by blast
  from POST_update_overwrites [OF h1 p h2] obtain r q where
    dq: "data = project contact_columns (r ++ q)"
    and nulls: "\<forall>k \<in> set upsert_nullable. map_of ?kvs k = None \<longrightarrow> q k = Some JNull"
    and cc: "map_of ?kvs ''client_company_id'' = None
               \<and> \<not> truthy (normalizeText demo_env (dstr (map_of ?kvs) ''company_name'')) \<longrightarrow>
               q ''client_company_id'' = Some JNull"
    by blast
  from nulls have "q ''role'' = Some JNull" "q ''birth_date'' = Some JNull"
    by (simp_all add: upsert_nullable_def)
  moreover from cc h3 have "q ''client_company_id'' = Some JNull"
    by simp
  ultimately have "col data ''role'' = JNull" "col data ''birth_date'' = JNull"
    "col data ''client_company_id'' = JNull"
    by (simp_all add: dq col_project contact_columns_def col_map_add)
  with h1 h2 h3 p show ?thesis
    by blast
qed

end
